theory Spec2Isabelle
  imports Complex_Main "HOL-Library.Word"
begin

unbundle bit_operations_syntax

section \<open>ScaryPi: animated eyes on two 8x8 LED matrices\<close>

text \<open>
  A shallow embedding of \<^verbatim>\<open>scarypi.py\<close> (a Python 2 script: it iterates with
  \<^verbatim>\<open>xrange\<close>, so \<^verbatim>\<open>/\<close> on two integers is floor division).

  Conventions of the embedding:
  \<^item> Python objects that are shared and mutated are kept in an explicit state, the
    \<open>world\<close>: a store of \<open>Point\<close> objects addressed by references, the \<open>Eye\<close>
    objects, and the display device. A Python variable holding
    a \<open>Point\<close> or an \<open>Eye\<close> is a reference into that state, so aliasing is visible.
  \<^item> An animation object is owned by the combinator that holds it (the script never puts one
    animation object into two combinators), so the animation tree is a value of the
    datatype \<open>anim\<close>, and \<open>begin\<close> and \<open>tick\<close> return the updated tree.
  \<^item> A timestamp (\<^verbatim>\<open>datetime\<close>) is an integer number of microseconds, the resolution of
    \<^verbatim>\<open>datetime\<close>.
  \<^item> A Python float is a double; it is modelled by the real number it denotes, and every
    arithmetic operation on floats rounds its exact result to the nearest double (subsection
    \<open>Floats\<close>). \<^verbatim>\<open>int(f)\<close> of a float is truncation towards zero.
  \<^item> The only exception the animation engine can raise is the \<^verbatim>\<open>TypeError\<close> of
    \<^verbatim>\<open>now - self.start\<close> when \<^verbatim>\<open>self.start\<close> is still \<^verbatim>\<open>None\<close>; it is the \<open>Inl\<close> branch
    of \<open>tick\<close>.
  \<^item> A method \<^verbatim>\<open>C.m\<close> is the constant \<open>C_m\<close>; a leading underscore of the Python name
    (\<^verbatim>\<open>_look\<close>, \<^verbatim>\<open>_animate\<close>) is written as a trailing prime (\<open>Eye_look'\<close>). The field
    \<^verbatim>\<open>done\<close> is \<open>is_done\<close> and the method \<^verbatim>\<open>begin\<close> is \<open>anim_begin\<close>, since \<^verbatim>\<open>done\<close> and
    \<^verbatim>\<open>begin\<close> are reserved words here; the fields \<^verbatim>\<open>x\<close> and \<^verbatim>\<open>y\<close> of a point are \<open>pt_x\<close>
    and \<open>pt_y\<close>.
\<close>

subsection \<open>Points and the device\<close>

type_synonym ref = nat

text \<open>
  The script creates two \<open>Eye\<close> objects, the variables \<^verbatim>\<open>left\<close> and \<^verbatim>\<open>right\<close> of
  \<^verbatim>\<open>animation_loop\<close>; a reference to an eye names one of them.
\<close>

datatype eye_ref = Left_eye | Right_eye

record Point =
  pt_x :: int
  pt_y :: int

record Eye =
  pixels :: "8 word list"
  pupil :: ref
  eyelids :: int

text \<open>
  The device is the log of the levels passed to \<^verbatim>\<open>device.contrast\<close>, oldest first.
  \<open>next_ref\<close> is the first reference that no \<open>Point\<close> has been given yet.
\<close>

record world =
  heap :: "ref \<Rightarrow> Point"
  next_ref :: ref
  eyes :: "eye_ref \<Rightarrow> Eye"
  device :: "int list"

datatype error = TypeError

text \<open>\<^verbatim>\<open>Point(x, y)\<close>: a new object, at a reference that was not in use.\<close>

definition Point_init :: "int \<Rightarrow> int \<Rightarrow> world \<Rightarrow> ref \<times> world" where
  "Point_init x y w =
     (next_ref w,
      w\<lparr>heap := (heap w)(next_ref w := \<lparr>pt_x = x, pt_y = y\<rparr>),
        next_ref := Suc (next_ref w)\<rparr>)"

subsection \<open>Floats\<close>

text \<open>
  A Python float is a double, a number with 53 significant bits, and it is modelled by the
  real number it denotes. \<open>fl x\<close> is the double nearest to the real number \<open>x\<close>: \<open>x\<close> is
  rounded to a multiple of \<open>ulp x\<close>, the distance between the doubles around \<open>x\<close>, and of
  two nearest multiples the even one is taken (\<open>round_even\<close>). An arithmetic operation of
  Python on floats returns the double nearest to its exact result (\<open>fadd\<close>, \<open>fsub\<close>,
  \<open>fmul\<close>, \<open>fdiv\<close>). An integer operand is converted to a float first (\<open>float_of_int\<close>);
  the integer literals of the script are doubles and are written as they are. A literal such
  as \<^verbatim>\<open>0.49\<close> is the double \<open>fl (49 / 100)\<close>. Comparisons are exact.
  \<^verbatim>\<open>timedelta.total_seconds()\<close> is the double nearest to the number of microseconds
  divided by \<open>10^6\<close>. The exponent of a double is not bounded here: overflow (numbers of
  magnitude \<open>2^1024\<close> and more) and the reduced precision below \<open>2^-1022\<close> are outside the
  model. The one division by a variable, \<^verbatim>\<open>dt / self.duration_ms\<close>, is reached with a
  positive duration only.
\<close>

definition round_even :: "real \<Rightarrow> int" where
  "round_even x =
     (if x - of_int \<lfloor>x\<rfloor> < 1 / 2 then \<lfloor>x\<rfloor>
      else if 1 / 2 < x - of_int \<lfloor>x\<rfloor> then \<lfloor>x\<rfloor> + 1
      else if even \<lfloor>x\<rfloor> then \<lfloor>x\<rfloor> else \<lfloor>x\<rfloor> + 1)"

definition ulp :: "real \<Rightarrow> real" where
  "ulp x = 2 powi (\<lfloor>log 2 \<bar>x\<bar>\<rfloor> - 52)"

definition fl :: "real \<Rightarrow> real" where
  "fl x = (if x = 0 then 0 else of_int (round_even (x / ulp x)) * ulp x)"

definition fadd :: "real \<Rightarrow> real \<Rightarrow> real" where
  "fadd x y = fl (x + y)"

definition fsub :: "real \<Rightarrow> real \<Rightarrow> real" where
  "fsub x y = fl (x - y)"

definition fmul :: "real \<Rightarrow> real \<Rightarrow> real" where
  "fmul x y = fl (x * y)"

definition fdiv :: "real \<Rightarrow> real \<Rightarrow> real" where
  "fdiv x y = fl (x / y)"

definition float_of_int :: "int \<Rightarrow> real" where
  "float_of_int n = fl (of_int n)"

definition total_seconds :: "int \<Rightarrow> real" where
  "total_seconds us = fl (of_int us / 1000000)"

text \<open>\<^verbatim>\<open>int(f)\<close> for a float \<open>f\<close>: truncation towards zero.\<close>

definition int_trunc :: "real \<Rightarrow> int" where
  "int_trunc q = (if 0 \<le> q then \<lfloor>q\<rfloor> else \<lceil>q\<rceil>)"

subsection \<open>Eyes\<close>

definition eye_ball :: "8 word list" where
  "eye_ball = [0x3C, 0x7E, 0xFF, 0xFF, 0xFF, 0xFF, 0x7E, 0x3C]"

text \<open>\<^verbatim>\<open>Eye()\<close>, assigned to the variable \<open>e\<close>.\<close>

definition Eye_init :: "eye_ref \<Rightarrow> world \<Rightarrow> world" where
  "Eye_init e w =
     (let (p, w1) = Point_init 4 4 w
      in w1\<lparr>eyes := (eyes w1)(e := \<lparr>pixels = eye_ball, pupil = p, eyelids = - 1\<rparr>)\<rparr>)"

definition Eye_off' :: "int \<Rightarrow> int \<Rightarrow> Eye \<Rightarrow> Eye" where
  "Eye_off' x y e =
     (let y1 = y mod 8; x1 = x mod 8
      in e\<lparr>pixels := (pixels e)[nat y1 := (pixels e ! nat y1) AND NOT (push_bit (nat (7 - x1)) 1)]\<rparr>)"

definition Eye_row_off' :: "int \<Rightarrow> Eye \<Rightarrow> Eye" where
  "Eye_row_off' y e =
     (let y1 = y mod int (length (pixels e))
      in e\<lparr>pixels := (pixels e)[nat y1 := 0]\<rparr>)"

text \<open>
  \<^verbatim>\<open>self.pupil = pos\<close> stores the reference, so the two assignments that follow write
  through it into the object \<open>pos\<close> itself.
\<close>

definition Eye_look' :: "eye_ref \<Rightarrow> ref \<Rightarrow> world \<Rightarrow> world" where
  "Eye_look' e pos w =
     (let w1 = w\<lparr>eyes := (eyes w)(e := (eyes w e)\<lparr>pupil := pos\<rparr>)\<rparr>;
          r1 = pupil (eyes w1 e);
          w2 = w1\<lparr>heap := (heap w1)(r1 := (heap w1 r1)\<lparr>pt_x := pt_x (heap w1 r1) mod 8\<rparr>)\<rparr>;
          r2 = pupil (eyes w2 e)
      in w2\<lparr>heap := (heap w2)(r2 := (heap w2 r2)\<lparr>pt_y := pt_y (heap w2 r2) mod 8\<rparr>)\<rparr>)"

definition Eye_eyelids' :: "eye_ref \<Rightarrow> int \<Rightarrow> world \<Rightarrow> world" where
  "Eye_eyelids' e offset w =
     w\<lparr>eyes := (eyes w)(e := (eyes w e)\<lparr>eyelids := max (- 1) (min offset 3)\<rparr>)\<rparr>"

text \<open>
  \<^verbatim>\<open>Eye.image\<close>: the loop \<^verbatim>\<open>for i in xrange(0, self.eyelids + 1)\<close> is a fold over
  \<open>[0..eyelids]\<close>. The result is the returned image, made of the bytes of the pixel
  buffer, and the eye with its pixel buffer rewritten. The buffer of an eye always has
  eight bytes (\<^verbatim>\<open>bytearray(Eye.eye_ball)\<close>), so the indices \<open>y mod 8\<close> are within range.
\<close>

definition Eye_image_loop :: "int list \<Rightarrow> Eye \<Rightarrow> Eye" where
  "Eye_image_loop is e = fold (\<lambda>i e1. Eye_row_off' (7 - i) (Eye_row_off' i e1)) is e"

definition Eye_image :: "(ref \<Rightarrow> Point) \<Rightarrow> Eye \<Rightarrow> 8 word list \<times> Eye" where
  "Eye_image h e =
     (let e0 = e\<lparr>pixels := eye_ball\<rparr>;
          e1 = Eye_off' (pt_x (h (pupil e0)) - 1) (pt_y (h (pupil e0)) - 1) e0;
          e2 = Eye_off' (pt_x (h (pupil e1))) (pt_y (h (pupil e1)) - 1) e1;
          e3 = Eye_off' (pt_x (h (pupil e2)) - 1) (pt_y (h (pupil e2))) e2;
          e4 = Eye_off' (pt_x (h (pupil e3))) (pt_y (h (pupil e3))) e3;
          e5 = (if eyelids e4 \<ge> 0 then Eye_image_loop [0..eyelids e4] e4 else e4)
      in (pixels e5, e5))"

subsection \<open>Animations\<close>

text \<open>
  One constructor per concrete class, with the fields of the class and of its base
  classes \<^verbatim>\<open>Animation\<close> (\<open>start\<close>, \<open>is_done\<close>) and \<^verbatim>\<open>LinearAnimation\<close> (\<open>duration_ms\<close>).
  \<^verbatim>\<open>GlowEyes.device\<close> refers to the one device of the world and needs no field.
  Durations are integers: every call of the script passes one.
\<close>

datatype anim =
    Look (start: "int option") (is_done: bool) (duration_ms: int)
         (eye: eye_ref) (origin: ref) (dest: ref) (dx: int) (dy: int)
  | Blink (start: "int option") (is_done: bool) (duration_ms: int)
          (eye: eye_ref) (eyelid: int)
  | GlowEyes (start: "int option") (is_done: bool) (duration_ms: int)
  | Wait (start: "int option") (is_done: bool) (duration_ms: int)
  | AnimationGroup (start: "int option") (is_done: bool) (animations: "anim list")
  | AnimationSequence (start: "int option") (is_done: bool) (animations: "anim list")
                      (active: "anim option")

text \<open>Field assignments \<^verbatim>\<open>self.start = v\<close> and \<^verbatim>\<open>self.done = v\<close>.\<close>

fun set_start :: "int option \<Rightarrow> anim \<Rightarrow> anim" where
  "set_start v (Look st d dur e org dst ddx ddy) = Look v d dur e org dst ddx ddy"
| "set_start v (Blink st d dur e lid) = Blink v d dur e lid"
| "set_start v (GlowEyes st d dur) = GlowEyes v d dur"
| "set_start v (Wait st d dur) = Wait v d dur"
| "set_start v (AnimationGroup st d as) = AnimationGroup v d as"
| "set_start v (AnimationSequence st d q act) = AnimationSequence v d q act"

fun set_done :: "bool \<Rightarrow> anim \<Rightarrow> anim" where
  "set_done v (Look st d dur e org dst ddx ddy) = Look st v dur e org dst ddx ddy"
| "set_done v (Blink st d dur e lid) = Blink st v dur e lid"
| "set_done v (GlowEyes st d dur) = GlowEyes st v dur"
| "set_done v (Wait st d dur) = Wait st v dur"
| "set_done v (AnimationGroup st d as) = AnimationGroup st v as"
| "set_done v (AnimationSequence st d q act) = AnimationSequence st v q act"

text \<open>
  \<^verbatim>\<open>begin\<close>: \<^verbatim>\<open>Animation.begin\<close> for every class but \<^verbatim>\<open>AnimationGroup\<close>, which also begins
  each of its children.
\<close>

fun anim_begin :: "int \<Rightarrow> anim \<Rightarrow> anim" where
  "anim_begin now (AnimationGroup st d as) =
     AnimationGroup (Some now) d (map (anim_begin now) as)"
| "anim_begin now a = set_start (Some now) a"

subsubsection \<open>Constructors\<close>

text \<open>An optional argument is \<open>None\<close> when the call leaves it to its default.\<close>

definition AnimationGroup_init :: "anim list \<Rightarrow> anim" where
  "AnimationGroup_init args = AnimationGroup None False args"

definition AnimationSequence_init :: "anim list \<Rightarrow> anim" where
  "AnimationSequence_init args = AnimationSequence None False args None"

definition Look_init :: "eye_ref \<Rightarrow> ref \<Rightarrow> int option \<Rightarrow> world \<Rightarrow> anim" where
  "Look_init e wh duration w =
     (let org = pupil (eyes w e);
          ddx = pt_x (heap w wh) - pt_x (heap w org);
          ddy = pt_y (heap w wh) - pt_y (heap w org)
      in Look None (ddx = 0 \<and> ddy = 0) (case duration of None \<Rightarrow> 200 | Some d \<Rightarrow> d)
              e org wh ddx ddy)"

definition Blink_init :: "eye_ref \<Rightarrow> int option \<Rightarrow> anim" where
  "Blink_init e duration = Blink None False (case duration of None \<Rightarrow> 500 | Some d \<Rightarrow> d) e 0"

definition GlowEyes_init :: "int option \<Rightarrow> anim" where
  "GlowEyes_init duration = GlowEyes None False (case duration of None \<Rightarrow> 300 | Some d \<Rightarrow> d)"

text \<open>
  \<^verbatim>\<open>Wait.__init__(self, eye, duration_ms=300)\<close>: the first positional argument is \<open>eye\<close>,
  which the body does not use. Every call of the script passes an integer there.
\<close>

definition Wait_init :: "int \<Rightarrow> int option \<Rightarrow> anim" where
  "Wait_init eye_arg duration = Wait None False (case duration of None \<Rightarrow> 300 | Some d \<Rightarrow> d)"

definition Eye_look :: "eye_ref \<Rightarrow> ref \<Rightarrow> int option \<Rightarrow> world \<Rightarrow> anim" where
  "Eye_look e pos duration w =
     Look_init e pos (Some (case duration of None \<Rightarrow> 300 | Some d \<Rightarrow> d)) w"

definition Eye_blink :: "eye_ref \<Rightarrow> int option \<Rightarrow> anim" where
  "Eye_blink e duration = Blink_init e (Some (case duration of None \<Rightarrow> 500 | Some d \<Rightarrow> d))"

subsubsection \<open>The steps of the leaf animations\<close>

definition Look_animate' :: "anim \<Rightarrow> real \<Rightarrow> world \<Rightarrow> world" where
  "Look_animate' a pct w =
     (if is_done a then w
      else let (curr, w1) =
                 Point_init
                   (int_trunc (fadd (float_of_int (pt_x (heap w (origin a))))
                                    (fmul (float_of_int (dx a)) pct)))
                   (int_trunc (fadd (float_of_int (pt_y (heap w (origin a))))
                                    (fmul (float_of_int (dy a)) pct))) w
           in Eye_look' (eye a) curr w1)"

definition Blink_animate' :: "anim \<Rightarrow> real \<Rightarrow> world \<Rightarrow> world" where
  "Blink_animate' a pct w =
     (if is_done a then w
      else let w1 = (if pct < 1 / 2
                     then Eye_eyelids' (eye a)
                            (int_trunc (fadd (fmul 4 (fdiv pct (fl (49 / 100)))) (1 / 2))) w
                     else Eye_eyelids' (eye a)
                            (int_trunc
                               (fsub 4 (fadd (fmul 4 (fdiv (fsub pct (1 / 2)) (fl (49 / 100))))
                                             (1 / 2)))) w)
           in if pct \<ge> 1 then Eye_eyelids' (eye a) (- 1) w1 else w1)"

definition device_contrast :: "int \<Rightarrow> world \<Rightarrow> world" where
  "device_contrast c w = w\<lparr>device := device w @ [c]\<rparr>"

definition GlowEyes_animate' :: "anim \<Rightarrow> real \<Rightarrow> world \<Rightarrow> world" where
  "GlowEyes_animate' a pct w =
     (if is_done a then w
      else let w1 = (if pct < 1 / 2
                     then device_contrast
                            (int_trunc (fadd 30 (fmul 120 (fdiv pct (fl (49 / 100)))))) w
                     else device_contrast
                            (int_trunc
                               (fsub 150 (fmul 120 (fdiv (fsub pct (1 / 2)) (fl (49 / 100)))))) w)
           in if pct \<ge> 1 then device_contrast 30 w1 else w1)"

text \<open>
  The dynamic dispatch of \<^verbatim>\<open>self._animate(pct)\<close>. \<^verbatim>\<open>Wait\<close> inherits the empty
  \<^verbatim>\<open>LinearAnimation._animate\<close>. The combinators are no linear animations and never get
  here (\<open>tick\<close> below); the last equation only makes the function total.
\<close>

fun animate' :: "anim \<Rightarrow> real \<Rightarrow> world \<Rightarrow> world" where
  "animate' (Look st d dur e org dst ddx ddy) pct w =
     Look_animate' (Look st d dur e org dst ddx ddy) pct w"
| "animate' (Blink st d dur e lid) pct w = Blink_animate' (Blink st d dur e lid) pct w"
| "animate' (GlowEyes st d dur) pct w = GlowEyes_animate' (GlowEyes st d dur) pct w"
| "animate' (Wait st d dur) pct w = w"
| "animate' a pct w = w"

text \<open>
  \<^verbatim>\<open>LinearAnimation.tick\<close>. \<open>dt\<close> is \<^verbatim>\<open>(now - self.start).total_seconds() * 1000\<close>, the
  elapsed milliseconds, a float. The progress passed in the last branch is the literal
  \<^verbatim>\<open>1.0\<close>.
\<close>

definition LinearAnimation_tick :: "anim \<Rightarrow> int \<Rightarrow> world \<Rightarrow> error + anim \<times> world" where
  "LinearAnimation_tick a now w =
     (case start a of
        None \<Rightarrow> Inl TypeError
      | Some s \<Rightarrow>
          let dt = fmul (total_seconds (now - s)) 1000
          in if dt \<le> 0 then Inr (a, w)
             else if dt \<le> of_int (duration_ms a)
               then Inr (a, animate' a (fdiv dt (float_of_int (duration_ms a))) w)
               else Inr (set_done True a, animate' a 1 w))"

subsubsection \<open>The combinators\<close>

text \<open>
  \<open>tick\<close> dispatches on the class. \<open>AnimationGroup_loop\<close> is the \<^verbatim>\<open>for\<close> loop of
  \<^verbatim>\<open>AnimationGroup.tick\<close>, with the local variable \<^verbatim>\<open>all_done\<close> as its last argument.
  In \<^verbatim>\<open>AnimationSequence.tick\<close>, the inner \<open>case\<close> is \<^verbatim>\<open>self.active\<close> after the first
  \<^verbatim>\<open>if\<close>, which empties the slot when the active animation is done.
\<close>

function (sequential) tick :: "anim \<Rightarrow> int \<Rightarrow> world \<Rightarrow> error + anim \<times> world"
and AnimationGroup_loop ::
  "anim list \<Rightarrow> int \<Rightarrow> world \<Rightarrow> bool \<Rightarrow> error + anim list \<times> world \<times> bool" where
  "tick (AnimationGroup st d as) now w =
     (case AnimationGroup_loop as now w True of
        Inl err \<Rightarrow> Inl err
      | Inr (as1, w1, all_done) \<Rightarrow> Inr (AnimationGroup st all_done as1, w1))"
| "tick (AnimationSequence st d q act) now w =
     (case (case act of
              None \<Rightarrow> None
            | Some a \<Rightarrow> if is_done a then None else Some a) of
        None \<Rightarrow>
          (case q of
             c # cs \<Rightarrow> Inr (AnimationSequence st d cs (Some (anim_begin now c)), w)
           | [] \<Rightarrow> Inr (AnimationSequence st True [] None, w))
      | Some a \<Rightarrow>
          (case tick a now w of
             Inl err \<Rightarrow> Inl err
           | Inr (a1, w1) \<Rightarrow> Inr (AnimationSequence st d q (Some a1), w1)))"
| "tick (Look st d dur e org dst ddx ddy) now w =
     LinearAnimation_tick (Look st d dur e org dst ddx ddy) now w"
| "tick (Blink st d dur e lid) now w = LinearAnimation_tick (Blink st d dur e lid) now w"
| "tick (GlowEyes st d dur) now w = LinearAnimation_tick (GlowEyes st d dur) now w"
| "tick (Wait st d dur) now w = LinearAnimation_tick (Wait st d dur) now w"
| "AnimationGroup_loop [] now w all_done = Inr ([], w, all_done)"
| "AnimationGroup_loop (a # as) now w all_done =
     (case tick a now w of
        Inl err \<Rightarrow> Inl err
      | Inr (a1, w1) \<Rightarrow>
          (case AnimationGroup_loop as now w1 (if \<not> is_done a1 then False else all_done) of
             Inl err \<Rightarrow> Inl err
           | Inr (as1, w2, all_done1) \<Rightarrow> Inr (a1 # as1, w2, all_done1)))"
  by pat_completeness auto

termination
  by (relation "measure (\<lambda>v. case v of Inl (a, _) \<Rightarrow> size a
                                  | Inr (as, _) \<Rightarrow> size_list size as)")
     (auto split: option.splits if_splits)

subsection \<open>The effect library\<close>

text \<open>
  \<open>look_at e x y ms\<close> is the expression \<^verbatim>\<open>e.look(Point(x, y), ms)\<close>, and
  \<open>look_both l (a, b) r (c, d) ms\<close> is
  \<^verbatim>\<open>AnimationGroup(l.look(Point(a, b), ms), r.look(Point(c, d), ms))\<close>, its arguments
  evaluated from left to right. \<open>look_both_list\<close> evaluates a list of such groups in order.
  The durations are integers, so \<^verbatim>\<open>/\<close> is \<open>div\<close>.
\<close>

definition look_at :: "eye_ref \<Rightarrow> int \<Rightarrow> int \<Rightarrow> int \<Rightarrow> world \<Rightarrow> anim \<times> world" where
  "look_at e x y ms w =
     (let (p, w1) = Point_init x y w in (Eye_look e p (Some ms) w1, w1))"

definition look_both ::
  "eye_ref \<Rightarrow> int \<times> int \<Rightarrow> eye_ref \<Rightarrow> int \<times> int \<Rightarrow> int \<Rightarrow> world \<Rightarrow> anim \<times> world" where
  "look_both l pl r pr ms w =
     (let (a1, w1) = look_at l (fst pl) (snd pl) ms w;
          (a2, w2) = look_at r (fst pr) (snd pr) ms w1
      in (AnimationGroup_init [a1, a2], w2))"

fun look_both_list ::
  "eye_ref \<Rightarrow> eye_ref \<Rightarrow> ((int \<times> int) \<times> (int \<times> int)) list \<Rightarrow> int \<Rightarrow> world
     \<Rightarrow> anim list \<times> world" where
  "look_both_list l r [] ms w = ([], w)"
| "look_both_list l r (p # ps) ms w =
     (let (g, w1) = look_both l (fst p) r (snd p) ms w;
          (gs, w2) = look_both_list l r ps ms w1
      in (g # gs, w2))"

definition CrossEyes_init :: "eye_ref \<Rightarrow> eye_ref \<Rightarrow> int option \<Rightarrow> world \<Rightarrow> anim \<times> world" where
  "CrossEyes_init l r duration w =
     (let ms = (case duration of None \<Rightarrow> 3000 | Some d \<Rightarrow> d) div 3;
          (g1, w1) = look_both l (6, 4) r (2, 4) ms w;
          wt = Wait_init ms None;
          (g2, w2) = look_both l (4, 4) r (4, 4) ms w1
      in (AnimationSequence_init [g1, wt, g2], w2))"

definition MethEyes_init :: "eye_ref \<Rightarrow> eye_ref \<Rightarrow> int option \<Rightarrow> world \<Rightarrow> anim \<times> world" where
  "MethEyes_init l r duration w =
     (let ms = (case duration of None \<Rightarrow> 3000 | Some d \<Rightarrow> d) div 3;
          (g1, w1) = look_both l (2, 4) r (6, 4) ms w;
          wt = Wait_init ms None;
          (g2, w2) = look_both l (4, 4) r (4, 4) ms w1
      in (AnimationSequence_init [g1, wt, g2], w2))"

definition CrazyBlink_init :: "eye_ref \<Rightarrow> eye_ref \<Rightarrow> int option \<Rightarrow> anim" where
  "CrazyBlink_init l r duration =
     (let ms = (case duration of None \<Rightarrow> 1500 | Some d \<Rightarrow> d) div 2
      in AnimationSequence_init [Eye_blink l (Some ms), Eye_blink r (Some ms)])"

definition LazyEye_init :: "eye_ref \<Rightarrow> int option \<Rightarrow> world \<Rightarrow> anim \<times> world" where
  "LazyEye_init e duration w =
     (let ms = (case duration of None \<Rightarrow> 2000 | Some d \<Rightarrow> d) div 3;
          (a1, w1) = look_at e 4 6 (ms * 2) w;
          (a2, w2) = look_at e 4 4 ms w1
      in (AnimationSequence_init [a1, a2], w2))"

text \<open>
  \<^verbatim>\<open>CrazySpin\<close>: \<open>CrazySpin_loop\<close> is the loop \<^verbatim>\<open>for i in range(0, times*8)\<close> over the
  remaining values of \<open>i\<close>, with the list \<^verbatim>\<open>a\<close> built so far.
\<close>

fun CrazySpin_loop ::
  "eye_ref \<Rightarrow> eye_ref \<Rightarrow> int list \<Rightarrow> int \<Rightarrow> anim list \<Rightarrow> world \<Rightarrow> anim list \<times> world" where
  "CrazySpin_loop l r [] ms a w = (a, w)"
| "CrazySpin_loop l r (i # is) ms a w =
     (let x = 4 - i;
          (g, w1) = look_both l (x, 4) r (x, 4) ms w
      in CrazySpin_loop l r is ms (a @ [g]) w1)"

definition CrazySpin_init :: "eye_ref \<Rightarrow> eye_ref \<Rightarrow> int option \<Rightarrow> world \<Rightarrow> anim \<times> world" where
  "CrazySpin_init l r duration w =
     (let times = 2;
          ms = (case duration of None \<Rightarrow> 400 | Some d \<Rightarrow> d) div (times * 8);
          (a, w1) = CrazySpin_loop l r [0..times * 8 - 1] ms [] w
      in (AnimationSequence_init a, w1))"

text \<open>
  \<^verbatim>\<open>RoundSpin\<close>: \<open>RoundSpin_loop\<close> is the loop \<^verbatim>\<open>for i in range(times)\<close>; each round
  appends the thirteen groups of the circle.
\<close>

definition RoundSpin_circle :: "((int \<times> int) \<times> (int \<times> int)) list" where
  "RoundSpin_circle =
     [((6, 4), (2, 4)), ((6, 3), (2, 3)), ((5, 2), (3, 2)), ((4, 2), (4, 2)),
      ((3, 2), (5, 2)), ((2, 3), (6, 3)), ((2, 4), (6, 4)), ((2, 5), (6, 5)),
      ((3, 6), (5, 6)), ((4, 6), (4, 6)), ((5, 6), (3, 6)), ((6, 5), (2, 5)),
      ((6, 4), (2, 4))]"

fun RoundSpin_loop ::
  "eye_ref \<Rightarrow> eye_ref \<Rightarrow> int list \<Rightarrow> int \<Rightarrow> anim list \<Rightarrow> world \<Rightarrow> anim list \<times> world" where
  "RoundSpin_loop l r [] ms a w = (a, w)"
| "RoundSpin_loop l r (i # is) ms a w =
     (let (gs, w1) = look_both_list l r RoundSpin_circle ms w
      in RoundSpin_loop l r is ms (a @ gs) w1)"

definition RoundSpin_init :: "eye_ref \<Rightarrow> eye_ref \<Rightarrow> int option \<Rightarrow> world \<Rightarrow> anim \<times> world" where
  "RoundSpin_init l r duration w =
     (let times = 2;
          ms = (case duration of None \<Rightarrow> 400 | Some d \<Rightarrow> d) div (times * 13 + 1);
          (g, w1) = look_both l (6, 4) r (2, 4) ms w;
          (a, w2) = RoundSpin_loop l r [0..times - 1] ms [g] w1
      in (AnimationSequence_init a, w2))"

subsection \<open>The animation loop\<close>

text \<open>
  The values that the calls of \<^verbatim>\<open>random.randint\<close> return are arguments: \<open>i\<close> in
  \<open>pick_effect\<close>, and in \<open>refill\<close> the record of the draws in the order of the calls.
  \<open>r_pick\<close> is only drawn when \<open>r_effect\<close> is 0.
\<close>

definition pick_effect :: "int \<Rightarrow> eye_ref \<Rightarrow> eye_ref \<Rightarrow> world \<Rightarrow> anim \<times> world" where
  "pick_effect i l r w =
     (if i = 0 then CrossEyes_init l r None w
      else if i = 1 then CrazySpin_init l r None w
      else if i = 2 then MethEyes_init l r None w
      else if i = 3 then (CrazyBlink_init l r None, w)
      else if i = 4 then LazyEye_init l None w
      else if i = 5 then RoundSpin_init l r None w
      else (GlowEyes_init None, w))"

record draws =
  r_x :: int
  r_y :: int
  r_wait :: int
  r_blink :: int
  r_effect :: int
  r_pick :: int

text \<open>
  \<open>refill\<close> is the body of \<^verbatim>\<open>if main_sequence.done:\<close> in \<^verbatim>\<open>animation_loop\<close>; it returns the
  new \<^verbatim>\<open>main_sequence\<close>.
\<close>

definition refill :: "draws \<Rightarrow> world \<Rightarrow> anim \<times> world" where
  "refill rnd w =
     (let (p, w1) = Point_init (r_x rnd) (r_y rnd) w;
          animations1 =
            [AnimationGroup_init [Eye_look Left_eye p None w1, Eye_look Right_eye p None w1]];
          animations2 = animations1 @ [Wait_init (r_wait rnd * 500) None];
          animations3 =
            (if r_blink rnd = 0
             then animations2 @
                    [AnimationGroup_init [Eye_blink Left_eye None, Eye_blink Right_eye None]]
             else animations2);
          (animations4, w2) =
            (if r_effect rnd = 0
             then (let (eff, w3) = pick_effect (r_pick rnd) Left_eye Right_eye w1
                   in (animations3 @ [eff], w3))
             else (animations3, w1))
      in (AnimationSequence_init animations4, w2))"

text \<open>
  \<open>render\<close> draws the images of both eyes; here it leaves the images in the pixel buffers
  of the eyes. \<open>loop_body\<close> is one pass through the \<^verbatim>\<open>while\<close> loop of \<^verbatim>\<open>animation_loop\<close> up
  to the call of \<^verbatim>\<open>render\<close>, at the time \<open>now\<close> that \<^verbatim>\<open>datetime.datetime.now()\<close> returned.
  \<open>init_world\<close> is the state after \<^verbatim>\<open>device.contrast(30)\<close> in \<^verbatim>\<open>main\<close> and the two
  \<^verbatim>\<open>Eye()\<close> of \<^verbatim>\<open>animation_loop\<close>, from \<open>empty_world\<close>: no point exists, no contrast was
  set, and the variables of the eyes are not assigned yet (they hold a placeholder).
\<close>

definition render :: "world \<Rightarrow> world" where
  "render w =
     (let w1 = w\<lparr>eyes := (eyes w)(Left_eye := snd (Eye_image (heap w) (eyes w Left_eye)))\<rparr>
      in w1\<lparr>eyes := (eyes w1)(Right_eye := snd (Eye_image (heap w1) (eyes w1 Right_eye)))\<rparr>)"

definition loop_body :: "draws \<Rightarrow> int \<Rightarrow> anim \<times> world \<Rightarrow> error + anim \<times> world" where
  "loop_body rnd now s =
     (let (main_sequence, w) = s;
          (main_sequence1, w1) = (if is_done main_sequence then refill rnd w else (main_sequence, w))
      in case tick main_sequence1 now w1 of
           Inl err \<Rightarrow> Inl err
         | Inr (main_sequence2, w2) \<Rightarrow> Inr (main_sequence2, render w2))"

definition empty_world :: world where
  "empty_world =
     \<lparr>heap = (\<lambda>r. \<lparr>pt_x = 0, pt_y = 0\<rparr>), next_ref = 0,
      eyes = (\<lambda>e. \<lparr>pixels = eye_ball, pupil = 0, eyelids = - 1\<rparr>), device = []\<rparr>"

definition init_world :: world where
  "init_world = Eye_init Right_eye (Eye_init Left_eye (device_contrast 30 empty_world))"

text \<open>The calls \<^verbatim>\<open>a.tick(t)\<close> for the times \<open>t\<close> of a list, in order.\<close>

fun ticks :: "anim \<Rightarrow> int list \<Rightarrow> world \<Rightarrow> error + anim \<times> world" where
  "ticks a [] w = Inr (a, w)"
| "ticks a (now # ts) w =
     (case tick a now w of Inl err \<Rightarrow> Inl err | Inr (a1, w1) \<Rightarrow> ticks a1 ts w1)"

subsection \<open>Predicates of the statements\<close>

text \<open>The eyelid offset of every eye is within \<open>-1..3\<close>.\<close>

definition eyelids_ok :: "world \<Rightarrow> bool" where
  "eyelids_ok w = (\<forall>e. - 1 \<le> eyelids (eyes w e) \<and> eyelids (eyes w e) \<le> 3)"

text \<open>The point that the pupil of an eye refers to.\<close>

definition pupil_point :: "world \<Rightarrow> eye_ref \<Rightarrow> Point" where
  "pupil_point w e = heap w (pupil (eyes w e))"

text \<open>The contrast levels passed to the device between the state \<open>w\<close> and the later \<open>w1\<close>.\<close>

definition passed :: "world \<Rightarrow> world \<Rightarrow> int list" where
  "passed w w1 = drop (length (device w)) (device w1)"

text \<open>Every point that exists in \<open>w\<close> exists in \<open>w1\<close> with the same coordinates.\<close>

definition heap_kept :: "world \<Rightarrow> world \<Rightarrow> bool" where
  "heap_kept w w1 =
     (next_ref w \<le> next_ref w1 \<and> (\<forall>r. r < next_ref w \<longrightarrow> heap w1 r = heap w r))"

text \<open>
  The pixel in column \<open>x\<close> (from the left) and row \<open>y\<close> (from the top) of an image of eight
  bytes; the pixels of the 2x2 block of the pupil at \<open>p\<close>; the rows that eyelids at
  the offset \<open>lids\<close> cover.
\<close>

definition pixel :: "8 word list \<Rightarrow> nat \<Rightarrow> nat \<Rightarrow> bool" where
  "pixel img x y = bit (img ! y) (7 - x)"

definition in_pupil :: "Point \<Rightarrow> nat \<Rightarrow> nat \<Rightarrow> bool" where
  "in_pupil p x y =
     ((int x = (pt_x p - 1) mod 8 \<or> int x = pt_x p mod 8) \<and>
      (int y = (pt_y p - 1) mod 8 \<or> int y = pt_y p mod 8))"

definition under_lid :: "int \<Rightarrow> nat \<Rightarrow> bool" where
  "under_lid lids y = (0 \<le> lids \<and> (int y \<le> lids \<or> 7 - lids \<le> int y))"

text \<open>
  \<open>is_leaf\<close>: a linear animation. \<open>ready\<close>: every leaf that a tick reaches has been begun;
  \<open>startable\<close>: the animation is \<open>ready\<close> once it is begun (the children queued in a
  sequence are begun when the sequence takes them from the queue).
\<close>

fun is_leaf :: "anim \<Rightarrow> bool" where
  "is_leaf (AnimationGroup st d as) = False"
| "is_leaf (AnimationSequence st d q act) = False"
| "is_leaf a = True"

fun startable :: "anim \<Rightarrow> bool" and ready :: "anim \<Rightarrow> bool" where
  "startable (AnimationGroup st d as) = (\<forall>c \<in> set as. startable c)"
| "startable (AnimationSequence st d q act) =
     ((case act of None \<Rightarrow> True | Some a \<Rightarrow> ready a) \<and> (\<forall>c \<in> set q. startable c))"
| "startable (Look st d dur e org dst ddx ddy) = True"
| "startable (Blink st d dur e lid) = True"
| "startable (GlowEyes st d dur) = True"
| "startable (Wait st d dur) = True"
| "ready (AnimationGroup st d as) = (\<forall>c \<in> set as. ready c)"
| "ready (AnimationSequence st d q act) =
     ((case act of None \<Rightarrow> True | Some a \<Rightarrow> ready a) \<and> (\<forall>c \<in> set q. startable c))"
| "ready (Look st d dur e org dst ddx ddy) = (st \<noteq> None)"
| "ready (Blink st d dur e lid) = (st \<noteq> None)"
| "ready (GlowEyes st d dur) = (st \<noteq> None)"
| "ready (Wait st d dur) = (st \<noteq> None)"

text \<open>
  \<open>done_ok\<close>: the done flag of a combinator is only set when nothing is left to do, that is,
  a group that is done has only children that are done, and a sequence that is done has
  an empty queue and an empty slot.
\<close>

fun done_ok :: "anim \<Rightarrow> bool" where
  "done_ok (AnimationGroup st d as) =
     ((d \<longrightarrow> (\<forall>c \<in> set as. is_done c)) \<and> (\<forall>c \<in> set as. done_ok c))"
| "done_ok (AnimationSequence st d q act) =
     ((d \<longrightarrow> act = None \<and> q = []) \<and> (case act of None \<Rightarrow> True | Some a \<Rightarrow> done_ok a) \<and>
      (\<forall>c \<in> set q. done_ok c))"
| "done_ok a = True"

text \<open>
  \<open>begun_not_before now a\<close>: \<open>a\<close> is made of linear animations and groups only, and each of
  its linear animations was begun at \<open>now\<close> or later. \<open>sequence_free\<close>: no sequence occurs in
  the animation. \<open>groups_redone a\<close> is \<open>a\<close> with the done flag of each group set to whether all
  of its children are done.
\<close>

fun begun_not_before :: "int \<Rightarrow> anim \<Rightarrow> bool" where
  "begun_not_before now (AnimationGroup st d as) = (\<forall>c \<in> set as. begun_not_before now c)"
| "begun_not_before now (AnimationSequence st d q act) = False"
| "begun_not_before now (Look st d dur e org dst ddx ddy) = (\<exists>t. st = Some t \<and> now \<le> t)"
| "begun_not_before now (Blink st d dur e lid) = (\<exists>t. st = Some t \<and> now \<le> t)"
| "begun_not_before now (GlowEyes st d dur) = (\<exists>t. st = Some t \<and> now \<le> t)"
| "begun_not_before now (Wait st d dur) = (\<exists>t. st = Some t \<and> now \<le> t)"

fun sequence_free :: "anim \<Rightarrow> bool" where
  "sequence_free (AnimationGroup st d as) = (\<forall>c \<in> set as. sequence_free c)"
| "sequence_free (AnimationSequence st d q act) = False"
| "sequence_free a = True"

fun groups_redone :: "anim \<Rightarrow> anim" where
  "groups_redone (AnimationGroup st d as) =
     AnimationGroup st (\<forall>c \<in> set as. is_done (groups_redone c)) (map groups_redone as)"
| "groups_redone a = a"

text \<open>
  For \<^verbatim>\<open>CrazySpin\<close>. \<open>spin_step ms l r w k\<close> is the group that step \<open>k\<close> of the loop builds
  for the eyes \<open>l\<close> and \<open>r\<close> when the loop started in the state \<open>w\<close>: one \<^verbatim>\<open>Look\<close> per eye
  from the pupil of the eye in \<open>w\<close> to column \<open>4 - k\<close> of row 4, its destination the
  point constructed for it. \<open>pupils_exist\<close>: the pupil of every eye is a point that has
  been constructed. \<open>moved e x y w\<close> is the state after the eye \<open>e\<close> was given a new point
  \<open>(x, y)\<close> by \<^verbatim>\<open>_look\<close>. \<open>spaced ms ts\<close>: each time of \<open>ts\<close> is more than \<open>ms\<close> milliseconds
  after the one before (the times are in microseconds). \<open>origins_kept l r w0 w\<close>: the
  points that were the pupils of \<open>l\<close> and \<open>r\<close> in \<open>w0\<close> exist in \<open>w\<close> and are at \<open>(4, 4)\<close>.
\<close>

definition spin_step :: "int \<Rightarrow> eye_ref \<Rightarrow> eye_ref \<Rightarrow> world \<Rightarrow> nat \<Rightarrow> anim" where
  "spin_step ms l r w k =
     AnimationGroup None False
       [Look None (4 - int k - pt_x (pupil_point w l) = 0 \<and> 4 - pt_y (pupil_point w l) = 0) ms l
          (pupil (eyes w l)) (next_ref w + 2 * k)
          (4 - int k - pt_x (pupil_point w l)) (4 - pt_y (pupil_point w l)),
        Look None (4 - int k - pt_x (pupil_point w r) = 0 \<and> 4 - pt_y (pupil_point w r) = 0) ms r
          (pupil (eyes w r)) (next_ref w + 2 * k + 1)
          (4 - int k - pt_x (pupil_point w r)) (4 - pt_y (pupil_point w r))]"

definition pupils_exist :: "world \<Rightarrow> bool" where
  "pupils_exist w = (\<forall>e. pupil (eyes w e) < next_ref w)"

definition moved :: "eye_ref \<Rightarrow> int \<Rightarrow> int \<Rightarrow> world \<Rightarrow> world" where
  "moved e x y w = Eye_look' e (next_ref w) (snd (Point_init x y w))"

fun spaced :: "int \<Rightarrow> int list \<Rightarrow> bool" where
  "spaced ms (t1 # t2 # ts) = (ms * 1000 < t2 - t1 \<and> spaced ms (t2 # ts))"
| "spaced ms ts = True"

definition origins_kept :: "eye_ref \<Rightarrow> eye_ref \<Rightarrow> world \<Rightarrow> world \<Rightarrow> bool" where
  "origins_kept l r w0 w =
     (pupil (eyes w0 l) < next_ref w \<and> heap w (pupil (eyes w0 l)) = \<lparr>pt_x = 4, pt_y = 4\<rparr> \<and>
      pupil (eyes w0 r) < next_ref w \<and> heap w (pupil (eyes w0 r)) = \<lparr>pt_x = 4, pt_y = 4\<rparr>)"

section \<open>Properties\<close>

subsection \<open>Floats\<close>

lemma fl_0 [simp]: "fl 0 = 0"
  by (simp add: fl_def)

lemma ulp_pos: "0 < ulp x"
  by (simp add: ulp_def)

lemma powr_powi: "2 powr real_of_int n = (2 :: real) powi n"
  by (simp add: powr_real_of_int')

lemma binade:
  assumes "x \<noteq> 0"
  shows "2 powi \<lfloor>log 2 \<bar>x\<bar>\<rfloor> \<le> \<bar>x\<bar>" and "\<bar>x\<bar> < 2 powi (\<lfloor>log 2 \<bar>x\<bar>\<rfloor> + 1)"
proof -
  from assms have "0 < \<bar>x\<bar>" by simp
  moreover have "(1 :: real) < 2" by simp
  ultimately have "2 powr real_of_int \<lfloor>log 2 \<bar>x\<bar>\<rfloor> \<le> \<bar>x\<bar> \<and>
      \<bar>x\<bar> < 2 powr real_of_int (\<lfloor>log 2 \<bar>x\<bar>\<rfloor> + 1)"
    using floor_log_eq_powr_iff [of "\<bar>x\<bar>" 2 "\<lfloor>log 2 \<bar>x\<bar>\<rfloor>"] by blast
  then show "2 powi \<lfloor>log 2 \<bar>x\<bar>\<rfloor> \<le> \<bar>x\<bar>" and "\<bar>x\<bar> < 2 powi (\<lfloor>log 2 \<bar>x\<bar>\<rfloor> + 1)"
    unfolding powr_powi by blast+
qed

lemma ulp_eq:
  assumes "2 powi e \<le> \<bar>x\<bar>" and "\<bar>x\<bar> < 2 powi (e + 1)"
  shows "ulp x = 2 powi (e - 52)"
proof -
  have "(0 :: real) < 2 powi e" by simp
  with assms(1) have "0 < \<bar>x\<bar>" by linarith
  from floor_log_eq_powr_iff [OF this, of 2 e] assms
  have "\<lfloor>log 2 \<bar>x\<bar>\<rfloor> = e" unfolding powr_powi by simp
  then show ?thesis by (simp add: ulp_def)
qed

lemma ulp_bounds:
  assumes "x \<noteq> 0"
  shows "2 ^ 52 * ulp x \<le> \<bar>x\<bar>" and "\<bar>x\<bar> < 2 ^ 53 * ulp x"
proof -
  let ?k = "\<lfloor>log 2 \<bar>x\<bar>\<rfloor>"
  have "(2 :: real) powi ?k = 2 powi 52 * 2 powi (?k - 52)"
    using power_int_add [of "2 :: real" 52 "?k - 52"] by simp
  with binade(1) [OF assms] show "2 ^ 52 * ulp x \<le> \<bar>x\<bar>" by (simp add: ulp_def)
  have e: "53 + (?k - 52) = ?k + 1" by simp
  have "(2 :: real) powi (?k + 1) = 2 powi 53 * 2 powi (?k - 52)"
    using power_int_add [of "2 :: real" 53 "?k - 52"] unfolding e by simp
  with binade(2) [OF assms] show "\<bar>x\<bar> < 2 ^ 53 * ulp x" by (simp add: ulp_def)
qed

lemma round_even_error: "\<bar>of_int (round_even x) - x\<bar> \<le> 1 / 2"
  unfolding round_even_def by (auto simp: abs_le_iff)

lemma round_even_of_int [simp]: "round_even (of_int n) = n"
  by (simp add: round_even_def)

text \<open>Rounding changes a number by at most the fraction \<open>2^-53\<close> of its magnitude.\<close>

lemma fl_error: "\<bar>fl x - x\<bar> \<le> \<bar>x\<bar> / 2 ^ 53"
proof (cases "x = 0")
  case True
  then show ?thesis by simp
next
  case False
  let ?u = "ulp x"
  have u: "0 < ?u" by (rule ulp_pos)
  have "fl x - x = (of_int (round_even (x / ?u)) - x / ?u) * ?u"
    using False u by (simp add: fl_def field_simps)
  then have "\<bar>fl x - x\<bar> = \<bar>of_int (round_even (x / ?u)) - x / ?u\<bar> * ?u"
    using u by (simp add: abs_mult)
  also have "\<dots> \<le> 1 / 2 * ?u"
    using round_even_error [of "x / ?u"] u by (intro mult_right_mono) simp_all
  also have "\<dots> \<le> \<bar>x\<bar> / 2 ^ 53"
    using ulp_bounds(1) [OF False] by simp
  finally show ?thesis .
qed

lemma fl_near: "\<bar>x\<bar> \<le> m \<Longrightarrow> \<bar>fl x - x\<bar> \<le> m / 1000000000000000"
proof -
  assume m: "\<bar>x\<bar> \<le> m"
  have "\<bar>x\<bar> / 2 ^ 53 \<le> \<bar>x\<bar> / 1000000000000000" by (intro divide_left_mono) simp_all
  also have "\<dots> \<le> m / 1000000000000000" using m by (intro divide_right_mono) simp_all
  finally show ?thesis using fl_error [of x] by linarith
qed

lemma fl_bounds:
  assumes "0 \<le> x"
  shows "x - x / 1000000000000000 \<le> fl x" and "fl x \<le> x + x / 1000000000000000"
proof -
  from fl_near [of x x] assms have "\<bar>fl x - x\<bar> \<le> x / 1000000000000000" by simp
  then show "x - x / 1000000000000000 \<le> fl x" and "fl x \<le> x + x / 1000000000000000"
    by linarith+
qed

lemma fl_interval:
  assumes "lo \<le> x" and "x \<le> hi" and "0 \<le> lo"
  shows "lo - lo / 1000000000000000 \<le> fl x" and "fl x \<le> hi + hi / 1000000000000000"
proof -
  from assms have "0 \<le> x" by simp
  from fl_bounds [OF this] assms
  show "lo - lo / 1000000000000000 \<le> fl x" and "fl x \<le> hi + hi / 1000000000000000"
    by linarith+
qed

lemma fl_sign [simp]:
  "fl x \<le> 0 \<longleftrightarrow> x \<le> 0" "0 \<le> fl x \<longleftrightarrow> 0 \<le> x" "fl x < 0 \<longleftrightarrow> x < 0" "0 < fl x \<longleftrightarrow> 0 < x"
  "fl x = 0 \<longleftrightarrow> x = 0"
proof -
  have e: "\<bar>fl x - x\<bar> \<le> \<bar>x\<bar> / 2"
  proof -
    have "\<bar>x\<bar> / 2 ^ 53 \<le> \<bar>x\<bar> / 2" by (intro divide_left_mono) simp_all
    with fl_error [of x] show ?thesis by linarith
  qed
  from e show "fl x \<le> 0 \<longleftrightarrow> x \<le> 0" "0 \<le> fl x \<longleftrightarrow> 0 \<le> x" "fl x < 0 \<longleftrightarrow> x < 0"
    "0 < fl x \<longleftrightarrow> 0 < x" "fl x = 0 \<longleftrightarrow> x = 0"
    by (auto simp: abs_le_iff abs_if split: if_splits)
qed

text \<open>A number with at most 53 significant bits is a double.\<close>

lemma fl_exact:
  assumes "\<bar>n\<bar> < 2 ^ 53"
  shows "fl (of_int n * 2 powi j) = of_int n * 2 powi j"
proof (cases "n = 0")
  case True
  then show ?thesis by simp
next
  case False
  define x :: real where "x = of_int n * 2 powi j"
  define k where "k = \<lfloor>log 2 \<bar>x\<bar>\<rfloor>"
  have p: "(0 :: real) < 2 powi i" for i by simp
  from False have x0: "x \<noteq> 0" using p [of j] by (simp add: x_def)
  have "\<bar>x\<bar> = \<bar>of_int n\<bar> * 2 powi j" using p [of j] by (simp add: x_def abs_mult)
  also have "\<dots> < 2 ^ 53 * 2 powi j"
  proof -
    from assms have "(of_int \<bar>n\<bar> :: real) < of_int (2 ^ 53)" by (simp only: of_int_less_iff)
    then have "\<bar>of_int n :: real\<bar> < 2 ^ 53" by simp
    then show ?thesis using p [of j] by simp
  qed
  also have "\<dots> = 2 powi (53 + j)"
    using power_int_add [of "2 :: real" 53 j] by simp
  finally have lt: "2 powi k < (2 :: real) powi (53 + j)"
    using binade(1) [OF x0] by (simp add: k_def)
  have "k < 53 + j"
  proof (rule ccontr)
    assume "\<not> k < 53 + j"
    then have "53 + j \<le> k" by simp
    from power_int_increasing [OF this, of "2 :: real"] lt show False by simp
  qed
  define d where "d = nat (j - k + 52)"
  with \<open>k < 53 + j\<close> have d: "j = k - 52 + int d" by simp
  have pj: "(2 :: real) powi j = 2 powi (k - 52) * 2 ^ d"
    unfolding d using power_int_add [of "2 :: real" "k - 52" "int d"] by simp
  have u: "ulp x = 2 powi (k - 52)" by (simp add: ulp_def k_def)
  have xd: "x = of_int (n * 2 ^ d) * ulp x"
    unfolding u by (simp add: x_def pj)
  have "x / ulp x = of_int (n * 2 ^ d)"
    using xd ulp_pos [of x] by (simp add: field_simps)
  then have "fl x = of_int (n * 2 ^ d) * ulp x"
    using x0 unfolding fl_def by (simp only: round_even_of_int if_False)
  with xd have "fl x = x" by simp
  then show ?thesis by (simp add: x_def)
qed

lemma float_of_int_exact: "\<bar>n\<bar> < 2 ^ 53 \<Longrightarrow> float_of_int n = of_int n"
  using fl_exact [of n 0] by (simp add: float_of_int_def)

text \<open>The double nearest to a number whose binary exponent \<open>e\<close> is known.\<close>

lemma fl_eval:
  assumes "2 powi e \<le> \<bar>x\<bar>" and "\<bar>x\<bar> < 2 powi (e + 1)"
    and "of_int (round_even (x / 2 powi (e - 52))) * 2 powi (e - 52) = y"
  shows "fl x = y"
proof -
  have "(0 :: real) < 2 powi e" by simp
  with assms(1) have "0 < \<bar>x\<bar>" by linarith
  then have "x \<noteq> 0" by simp
  then show ?thesis using assms(3) by (simp add: fl_def ulp_eq [OF assms(1,2)])
qed

text \<open>
  The elapsed milliseconds \<open>dt\<close> of \<^verbatim>\<open>LinearAnimation.tick\<close>: their sign is that of the
  elapsed time, and they exceed a duration of up to \<open>10^9\<close> ms that the elapsed time exceeds.
\<close>

lemma dt_sign [simp]:
  "fmul (total_seconds n) 1000 \<le> 0 \<longleftrightarrow> n \<le> 0"
  by (simp add: fmul_def total_seconds_def mult_le_0_iff divide_le_0_iff)

lemma dt_gap:
  assumes "0 \<le> ms" and "ms \<le> 10 ^ 9" and "ms * 1000 < n"
  shows "of_int ms < fmul (total_seconds n) 1000"
proof -
  define a :: real where "a = of_int n / 1000000"
  from assms(3) have "ms * 1000 + 1 \<le> n" by simp
  then have "(of_int (ms * 1000 + 1) :: real) \<le> of_int n" by (simp only: of_int_le_iff)
  then have n: "of_int ms * 1000 + 1 \<le> (of_int n :: real)" by simp
  from assms(1) have m0: "(0 :: real) \<le> of_int ms" by simp
  from assms(2) have "(of_int ms :: real) \<le> of_int (10 ^ 9)" by (simp only: of_int_le_iff)
  then have m1: "(of_int ms :: real) \<le> 1000000000" by simp
  have a: "a = of_int n / 1000000" by (rule a_def)
  from n m0 a have a0: "0 \<le> a" by linarith
  note fa = fl_bounds [OF a0]
  from fa a0 have fa0: "0 \<le> fl a * 1000" by linarith
  note fb = fl_bounds [OF fa0]
  from fa fb n m0 m1 a have "of_int ms < fl (fl a * 1000)" by linarith
  then show ?thesis by (simp add: fmul_def total_seconds_def a_def)
qed

text \<open>
  Evaluations: the elapsed milliseconds, the progress and the values of the formulas of the
  leaf animations at the inputs of the examples below, each operation evaluated with
  \<open>fl_eval\<close>.
\<close>

lemmas fl_eval_simps = power_int_minus_divide round_even_def

lemma dt_100000: "fmul (total_seconds 100000) 1000 = 100"
proof -
  have s1: "total_seconds 100000 = 3602879701896397 / 36028797018963968"
    unfolding total_seconds_def by (rule fl_eval [where e = "- 4"]) (simp_all add: fl_eval_simps)
  have s2: "fmul (3602879701896397 / 36028797018963968) 1000 = 100"
    unfolding fmul_def by (rule fl_eval [where e = "6"]) (simp_all add: fl_eval_simps)
  show ?thesis by (simp only: s1 s2)
qed

lemma dt_200000: "fmul (total_seconds 200000) 1000 = 200"
proof -
  have s1: "total_seconds 200000 = 3602879701896397 / 18014398509481984"
    unfolding total_seconds_def by (rule fl_eval [where e = "- 3"]) (simp_all add: fl_eval_simps)
  have s2: "fmul (3602879701896397 / 18014398509481984) 1000 = 200"
    unfolding fmul_def by (rule fl_eval [where e = "7"]) (simp_all add: fl_eval_simps)
  show ?thesis by (simp only: s1 s2)
qed

lemma dt_150000: "fmul (total_seconds 150000) 1000 = 150"
proof -
  have s1: "total_seconds 150000 = 5404319552844595 / 36028797018963968"
    unfolding total_seconds_def by (rule fl_eval [where e = "- 3"]) (simp_all add: fl_eval_simps)
  have s2: "fmul (5404319552844595 / 36028797018963968) 1000 = 150"
    unfolding fmul_def by (rule fl_eval [where e = "7"]) (simp_all add: fl_eval_simps)
  show ?thesis by (simp only: s1 s2)
qed

lemma dt_250000: "fmul (total_seconds 250000) 1000 = 250"
proof -
  have s1: "total_seconds 250000 = 1 / 4"
    unfolding total_seconds_def by (rule fl_eval [where e = "- 2"]) (simp_all add: fl_eval_simps)
  have s2: "fmul (1 / 4) 1000 = 250"
    unfolding fmul_def by (rule fl_eval [where e = "7"]) (simp_all add: fl_eval_simps)
  show ?thesis by (simp only: s1 s2)
qed

lemma dt_225000: "fmul (total_seconds 225000) 1000 = 225"
proof -
  have s1: "total_seconds 225000 = 8106479329266893 / 36028797018963968"
    unfolding total_seconds_def by (rule fl_eval [where e = "- 3"]) (simp_all add: fl_eval_simps)
  have s2: "fmul (8106479329266893 / 36028797018963968) 1000 = 225"
    unfolding fmul_def by (rule fl_eval [where e = "7"]) (simp_all add: fl_eval_simps)
  show ?thesis by (simp only: s1 s2)
qed

lemma dt_149000: "fmul (total_seconds 149000) 1000 = 149"
proof -
  have s1: "total_seconds 149000 = 5368290755825631 / 36028797018963968"
    unfolding total_seconds_def by (rule fl_eval [where e = "- 3"]) (simp_all add: fl_eval_simps)
  have s2: "fmul (5368290755825631 / 36028797018963968) 1000 = 149"
    unfolding fmul_def by (rule fl_eval [where e = "7"]) (simp_all add: fl_eval_simps)
  show ?thesis by (simp only: s1 s2)
qed

lemma dt_301000: "fmul (total_seconds 301000) 1000 = 301"
proof -
  have s1: "total_seconds 301000 = 5422333951354077 / 18014398509481984"
    unfolding total_seconds_def by (rule fl_eval [where e = "- 2"]) (simp_all add: fl_eval_simps)
  have s2: "fmul (5422333951354077 / 18014398509481984) 1000 = 301"
    unfolding fmul_def by (rule fl_eval [where e = "8"]) (simp_all add: fl_eval_simps)
  show ?thesis by (simp only: s1 s2)
qed

lemma dt_11200: "fmul (total_seconds 11200) 1000 = 3152519739159347 / 281474976710656"
proof -
  have s1: "total_seconds 11200 = 6456360425798343 / 576460752303423488"
    unfolding total_seconds_def by (rule fl_eval [where e = "- 7"]) (simp_all add: fl_eval_simps)
  have s2: "fmul (6456360425798343 / 576460752303423488) 1000 = 3152519739159347 / 281474976710656"
    unfolding fmul_def by (rule fl_eval [where e = "3"]) (simp_all add: fl_eval_simps)
  show ?thesis by (simp only: s1 s2)
qed

lemma pct_225_500: "fdiv 225 (float_of_int 500) = 8106479329266893 / 18014398509481984"
proof -
  have s1: "float_of_int 500 = 500"
    unfolding float_of_int_def by (rule fl_eval [where e = "8"]) (simp_all add: fl_eval_simps)
  have s2: "fdiv 225 500 = 8106479329266893 / 18014398509481984"
    unfolding fdiv_def by (rule fl_eval [where e = "- 2"]) (simp_all add: fl_eval_simps)
  show ?thesis by (simp only: s1 s2)
qed

lemma blink_up_225_500: "fadd (fmul 4 (fdiv (8106479329266893 / 18014398509481984) (fl (49 / 100)))) (1 / 2) = 1174727198721003 / 281474976710656"
proof -
  have s1: "fl (49 / 100) = 2206763817411543 / 4503599627370496"
    by (rule fl_eval [where e = "- 2"]) (simp_all add: fl_eval_simps)
  have s2: "fdiv (8106479329266893 / 18014398509481984) (2206763817411543 / 4503599627370496) = 8271917682925401 / 9007199254740992"
    unfolding fdiv_def by (rule fl_eval [where e = "- 1"]) (simp_all add: fl_eval_simps)
  have s3: "fmul 4 (8271917682925401 / 9007199254740992) = 8271917682925401 / 2251799813685248"
    unfolding fmul_def by (rule fl_eval [where e = "1"]) (simp_all add: fl_eval_simps)
  have s4: "fadd (8271917682925401 / 2251799813685248) (1 / 2) = 1174727198721003 / 281474976710656"
    unfolding fadd_def by (rule fl_eval [where e = "2"]) (simp_all add: fl_eval_simps)
  show ?thesis by (simp only: s1 s2 s3 s4)
qed

lemma blink_up_9_20: "fadd (fmul 4 (fdiv (fl (9 / 20)) (fl (49 / 100)))) (1 / 2) = 1174727198721003 / 281474976710656"
proof -
  have s1: "fl (9 / 20) = 8106479329266893 / 18014398509481984"
    by (rule fl_eval [where e = "- 2"]) (simp_all add: fl_eval_simps)
  have s2: "fl (49 / 100) = 2206763817411543 / 4503599627370496"
    by (rule fl_eval [where e = "- 2"]) (simp_all add: fl_eval_simps)
  have s3: "fdiv (8106479329266893 / 18014398509481984) (2206763817411543 / 4503599627370496) = 8271917682925401 / 9007199254740992"
    unfolding fdiv_def by (rule fl_eval [where e = "- 1"]) (simp_all add: fl_eval_simps)
  have s4: "fmul 4 (8271917682925401 / 9007199254740992) = 8271917682925401 / 2251799813685248"
    unfolding fmul_def by (rule fl_eval [where e = "1"]) (simp_all add: fl_eval_simps)
  have s5: "fadd (8271917682925401 / 2251799813685248) (1 / 2) = 1174727198721003 / 281474976710656"
    unfolding fadd_def by (rule fl_eval [where e = "2"]) (simp_all add: fl_eval_simps)
  show ?thesis by (simp only: s1 s2 s3 s4 s5)
qed

lemma blink_down_1: "fsub 4 (fadd (fmul 4 (fdiv (fsub 1 (1 / 2)) (fl (49 / 100)))) (1 / 2)) = - (654860149898261 / 1125899906842624)"
proof -
  have s1: "fsub 1 (1 / 2) = 1 / 2"
    unfolding fsub_def by (rule fl_eval [where e = "- 1"]) (simp_all add: fl_eval_simps)
  have s2: "fl (49 / 100) = 2206763817411543 / 4503599627370496"
    by (rule fl_eval [where e = "- 2"]) (simp_all add: fl_eval_simps)
  have s3: "fdiv (1 / 2) (2206763817411543 / 4503599627370496) = 4595509823847445 / 4503599627370496"
    unfolding fdiv_def by (rule fl_eval [where e = "0"]) (simp_all add: fl_eval_simps)
  have s4: "fmul 4 (4595509823847445 / 4503599627370496) = 4595509823847445 / 1125899906842624"
    unfolding fmul_def by (rule fl_eval [where e = "2"]) (simp_all add: fl_eval_simps)
  have s5: "fadd (4595509823847445 / 1125899906842624) (1 / 2) = 5158459777268757 / 1125899906842624"
    unfolding fadd_def by (rule fl_eval [where e = "2"]) (simp_all add: fl_eval_simps)
  have s6: "fsub 4 (5158459777268757 / 1125899906842624) = - (654860149898261 / 1125899906842624)"
    unfolding fsub_def by (rule fl_eval [where e = "- 1"]) (simp_all add: fl_eval_simps)
  show ?thesis by (simp only: s1 s2 s3 s4 s5 s6)
qed

lemma pct_149_300: "fdiv 149 (float_of_int 300) = 8947151259709385 / 18014398509481984"
proof -
  have s1: "float_of_int 300 = 300"
    unfolding float_of_int_def by (rule fl_eval [where e = "8"]) (simp_all add: fl_eval_simps)
  have s2: "fdiv 149 300 = 8947151259709385 / 18014398509481984"
    unfolding fdiv_def by (rule fl_eval [where e = "- 2"]) (simp_all add: fl_eval_simps)
  show ?thesis by (simp only: s1 s2)
qed

lemma glow_up_149_300: "fadd 30 (fmul 120 (fdiv (8947151259709385 / 18014398509481984) (fl (49 / 100)))) = 5335099686122893 / 35184372088832"
proof -
  have s1: "fl (49 / 100) = 2206763817411543 / 4503599627370496"
    by (rule fl_eval [where e = "- 2"]) (simp_all add: fl_eval_simps)
  have s2: "fdiv (8947151259709385 / 18014398509481984) (2206763817411543 / 4503599627370496) = 2282436545844231 / 2251799813685248"
    unfolding fdiv_def by (rule fl_eval [where e = "0"]) (simp_all add: fl_eval_simps)
  have s3: "fmul 120 (2282436545844231 / 2251799813685248) = 4279568523457933 / 35184372088832"
    unfolding fmul_def by (rule fl_eval [where e = "6"]) (simp_all add: fl_eval_simps)
  have s4: "fadd 30 (4279568523457933 / 35184372088832) = 5335099686122893 / 35184372088832"
    unfolding fadd_def by (rule fl_eval [where e = "7"]) (simp_all add: fl_eval_simps)
  show ?thesis by (simp only: s1 s2 s3 s4)
qed

lemma glow_up_quarter: "fadd 30 (fmul 120 (fdiv (1 / 4) (fl (49 / 100)))) = 1604838196296725 / 17592186044416"
proof -
  have s1: "fl (49 / 100) = 2206763817411543 / 4503599627370496"
    by (rule fl_eval [where e = "- 2"]) (simp_all add: fl_eval_simps)
  have s2: "fdiv (1 / 4) (2206763817411543 / 4503599627370496) = 4595509823847445 / 9007199254740992"
    unfolding fdiv_def by (rule fl_eval [where e = "- 1"]) (simp_all add: fl_eval_simps)
  have s3: "fmul 120 (4595509823847445 / 9007199254740992) = 8616580919713959 / 140737488355328"
    unfolding fmul_def by (rule fl_eval [where e = "5"]) (simp_all add: fl_eval_simps)
  have s4: "fadd 30 (8616580919713959 / 140737488355328) = 1604838196296725 / 17592186044416"
    unfolding fadd_def by (rule fl_eval [where e = "6"]) (simp_all add: fl_eval_simps)
  show ?thesis by (simp only: s1 s2 s3 s4)
qed

lemma glow_up_0: "fadd 30 (fmul 120 (fdiv 0 (fl (49 / 100)))) = 30"
proof -
  have s1: "fl (49 / 100) = 2206763817411543 / 4503599627370496"
    by (rule fl_eval [where e = "- 2"]) (simp_all add: fl_eval_simps)
  have s2: "fdiv 0 (2206763817411543 / 4503599627370496) = 0"
    by (simp add: fdiv_def)
  have s3: "fmul 120 0 = 0"
    by (simp add: fmul_def)
  have s4: "fadd 30 0 = 30"
    unfolding fadd_def by (rule fl_eval [where e = "4"]) (simp_all add: fl_eval_simps)
  show ?thesis by (simp only: s1 s2 s3 s4)
qed

lemma glow_down_1: "fsub 150 (fmul 120 (fdiv (fsub 1 (1 / 2)) (fl (49 / 100)))) = 1938730706935641 / 70368744177664"
proof -
  have s1: "fsub 1 (1 / 2) = 1 / 2"
    unfolding fsub_def by (rule fl_eval [where e = "- 1"]) (simp_all add: fl_eval_simps)
  have s2: "fl (49 / 100) = 2206763817411543 / 4503599627370496"
    by (rule fl_eval [where e = "- 2"]) (simp_all add: fl_eval_simps)
  have s3: "fdiv (1 / 2) (2206763817411543 / 4503599627370496) = 4595509823847445 / 4503599627370496"
    unfolding fdiv_def by (rule fl_eval [where e = "0"]) (simp_all add: fl_eval_simps)
  have s4: "fmul 120 (4595509823847445 / 4503599627370496) = 8616580919713959 / 70368744177664"
    unfolding fmul_def by (rule fl_eval [where e = "6"]) (simp_all add: fl_eval_simps)
  have s5: "fsub 150 (8616580919713959 / 70368744177664) = 1938730706935641 / 70368744177664"
    unfolding fsub_def by (rule fl_eval [where e = "4"]) (simp_all add: fl_eval_simps)
  show ?thesis by (simp only: s1 s2 s3 s4 s5)
qed

lemma look_4_m5_half: "fadd (float_of_int 4) (fmul (float_of_int (- 5)) (1 / 2)) = 3 / 2"
proof -
  have s1: "float_of_int 4 = 4"
    unfolding float_of_int_def by (rule fl_eval [where e = "2"]) (simp_all add: fl_eval_simps)
  have s2: "float_of_int (- 5) = - 5"
    unfolding float_of_int_def by (rule fl_eval [where e = "2"]) (simp_all add: fl_eval_simps)
  have s3: "fmul (- 5) (1 / 2) = - (5 / 2)"
    unfolding fmul_def by (rule fl_eval [where e = "1"]) (simp_all add: fl_eval_simps)
  have s4: "fadd 4 (- (5 / 2)) = 3 / 2"
    unfolding fadd_def by (rule fl_eval [where e = "0"]) (simp_all add: fl_eval_simps)
  show ?thesis by (simp only: s1 s2 s3 s4)
qed

lemma look_4_0_half: "fadd (float_of_int 4) (fmul (float_of_int 0) (1 / 2)) = 4"
proof -
  have s1: "float_of_int 4 = 4"
    unfolding float_of_int_def by (rule fl_eval [where e = "2"]) (simp_all add: fl_eval_simps)
  have s2: "float_of_int 0 = 0"
    by (simp add: float_of_int_def)
  have s3: "fmul 0 (1 / 2) = 0"
    by (simp add: fmul_def)
  have s4: "fadd 4 0 = 4"
    unfolding fadd_def by (rule fl_eval [where e = "2"]) (simp_all add: fl_eval_simps)
  show ?thesis by (simp only: s1 s2 s3 s4)
qed

lemma look_4_m5_1: "fadd (float_of_int 4) (fmul (float_of_int (- 5)) 1) = - 1"
proof -
  have s1: "float_of_int 4 = 4"
    unfolding float_of_int_def by (rule fl_eval [where e = "2"]) (simp_all add: fl_eval_simps)
  have s2: "float_of_int (- 5) = - 5"
    unfolding float_of_int_def by (rule fl_eval [where e = "2"]) (simp_all add: fl_eval_simps)
  have s3: "fmul (- 5) 1 = - 5"
    unfolding fmul_def by (rule fl_eval [where e = "2"]) (simp_all add: fl_eval_simps)
  have s4: "fadd 4 (- 5) = - 1"
    unfolding fadd_def by (rule fl_eval [where e = "0"]) (simp_all add: fl_eval_simps)
  show ?thesis by (simp only: s1 s2 s3 s4)
qed

lemma look_4_0_1: "fadd (float_of_int 4) (fmul (float_of_int 0) 1) = 4"
proof -
  have s1: "float_of_int 4 = 4"
    unfolding float_of_int_def by (rule fl_eval [where e = "2"]) (simp_all add: fl_eval_simps)
  have s2: "float_of_int 0 = 0"
    by (simp add: float_of_int_def)
  have s3: "fmul 0 1 = 0"
    by (simp add: fmul_def)
  have s4: "fadd 4 0 = 4"
    unfolding fadd_def by (rule fl_eval [where e = "2"]) (simp_all add: fl_eval_simps)
  show ?thesis by (simp only: s1 s2 s3 s4)
qed

lemma pct_100_300: "fdiv 100 (float_of_int 300) = 6004799503160661 / 18014398509481984"
proof -
  have s1: "float_of_int 300 = 300"
    unfolding float_of_int_def by (rule fl_eval [where e = "8"]) (simp_all add: fl_eval_simps)
  have s2: "fdiv 100 300 = 6004799503160661 / 18014398509481984"
    unfolding fdiv_def by (rule fl_eval [where e = "- 2"]) (simp_all add: fl_eval_simps)
  show ?thesis by (simp only: s1 s2)
qed

lemma look_4_3_third: "fadd (float_of_int 4) (fmul (float_of_int 3) (6004799503160661 / 18014398509481984)) = 5"
proof -
  have s1: "float_of_int 4 = 4"
    unfolding float_of_int_def by (rule fl_eval [where e = "2"]) (simp_all add: fl_eval_simps)
  have s2: "float_of_int 3 = 3"
    unfolding float_of_int_def by (rule fl_eval [where e = "1"]) (simp_all add: fl_eval_simps)
  have s3: "fmul 3 (6004799503160661 / 18014398509481984) = 1"
    unfolding fmul_def by (rule fl_eval [where e = "- 1"]) (simp_all add: fl_eval_simps)
  have s4: "fadd 4 1 = 5"
    unfolding fadd_def by (rule fl_eval [where e = "2"]) (simp_all add: fl_eval_simps)
  show ?thesis by (simp only: s1 s2 s3 s4)
qed

lemma look_4_0_third: "fadd (float_of_int 4) (fmul (float_of_int 0) (6004799503160661 / 18014398509481984)) = 4"
proof -
  have s1: "float_of_int 4 = 4"
    unfolding float_of_int_def by (rule fl_eval [where e = "2"]) (simp_all add: fl_eval_simps)
  have s2: "float_of_int 0 = 0"
    by (simp add: float_of_int_def)
  have s3: "fmul 0 (6004799503160661 / 18014398509481984) = 0"
    by (simp add: fmul_def)
  have s4: "fadd 4 0 = 4"
    unfolding fadd_def by (rule fl_eval [where e = "2"]) (simp_all add: fl_eval_simps)
  show ?thesis by (simp only: s1 s2 s3 s4)
qed

lemma pct_11200_14: "fdiv (3152519739159347 / 281474976710656) (float_of_int 14) = 7205759403792793 / 9007199254740992"
proof -
  have s1: "float_of_int 14 = 14"
    unfolding float_of_int_def by (rule fl_eval [where e = "3"]) (simp_all add: fl_eval_simps)
  have s2: "fdiv (3152519739159347 / 281474976710656) 14 = 7205759403792793 / 9007199254740992"
    unfolding fdiv_def by (rule fl_eval [where e = "- 1"]) (simp_all add: fl_eval_simps)
  show ?thesis by (simp only: s1 s2)
qed

lemma look_4_m10_11200: "fadd (float_of_int 4) (fmul (float_of_int (- 10)) (7205759403792793 / 9007199254740992)) = - (4503599627370495 / 1125899906842624)"
proof -
  have s1: "float_of_int 4 = 4"
    unfolding float_of_int_def by (rule fl_eval [where e = "2"]) (simp_all add: fl_eval_simps)
  have s2: "float_of_int (- 10) = - 10"
    unfolding float_of_int_def by (rule fl_eval [where e = "3"]) (simp_all add: fl_eval_simps)
  have s3: "fmul (- 10) (7205759403792793 / 9007199254740992) = - (9007199254740991 / 1125899906842624)"
    unfolding fmul_def by (rule fl_eval [where e = "2"]) (simp_all add: fl_eval_simps)
  have s4: "fadd 4 (- (9007199254740991 / 1125899906842624)) = - (4503599627370495 / 1125899906842624)"
    unfolding fadd_def by (rule fl_eval [where e = "1"]) (simp_all add: fl_eval_simps)
  show ?thesis by (simp only: s1 s2 s3 s4)
qed

lemma look_4_0_11200: "fadd (float_of_int 4) (fmul (float_of_int 0) (7205759403792793 / 9007199254740992)) = 4"
proof -
  have s1: "float_of_int 4 = 4"
    unfolding float_of_int_def by (rule fl_eval [where e = "2"]) (simp_all add: fl_eval_simps)
  have s2: "float_of_int 0 = 0"
    by (simp add: float_of_int_def)
  have s3: "fmul 0 (7205759403792793 / 9007199254740992) = 0"
    by (simp add: fmul_def)
  have s4: "fadd 4 0 = 4"
    unfolding fadd_def by (rule fl_eval [where e = "2"]) (simp_all add: fl_eval_simps)
  show ?thesis by (simp only: s1 s2 s3 s4)
qed

lemma look_4_huge_1: "fadd (float_of_int 4) (fmul (float_of_int 9007199254740993) 1) = 9007199254740996"
proof -
  have s1: "float_of_int 4 = 4"
    unfolding float_of_int_def by (rule fl_eval [where e = "2"]) (simp_all add: fl_eval_simps)
  have s2: "float_of_int 9007199254740993 = 9007199254740992"
    unfolding float_of_int_def by (rule fl_eval [where e = "53"]) (simp_all add: fl_eval_simps)
  have s3: "fmul 9007199254740992 1 = 9007199254740992"
    unfolding fmul_def by (rule fl_eval [where e = "53"]) (simp_all add: fl_eval_simps)
  have s4: "fadd 4 9007199254740992 = 9007199254740996"
    unfolding fadd_def by (rule fl_eval [where e = "53"]) (simp_all add: fl_eval_simps)
  show ?thesis by (simp only: s1 s2 s3 s4)
qed

lemma dt_403125: "fmul (total_seconds 403125) 1000 = 3225 / 8"
proof -
  have s1: "total_seconds 403125 = 7262054399134925 / 18014398509481984"
    unfolding total_seconds_def by (rule fl_eval [where e = "- 2"]) (simp_all add: fl_eval_simps)
  have s2: "fmul (7262054399134925 / 18014398509481984) 1000 = 3225 / 8"
    unfolding fmul_def by (rule fl_eval [where e = "8"]) (simp_all add: fl_eval_simps)
  show ?thesis by (simp only: s1 s2)
qed

lemma pct_403125_500: "fdiv (3225 / 8) (float_of_int 500) = 7262054399134925 / 9007199254740992"
proof -
  have s1: "float_of_int 500 = 500"
    unfolding float_of_int_def by (rule fl_eval [where e = "8"]) (simp_all add: fl_eval_simps)
  have s2: "fdiv (3225 / 8) 500 = 7262054399134925 / 9007199254740992"
    unfolding fdiv_def by (rule fl_eval [where e = "- 1"]) (simp_all add: fl_eval_simps)
  show ?thesis by (simp only: s1 s2)
qed

lemma blink_down_403125_500: "fsub 4 (fadd (fmul 4 (fdiv (fsub (7262054399134925 / 9007199254740992) (1 / 2)) (fl (49 / 100)))) (1 / 2)) = 2251799813685247 / 2251799813685248"
proof -
  have s1: "fsub (7262054399134925 / 9007199254740992) (1 / 2) = 2758454771764429 / 9007199254740992"
    unfolding fsub_def by (rule fl_eval [where e = "- 2"]) (simp_all add: fl_eval_simps)
  have s2: "fl (49 / 100) = 2206763817411543 / 4503599627370496"
    by (rule fl_eval [where e = "- 2"]) (simp_all add: fl_eval_simps)
  have s3: "fdiv (2758454771764429 / 9007199254740992) (2206763817411543 / 4503599627370496) = 5629499534213121 / 9007199254740992"
    unfolding fdiv_def by (rule fl_eval [where e = "- 1"]) (simp_all add: fl_eval_simps)
  have s4: "fmul 4 (5629499534213121 / 9007199254740992) = 5629499534213121 / 2251799813685248"
    unfolding fmul_def by (rule fl_eval [where e = "1"]) (simp_all add: fl_eval_simps)
  have s5: "fadd (5629499534213121 / 2251799813685248) (1 / 2) = 6755399441055745 / 2251799813685248"
    unfolding fadd_def by (rule fl_eval [where e = "1"]) (simp_all add: fl_eval_simps)
  have s6: "fsub 4 (6755399441055745 / 2251799813685248) = 2251799813685247 / 2251799813685248"
    unfolding fsub_def by (rule fl_eval [where e = "- 1"]) (simp_all add: fl_eval_simps)
  show ?thesis by (simp only: s1 s2 s3 s4 s5 s6)
qed

lemma dt_77175: "fmul (total_seconds 77175) 1000 = 5430707831911219 / 70368744177664"
proof -
  have s1: "total_seconds 77175 = 173782650621159 / 2251799813685248"
    unfolding total_seconds_def by (rule fl_eval [where e = "- 4"]) (simp_all add: fl_eval_simps)
  have s2: "fmul (173782650621159 / 2251799813685248) 1000 = 5430707831911219 / 70368744177664"
    unfolding fmul_def by (rule fl_eval [where e = "6"]) (simp_all add: fl_eval_simps)
  show ?thesis by (simp only: s1 s2)
qed

lemma pct_77175_300: "fdiv (5430707831911219 / 70368744177664) (float_of_int 300) = 289637751035265 / 1125899906842624"
proof -
  have s1: "float_of_int 300 = 300"
    unfolding float_of_int_def by (rule fl_eval [where e = "8"]) (simp_all add: fl_eval_simps)
  have s2: "fdiv (5430707831911219 / 70368744177664) 300 = 289637751035265 / 1125899906842624"
    unfolding fdiv_def by (rule fl_eval [where e = "- 2"]) (simp_all add: fl_eval_simps)
  show ?thesis by (simp only: s1 s2)
qed

lemma glow_up_77175_300: "fadd 30 (fmul 120 (fdiv (289637751035265 / 1125899906842624) (fl (49 / 100)))) = 6544293208522751 / 70368744177664"
proof -
  have s1: "fl (49 / 100) = 2206763817411543 / 4503599627370496"
    by (rule fl_eval [where e = "- 2"]) (simp_all add: fl_eval_simps)
  have s2: "fdiv (289637751035265 / 1125899906842624) (2206763817411543 / 4503599627370496) = 1182194902184755 / 2251799813685248"
    unfolding fdiv_def by (rule fl_eval [where e = "- 1"]) (simp_all add: fl_eval_simps)
  have s3: "fmul 120 (1182194902184755 / 2251799813685248) = 4433230883192831 / 70368744177664"
    unfolding fmul_def by (rule fl_eval [where e = "5"]) (simp_all add: fl_eval_simps)
  have s4: "fadd 30 (4433230883192831 / 70368744177664) = 6544293208522751 / 70368744177664"
    unfolding fadd_def by (rule fl_eval [where e = "6"]) (simp_all add: fl_eval_simps)
  show ?thesis by (simp only: s1 s2 s3 s4)
qed

subsection \<open>What the operations leave alone\<close>

lemma Point_init_eyes [simp]: "eyes (snd (Point_init x y w)) = eyes w"
  by (simp add: Point_init_def)

lemma Point_init_device [simp]: "device (snd (Point_init x y w)) = device w"
  by (simp add: Point_init_def)

lemma Point_init_fst [simp]: "fst (Point_init x y w) = next_ref w"
  by (simp add: Point_init_def)

lemma Point_init_next_ref [simp]: "next_ref (snd (Point_init x y w)) = Suc (next_ref w)"
  by (simp add: Point_init_def)

lemma Point_init_heap [simp]:
  "heap (snd (Point_init x y w)) = (heap w)(next_ref w := \<lparr>pt_x = x, pt_y = y\<rparr>)"
  by (simp add: Point_init_def)

lemma look_at_eyes [simp]: "eyes (snd (look_at e x y ms w)) = eyes w"
  by (simp add: look_at_def case_prod_beta)

lemma look_both_eyes [simp]: "eyes (snd (look_both l pl r pr ms w)) = eyes w"
  by (simp add: look_both_def case_prod_beta)

lemma look_both_list_eyes [simp]: "eyes (snd (look_both_list l r ps ms w)) = eyes w"
  by (induction ps arbitrary: w) (simp_all add: case_prod_beta)

lemma CrazySpin_loop_eyes [simp]: "eyes (snd (CrazySpin_loop l r is ms a w)) = eyes w"
  by (induction "is" arbitrary: a w) (simp_all add: case_prod_beta Let_def)

lemma RoundSpin_loop_eyes [simp]: "eyes (snd (RoundSpin_loop l r is ms a w)) = eyes w"
  by (induction "is" arbitrary: a w) (simp_all add: case_prod_beta Let_def)

lemma pick_effect_eyes [simp]: "eyes (snd (pick_effect i l r w)) = eyes w"
  by (simp add: pick_effect_def CrossEyes_init_def MethEyes_init_def LazyEye_init_def
      CrazySpin_init_def RoundSpin_init_def case_prod_beta Let_def)

lemma refill_eyes [simp]: "eyes (snd (refill rnd w)) = eyes w"
  by (simp add: refill_def case_prod_beta Let_def)

lemma Eye_look'_eyelids [simp]: "eyelids (eyes (Eye_look' e p w) e') = eyelids (eyes w e')"
  by (simp add: Eye_look'_def Let_def)

lemma Eye_off'_eyelids [simp]: "eyelids (Eye_off' x y e) = eyelids e"
  by (simp add: Eye_off'_def Let_def)

lemma Eye_row_off'_eyelids [simp]: "eyelids (Eye_row_off' y e) = eyelids e"
  by (simp add: Eye_row_off'_def Let_def)

lemma Eye_image_loop_eyelids [simp]: "eyelids (Eye_image_loop is e) = eyelids e"
  unfolding Eye_image_loop_def by (induction "is" arbitrary: e) simp_all

lemma Eye_image_eyelids [simp]: "eyelids (snd (Eye_image h e)) = eyelids e"
  by (simp add: Eye_image_def Let_def)

lemma init_world_facts:
  "next_ref init_world = 2"
  "heap init_world 0 = \<lparr>pt_x = 4, pt_y = 4\<rparr>"
  "heap init_world (Suc 0) = \<lparr>pt_x = 4, pt_y = 4\<rparr>"
  "eyes init_world Left_eye = \<lparr>pixels = eye_ball, pupil = 0, eyelids = - 1\<rparr>"
  "eyes init_world Right_eye = \<lparr>pixels = eye_ball, pupil = Suc 0, eyelids = - 1\<rparr>"
  "device init_world = [30]"
  by (simp_all add: init_world_def Eye_init_def device_contrast_def empty_world_def
      case_prod_beta)

subsection \<open>Ticks at which rounding decides\<close>

text \<open>
  Three ticks of leaf animations begun at time 0. A \<^verbatim>\<open>Blink\<close> of 500 ms ticked after
  403.125 ms stores the eyelid offset 0, a \<^verbatim>\<open>GlowEyes\<close> of 300 ms ticked after 77.175 ms
  passes the level 92, and a \<^verbatim>\<open>Look\<close> of 14 ms from column 4 towards column \<open>-6\<close>
  ticked after 11.2 ms leaves the pupil at column \<open>-3\<close>, that is 5: the floats computed
  lie just off the numbers 1, 93 and \<open>-4\<close> that the formulas have over the real numbers.
\<close>

lemma tick_Blink_rounding:
  "tick (Blink (Some 0) False 500 Left_eye 0) 403125 init_world =
     Inr (Blink (Some 0) False 500 Left_eye 0, Eye_eyelids' Left_eye 0 init_world)"
  "int_trunc (4 - (4 * ((403125 / 500000 - 1 / 2) / (49 / 100)) + 1 / 2)) = 1"
  by (simp_all add: LinearAnimation_tick_def Blink_animate'_def int_trunc_def dt_403125
      pct_403125_500 blink_down_403125_500)

lemma tick_GlowEyes_rounding:
  "tick (GlowEyes (Some 0) False 300) 77175 init_world =
     Inr (GlowEyes (Some 0) False 300, device_contrast 92 init_world)"
  "int_trunc (30 + 120 * ((77175 / 300000) / (49 / 100))) = 93"
  by (simp_all add: LinearAnimation_tick_def GlowEyes_animate'_def int_trunc_def dt_77175
      pct_77175_300 glow_up_77175_300)

lemma tick_Look_rounding:
  "tick (Look (Some 0) False 14 Left_eye 0 2 (- 10) 0) 11200 (snd (Point_init (- 6) 4 init_world))
     = Inr (Look (Some 0) False 14 Left_eye 0 2 (- 10) 0,
            Eye_look' Left_eye 3
              (snd (Point_init (- 3) 4 (snd (Point_init (- 6) 4 init_world)))))"
  "int_trunc (4 + (- 10) * (11200 / 14000)) = - 4"
  by (simp_all add: LinearAnimation_tick_def Look_animate'_def int_trunc_def case_prod_beta
      init_world_facts dt_11200 pct_11200_14 look_4_m10_11200 look_4_0_11200)

subsection \<open>A relation between the states before and after a tick\<close>

text \<open>
  A reflexive and transitive relation that every step of a leaf animation satisfies
  holds between the state before and the state after any tick of any animation.
\<close>

lemma tick_world_rel:
  assumes rfl: "\<And>w. R w w"
    and trn: "\<And>u v x. R u v \<Longrightarrow> R v x \<Longrightarrow> R u x"
    and stp: "\<And>a pct w. R w (animate' a pct w)"
  shows "tick a now w = Inr (a1, w1) \<Longrightarrow> R w w1"
    and "AnimationGroup_loop as now w ad = Inr (as1, w2, ad1) \<Longrightarrow> R w w2"
proof (induction a now w and as now w ad arbitrary: a1 w1 and as1 w2 ad1
       rule: tick_AnimationGroup_loop.induct)
  case (1 st d as now w)
  then show ?case by (simp split: sum.splits prod.splits)
next
  case (2 st d q act now w)
  show ?case
  proof (cases "act = None \<or> is_done (the act)")
    case True
    with "2.prems" rfl show ?thesis by (auto split: list.splits option.splits)
  next
    case False
    then obtain a where act: "act = Some a" "\<not> is_done a" by auto
    with "2.prems" obtain a2 where "tick a now w = Inr (a2, w1)"
      by (auto split: sum.splits)
    with "2.IH" act show ?thesis by simp
  qed
next
  case (8 a as now w all_done)
  from "8.prems"(1) obtain a2 w3 as2 where
    t: "tick a now w = Inr (a2, w3)" and
    l: "AnimationGroup_loop as now w3 (if \<not> is_done a2 then False else all_done)
          = Inr (as2, w2, ad1)"
    by (auto split: sum.splits)
  from "8.IH"(1) [OF t] have "R w w3" .
  with "8.IH"(2) [OF t refl l] trn show ?case by blast
qed (auto simp: LinearAnimation_tick_def Let_def rfl stp simp del: animate'.simps
      split: option.splits if_splits)

subsection \<open>The eyelid offset\<close>

lemma eyelids_ok_eyes: "eyes w1 = eyes w \<Longrightarrow> eyelids_ok w \<Longrightarrow> eyelids_ok w1"
  by (simp add: eyelids_ok_def)

lemma eyelids_ok_Eye_eyelids': "eyelids_ok w \<Longrightarrow> eyelids_ok (Eye_eyelids' e off w)"
  by (simp add: eyelids_ok_def Eye_eyelids'_def)

lemma eyelids_ok_Eye_look': "eyelids_ok w \<Longrightarrow> eyelids_ok (Eye_look' e p w)"
  by (simp add: eyelids_ok_def)

lemma eyelids_ok_Eye_init: "eyelids_ok w \<Longrightarrow> eyelids_ok (Eye_init e w)"
  by (simp add: eyelids_ok_def Eye_init_def case_prod_beta)

lemma eyelids_ok_render: "eyelids_ok w \<Longrightarrow> eyelids_ok (render w)"
  by (simp add: eyelids_ok_def render_def Let_def)

lemma eyelids_ok_device_contrast: "eyelids_ok w \<Longrightarrow> eyelids_ok (device_contrast c w)"
  by (simp add: eyelids_ok_def device_contrast_def)

lemma eyelids_ok_Point_init: "eyelids_ok w \<Longrightarrow> eyelids_ok (snd (Point_init x y w))"
  by (simp add: eyelids_ok_def)

lemma eyelids_ok_animate': "eyelids_ok w \<Longrightarrow> eyelids_ok (animate' a pct w)"
  by (cases a)
     (simp_all add: Look_animate'_def Blink_animate'_def GlowEyes_animate'_def Let_def
        case_prod_beta eyelids_ok_Eye_eyelids' eyelids_ok_Eye_look' eyelids_ok_device_contrast
        eyelids_ok_Point_init)

lemma eyelids_ok_tick: "tick a now w = Inr (a1, w1) \<Longrightarrow> eyelids_ok w \<Longrightarrow> eyelids_ok w1"
  using tick_world_rel(1) [where R = "\<lambda>u v. eyelids_ok u \<longrightarrow> eyelids_ok v"]
  by (blast intro: eyelids_ok_animate')

lemma eyelids_ok_init_world: "eyelids_ok init_world"
  unfolding eyelids_ok_def
proof
  fix e
  show "- 1 \<le> eyelids (eyes init_world e) \<and> eyelids (eyes init_world e) \<le> 3"
    by (cases e) (simp_all add: init_world_def Eye_init_def case_prod_beta)
qed

lemma loop_body_unfold:
  "loop_body rnd now (m, w) =
     (case tick (fst (if is_done m then refill rnd w else (m, w))) now
             (snd (if is_done m then refill rnd w else (m, w))) of
        Inl err \<Rightarrow> Inl err
      | Inr (m2, w2) \<Rightarrow> Inr (m2, render w2))"
  unfolding loop_body_def Let_def case_prod_beta fst_conv snd_conv ..

lemma eyelids_ok_loop_body:
  assumes "loop_body rnd now (m, w) = Inr (m1, w1)" and "eyelids_ok w"
  shows "eyelids_ok w1"
proof -
  let ?s = "if is_done m then refill rnd w else (m, w)"
  have "eyes (snd ?s) = eyes w" by simp
  from this assms(2) have ok2: "eyelids_ok (snd ?s)" by (simp add: eyelids_ok_def)
  from assms(1) obtain w3 where t: "tick (fst ?s) now (snd ?s) = Inr (m1, w3)"
    and w1: "w1 = render w3"
    unfolding loop_body_unfold by (cases "tick (fst ?s) now (snd ?s)") auto
  from eyelids_ok_tick [OF t ok2] w1 show ?thesis by (simp only: eyelids_ok_render)
qed

lemma int_trunc_range:
  "- 1 < q \<Longrightarrow> q < of_int hi + 1 \<Longrightarrow> 0 \<le> hi \<Longrightarrow> 0 \<le> int_trunc q \<and> int_trunc q \<le> hi"
  unfolding int_trunc_def
  by (auto simp: le_floor_iff floor_le_iff ceiling_le_iff le_ceiling_iff)

lemma fl_49_100_bounds: "4899 / 10000 \<le> fl (49 / 100)" "fl (49 / 100) \<le> 4901 / 10000"
  using fl_interval [of "49 / 100" "49 / 100" "49 / 100"] by simp_all

text \<open>
  The value of \<^verbatim>\<open>4 * (s / 0.49) + 0.5\<close> for a float \<open>s\<close> within \<open>0..0.501\<close>.
\<close>

lemma blink_ramp:
  assumes "0 \<le> s" and "s \<le> 501 / 1000"
  shows "499 / 1000 \<le> fadd (fmul 4 (fdiv s (fl (49 / 100)))) (1 / 2)"
    and "fadd (fmul 4 (fdiv s (fl (49 / 100)))) (1 / 2) \<le> 47 / 10"
proof -
  define c where "c = fl (49 / 100)"
  define q where "q = s / c"
  have c: "4899 / 10000 \<le> c"
    using fl_49_100_bounds by (simp add: c_def)
  have q0: "0 \<le> q" using assms(1) c by (simp add: q_def)
  have "s / c \<le> (501 / 1000) / (4899 / 10000)"
    using assms c by (intro frac_le) simp_all
  then have q1: "q \<le> 5010 / 4899" by (simp add: q_def)
  have y1: "0 \<le> fl q" "fl q \<le> 1023 / 1000"
    using fl_interval(2) [OF q0 q1] q0 by simp_all
  have y2: "0 \<le> fl (4 * fl q)" "fl (4 * fl q) \<le> 4093 / 1000"
    using fl_interval(2) [of 0 "4 * fl q" "4092 / 1000"] y1 by simp_all
  have y3: "499 / 1000 \<le> fl (fl (4 * fl q) + 1 / 2)" "fl (fl (4 * fl q) + 1 / 2) \<le> 47 / 10"
    using fl_interval [of "1 / 2" "fl (4 * fl q) + 1 / 2" "4593 / 1000"] y2 by simp_all
  from y3 show "499 / 1000 \<le> fadd (fmul 4 (fdiv s (fl (49 / 100)))) (1 / 2)"
    and "fadd (fmul 4 (fdiv s (fl (49 / 100)))) (1 / 2) \<le> 47 / 10"
    by (simp_all add: fadd_def fmul_def fdiv_def c_def q_def)
qed

lemma blink_first_half:
  assumes "0 \<le> pct" and "pct < 1 / 2"
  shows "0 \<le> int_trunc (fadd (fmul 4 (fdiv pct (fl (49 / 100)))) (1 / 2)) \<and>
    int_trunc (fadd (fmul 4 (fdiv pct (fl (49 / 100)))) (1 / 2)) \<le> 4"
proof -
  from assms have "pct \<le> 501 / 1000" by simp
  from blink_ramp [OF assms(1) this] show ?thesis
    by (intro int_trunc_range) simp_all
qed

lemma blink_second_half:
  assumes "1 / 2 \<le> pct" and "pct \<le> 1"
  shows "0 \<le> int_trunc (fsub 4 (fadd (fmul 4 (fdiv (fsub pct (1 / 2)) (fl (49 / 100))))
                                    (1 / 2))) \<and>
    int_trunc (fsub 4 (fadd (fmul 4 (fdiv (fsub pct (1 / 2)) (fl (49 / 100)))) (1 / 2))) \<le> 3"
proof -
  define s where "s = fsub pct (1 / 2)"
  define v where "v = fadd (fmul 4 (fdiv s (fl (49 / 100)))) (1 / 2)"
  have s: "0 \<le> s" "s \<le> 501 / 1000"
    using fl_interval(2) [of 0 "pct - 1 / 2" "1 / 2"] assms by (simp_all add: s_def fsub_def)
  from blink_ramp [OF s] have v: "499 / 1000 \<le> v" "v \<le> 47 / 10" by (simp_all add: v_def)
  then have "\<bar>4 - v\<bar> \<le> 4" by simp
  from fl_near [OF this] v have "- 1 < fl (4 - v)" "fl (4 - v) < 4"
    by linarith+
  then have "0 \<le> int_trunc (fsub 4 v) \<and> int_trunc (fsub 4 v) \<le> 3"
    unfolding fsub_def by (intro int_trunc_range) simp_all
  then show ?thesis by (simp add: v_def s_def)
qed

lemma blink_reaches_4: "int_trunc (fadd (fmul 4 (fdiv (fl (9 / 20)) (fl (49 / 100)))) (1 / 2)) = 4"
  by (simp add: blink_up_9_20 int_trunc_def)

text \<open>
  C9. The eyelid offset of every eye stays within \<open>-1..3\<close>: it is so after the eyes are
  created, whatever \<^verbatim>\<open>_eyelids\<close> is given it stores a value within the range, and creating
  an eye, \<^verbatim>\<open>_eyelids\<close>, \<^verbatim>\<open>_look\<close>, a step of a leaf animation, the refill of the main
  sequence, rendering, a tick of any animation and a pass of the animation loop keep it
  so. The offsets that \<^verbatim>\<open>Blink._animate\<close> computes for a progress within \<open>0..1\<close> lie within
  \<open>0..4\<close>, and 4 is reached (at the float nearest to 45 percent).
\<close>

theorem eyelids_stay_in_range:
  "eyelids_ok init_world \<and>
   (- 1 \<le> eyelids (eyes (Eye_eyelids' e offset w) e) \<and>
    eyelids (eyes (Eye_eyelids' e offset w) e) \<le> 3) \<and>
   (eyelids_ok w \<longrightarrow>
      eyelids_ok (Eye_init e w) \<and> eyelids_ok (Eye_eyelids' e offset w) \<and>
      eyelids_ok (Eye_look' e pos w) \<and> eyelids_ok (animate' a pct w) \<and>
      eyelids_ok (snd (refill rnd w)) \<and> eyelids_ok (render w) \<and>
      (\<forall>a1 w1. tick a now w = Inr (a1, w1) \<longrightarrow> eyelids_ok w1) \<and>
      (\<forall>m1 w1. loop_body rnd now (m, w) = Inr (m1, w1) \<longrightarrow> eyelids_ok w1)) \<and>
   (0 \<le> pct \<and> pct < 1 / 2 \<longrightarrow>
      0 \<le> int_trunc (fadd (fmul 4 (fdiv pct (fl (49 / 100)))) (1 / 2)) \<and>
      int_trunc (fadd (fmul 4 (fdiv pct (fl (49 / 100)))) (1 / 2)) \<le> 4) \<and>
   (1 / 2 \<le> pct \<and> pct \<le> 1 \<longrightarrow>
      0 \<le> int_trunc (fsub 4 (fadd (fmul 4 (fdiv (fsub pct (1 / 2)) (fl (49 / 100))))
                                      (1 / 2))) \<and>
      int_trunc (fsub 4 (fadd (fmul 4 (fdiv (fsub pct (1 / 2)) (fl (49 / 100)))) (1 / 2)))
        \<le> 3) \<and>
   int_trunc (fadd (fmul 4 (fdiv (fl (9 / 20)) (fl (49 / 100)))) (1 / 2)) = 4"
proof -
  have setter: "- 1 \<le> eyelids (eyes (Eye_eyelids' e offset w) e) \<and>
      eyelids (eyes (Eye_eyelids' e offset w) e) \<le> 3"
    by (simp add: Eye_eyelids'_def)
  have refill_ok: "eyelids_ok (snd (refill rnd w))" if "eyelids_ok w"
    using that by (simp add: eyelids_ok_def)
  have tk: "\<forall>a1 w1. tick a now w = Inr (a1, w1) \<longrightarrow> eyelids_ok w1" if "eyelids_ok w"
    using that eyelids_ok_tick by blast
  have lp: "\<forall>m1 w1. loop_body rnd now (m, w) = Inr (m1, w1) \<longrightarrow> eyelids_ok w1"
    if "eyelids_ok w"
    using that eyelids_ok_loop_body by blast
  show ?thesis
    by (intro conjI impI eyelids_ok_init_world refill_ok eyelids_ok_Eye_init
        eyelids_ok_Eye_eyelids' eyelids_ok_Eye_look' eyelids_ok_animate' eyelids_ok_render
        tk lp blink_reaches_4
        conjunct1 [OF setter] conjunct2 [OF setter]
        conjunct1 [OF blink_first_half] conjunct2 [OF blink_first_half]
        conjunct1 [OF blink_second_half] conjunct2 [OF blink_second_half])
      simp_all
qed

lemma tick_Blink_example:
  "tick (Blink (Some 0) False 500 Left_eye 0) 225000 init_world =
     Inr (Blink (Some 0) False 500 Left_eye 0, Eye_eyelids' Left_eye 4 init_world)"
  by (simp add: LinearAnimation_tick_def Blink_animate'_def int_trunc_def dt_225000 pct_225_500
      blink_up_225_500)

theorem eyelids_stay_in_range_witness:
  "eyelids_ok init_world \<and>
   tick (Blink (Some 0) False 500 Left_eye 0) 225000 init_world =
     Inr (Blink (Some 0) False 500 Left_eye 0, Eye_eyelids' Left_eye 4 init_world) \<and>
   eyelids_ok (Eye_eyelids' Left_eye 4 init_world) \<and>
   eyelids (eyes (Eye_eyelids' Left_eye 4 init_world) Left_eye) = 3 \<and>
   0 \<le> fdiv 225 (float_of_int 500) \<and> fdiv 225 (float_of_int 500) < 1 / 2 \<and>
   int_trunc (fadd (fmul 4 (fdiv (fdiv 225 (float_of_int 500)) (fl (49 / 100)))) (1 / 2)) = 4 \<and>
   (1 / 2 :: real) \<le> 1 \<and>
   int_trunc (fsub 4 (fadd (fmul 4 (fdiv (fsub 1 (1 / 2)) (fl (49 / 100)))) (1 / 2))) = 0"
  using eyelids_stay_in_range [of Left_eye 4 init_world "1" "Blink (Some 0) False 500 Left_eye 0"
      "fdiv 225 (float_of_int 500)"
      "\<lparr>r_x = 2, r_y = 2, r_wait = 5, r_blink = 0, r_effect = 1, r_pick = 0\<rparr>"
      225000 "AnimationSequence_init []"]
    tick_Blink_example
  by (simp add: Eye_eyelids'_def int_trunc_def pct_225_500 blink_up_225_500 blink_down_1)

subsection \<open>The order of an \<^verbatim>\<open>AnimationSequence\<close>\<close>



lemma anim_begin_start: "start (anim_begin now c) = Some now"
  by (cases c) simp_all

lemma anim_begin_is_done: "is_done (anim_begin now c) = is_done c"
  by (cases c) simp_all

lemma ticks_AnimationSequence_queue:
  "ticks (AnimationSequence st d q act) ts w = Inr (s1, w1) \<Longrightarrow>
     \<exists>k. animations s1 = drop k q"
proof (induction ts arbitrary: st d q act w)
  case Nil
  then have "animations s1 = drop 0 q" by auto
  then show ?case by blast
next
  case (Cons now ts)
  from Cons.prems obtain s2 w2 where
    t: "tick (AnimationSequence st d q act) now w = Inr (s2, w2)" and
    r: "ticks s2 ts w2 = Inr (s1, w1)"
    by (auto split: sum.splits)
  from t obtain st2 d2 act2 j where s2: "s2 = AnimationSequence st2 d2 (drop j q) act2"
    apply (auto split: option.splits if_splits list.splits sum.splits)
    apply (metis drop0 drop_Suc_Cons)+
    done
  from Cons.IH [OF r [unfolded s2]] obtain k where "animations s1 = drop k (drop j q)" ..
  then show ?case by (metis drop_drop)
qed

text \<open>
  C1. A tick of a sequence whose active slot is empty (or holds an animation that is done)
  and whose queue is \<open>c # cs\<close> raises nothing, takes \<open>c\<close> from the queue, begins it at
  \<open>now\<close> and returns: the state of the eyes and the device is the same and \<open>c\<close> is begun,
  not ticked. A later tick is forwarded to that child (when it was not done from its
  construction). While the active child is not done, a tick leaves the queue as it is and
  ticks that child. After any number of ticks the queue is what is left of the first queue
  after dropping some of its first elements.
\<close>

theorem AnimationSequence_tick_order:
  "((act = None \<or> (\<exists>a0. act = Some a0 \<and> is_done a0)) \<longrightarrow>
      tick (AnimationSequence st d (c # cs) act) now w =
        Inr (AnimationSequence st d cs (Some (anim_begin now c)), w)) \<and>
   start (anim_begin now c) = Some now \<and>
   is_done (anim_begin now c) = is_done c \<and>
   (\<not> is_done c \<longrightarrow>
      tick (AnimationSequence st d cs (Some (anim_begin now c))) now2 w =
        (case tick (anim_begin now c) now2 w of
           Inl err \<Rightarrow> Inl err
         | Inr (a1, w1) \<Rightarrow> Inr (AnimationSequence st d cs (Some a1), w1))) \<and>
   (\<not> is_done a \<and> tick (AnimationSequence st d q (Some a)) now3 w3 = Inr (s1, w4) \<longrightarrow>
      animations s1 = q \<and> (\<exists>a1. active s1 = Some a1 \<and> tick a now3 w3 = Inr (a1, w4))) \<and>
   (ticks (AnimationSequence st d q0 act0) ts w5 = Inr (s2, w6) \<longrightarrow>
      (\<exists>k. animations s2 = drop k q0))"
proof (intro conjI impI)
  assume "act = None \<or> (\<exists>a0. act = Some a0 \<and> is_done a0)"
  then show "tick (AnimationSequence st d (c # cs) act) now w =
      Inr (AnimationSequence st d cs (Some (anim_begin now c)), w)"
    by auto
next
  assume "\<not> is_done c"
  then show "tick (AnimationSequence st d cs (Some (anim_begin now c))) now2 w =
      (case tick (anim_begin now c) now2 w of
         Inl err \<Rightarrow> Inl err
       | Inr (a1, w1) \<Rightarrow> Inr (AnimationSequence st d cs (Some a1), w1))"
    by (simp add: anim_begin_is_done)
next
  assume "\<not> is_done a \<and> tick (AnimationSequence st d q (Some a)) now3 w3 = Inr (s1, w4)"
  then show "animations s1 = q" "\<exists>a1. active s1 = Some a1 \<and> tick a now3 w3 = Inr (a1, w4)"
    by (auto split: sum.splits)
next
  assume "ticks (AnimationSequence st d q0 act0) ts w5 = Inr (s2, w6)"
  then show "\<exists>k. animations s2 = drop k q0" by (rule ticks_AnimationSequence_queue)
qed (simp_all add: anim_begin_start anim_begin_is_done)

theorem AnimationSequence_tick_order_witness:
  "tick (AnimationSequence None False [Wait None False 100, Wait None False 50] None) 0 init_world
     = Inr (AnimationSequence None False [Wait None False 50] (Some (Wait (Some 0) False 100)),
            init_world) \<and>
   tick (AnimationSequence None False [Wait None False 50] (Some (Wait (Some 0) False 100)))
       100000 init_world
     = Inr (AnimationSequence None False [Wait None False 50] (Some (Wait (Some 0) False 100)),
            init_world) \<and>
   animations (AnimationSequence None False [Wait None False 50] (Some (Wait (Some 0) False 100)))
     = [Wait None False 50] \<and>
   ticks (AnimationSequence None False [Wait None False 100, Wait None False 50] None)
       [0, 100000, 200000, 300000] init_world
     = Inr (AnimationSequence None False [] (Some (Wait (Some 300000) False 50)), init_world) \<and>
   (\<exists>k. animations (AnimationSequence None False [] (Some (Wait (Some 300000) False 50)))
          = drop k [Wait None False 100, Wait None False 50])"
proof -
  have t1: "tick (AnimationSequence None False [Wait None False 50]
        (Some (Wait (Some 0) False 100))) 100000 init_world
      = Inr (AnimationSequence None False [Wait None False 50] (Some (Wait (Some 0) False 100)),
             init_world)"
    by (simp add: LinearAnimation_tick_def dt_100000)
  have t2: "ticks (AnimationSequence None False [Wait None False 100, Wait None False 50] None)
        [0, 100000, 200000, 300000] init_world
      = Inr (AnimationSequence None False [] (Some (Wait (Some 300000) False 50)), init_world)"
    by (simp add: LinearAnimation_tick_def dt_100000 dt_200000)
  from t1 t2
    AnimationSequence_tick_order [of None None False "Wait None False 100" "[Wait None False 50]"
      0 init_world 100000 "Wait (Some 0) False 100" "[Wait None False 50]" 100000 init_world
      "AnimationSequence None False [Wait None False 50] (Some (Wait (Some 0) False 100))"
      init_world "[Wait None False 100, Wait None False 50]" None "[0, 100000, 200000, 300000]"
      init_world "AnimationSequence None False [] (Some (Wait (Some 300000) False 50))"
      init_world]
  show ?thesis by simp
qed

subsection \<open>The positions of a \<^verbatim>\<open>Look\<close>\<close>

lemma int_trunc_of_int [simp]: "int_trunc (of_int n) = n"
  by (simp add: int_trunc_def)

lemma ceiling_neg_one [simp]: "\<lceil>- 1 :: real\<rceil> = - 1"
  using ceiling_of_int [of "- 1", where ?'a = real] by simp

lemma Look_animate'_pupil:
  "\<not> is_done a \<Longrightarrow>
     pupil_point (Look_animate' a pct w) (eye a) =
       \<lparr>pt_x = int_trunc (fadd (float_of_int (pt_x (heap w (origin a))))
                               (fmul (float_of_int (dx a)) pct)) mod 8,
        pt_y = int_trunc (fadd (float_of_int (pt_y (heap w (origin a))))
                               (fmul (float_of_int (dy a)) pct)) mod 8\<rparr>"
  by (simp add: Look_animate'_def pupil_point_def Eye_look'_def Let_def case_prod_beta)

text \<open>
  The two ends of the interpolation are exact when the integers involved are doubles, as
  every integer below \<open>2^53\<close> in magnitude is.
\<close>

lemma look_start:
  assumes "\<bar>m\<bar> < 2 ^ 53"
  shows "int_trunc (fadd (float_of_int m) (fmul (float_of_int n) 0)) = m"
  using fl_exact [OF assms, of 0] float_of_int_exact [OF assms]
  by (simp add: fadd_def fmul_def)

lemma look_end:
  assumes m: "\<bar>m\<bar> < 2 ^ 53" and n: "\<bar>n\<bar> < 2 ^ 53" and s: "\<bar>m + n\<bar> < 2 ^ 53"
  shows "int_trunc (fadd (float_of_int m) (fmul (float_of_int n) 1)) = m + n"
proof -
  have "fmul (float_of_int n) 1 = of_int n"
    using fl_exact [OF n, of 0] by (simp add: fmul_def float_of_int_exact [OF n])
  moreover have "fl (of_int m + of_int n) = of_int (m + n)"
    using fl_exact [OF s, of 0] by simp
  ultimately show ?thesis
    by (simp add: fadd_def float_of_int_exact [OF m] del: of_int_add)
qed

text \<open>
  In between, the float computed differs from the number \<open>m + n * pct\<close> by the two
  roundings only.
\<close>

lemma look_error:
  assumes m: "\<bar>m\<bar> < 2 ^ 53" and n: "\<bar>n\<bar> < 2 ^ 53" and "0 \<le> pct" and "pct \<le> 1"
  shows "\<bar>fadd (float_of_int m) (fmul (float_of_int n) pct) - (of_int m + of_int n * pct)\<bar>
    \<le> (\<bar>of_int m\<bar> + 3 * \<bar>of_int n\<bar>) / 1000000000000000"
proof -
  define M :: real where "M = of_int m"
  define N :: real where "N = of_int n"
  define p where "p = N * pct"
  define b where "b = \<bar>M\<bar> + 2 * \<bar>N\<bar>"
  have "\<bar>p\<bar> = \<bar>N\<bar> * pct" using assms(3) by (simp add: p_def abs_mult)
  also have "\<dots> \<le> \<bar>N\<bar> * 1" using assms(4) by (intro mult_left_mono) simp_all
  finally have p: "\<bar>p\<bar> \<le> \<bar>N\<bar>" by simp
  note e1 = fl_near [OF p]
  have b: "b = \<bar>M\<bar> + 2 * \<bar>N\<bar>" by (rule b_def)
  from e1 p b have "\<bar>M + fl p\<bar> \<le> b" by linarith
  note e2 = fl_near [OF this]
  from e1 e2 b
  have "\<bar>fl (M + fl p) - (M + p)\<bar> \<le> \<bar>M\<bar> / 1000000000000000 + 3 * (\<bar>N\<bar> / 1000000000000000)"
    by linarith
  then show ?thesis
    by (simp add: fadd_def fmul_def float_of_int_exact [OF m] float_of_int_exact [OF n]
        M_def N_def p_def add_divide_distrib)
qed

text \<open>
  C7 as stated fails in two ways. The positions in between are not those of the formula
  over the real numbers: from the pupil at \<open>(4, 4)\<close>, the \<^verbatim>\<open>Look\<close> of 300 ms towards
  \<open>(7, 4)\<close> at the progress \<^verbatim>\<open>100.0 / 300\<close>, that of a tick after 100 ms, leaves the pupil
  at column 5, since the product \<^verbatim>\<open>3 * pct\<close> is rounded to \<open>1.0\<close>; the sum
  \<open>4 + 3 * pct\<close> over the real numbers lies below 5, and its truncation is 4. And the
  end is not the destination when a coordinate is no double: the \<^verbatim>\<open>Look\<close> from \<open>(4, 4)\<close>
  towards \<open>(2^53 + 5, 4)\<close> has \<open>dx = 2^53 + 1\<close>, which \<^verbatim>\<open>self.dx * pct\<close> converts to the
  float \<open>2^53\<close>, and \<^verbatim>\<open>_animate(1)\<close> leaves the pupil at column 4, while the column of
  the destination modulo 8 is 5. In both, the destination is the point constructed at
  reference 2.
\<close>

theorem Look_animate'_counterexample:
  "Look_init Left_eye 2 (Some 300) (snd (Point_init 7 4 init_world))
     = Look None False 300 Left_eye 0 2 3 0 \<and>
   pupil_point (Look_animate' (Look None False 300 Left_eye 0 2 3 0) (fdiv 100 (float_of_int 300))
                  (snd (Point_init 7 4 init_world))) Left_eye
     = \<lparr>pt_x = 5, pt_y = 4\<rparr> \<and>
   int_trunc (4 + 3 * fdiv 100 (float_of_int 300)) mod 8 = 4 \<and>
   Look_init Left_eye 2 None (snd (Point_init 9007199254740997 4 init_world))
     = Look None False 200 Left_eye 0 2 9007199254740993 0 \<and>
   pupil_point (Look_animate' (Look None False 200 Left_eye 0 2 9007199254740993 0) 1
                  (snd (Point_init 9007199254740997 4 init_world))) Left_eye
     = \<lparr>pt_x = 4, pt_y = 4\<rparr> \<and>
   pt_x (heap (snd (Point_init 9007199254740997 4 init_world)) 2) mod 8 = 5"
  by (simp add: Look_init_def init_world_facts Look_animate'_def pupil_point_def Eye_look'_def
      Let_def case_prod_beta look_4_huge_1 look_4_0_1 pct_100_300 look_4_3_third look_4_0_third
      int_trunc_def)

text \<open>
  C7 as the code has it. Let \<open>a\<close> be the \<^verbatim>\<open>Look\<close> constructed in the state \<open>w0\<close> for the
  eye \<open>e\<close> and the destination \<open>wh\<close>, the destination differing from the origin (the pupil
  of \<open>e\<close> in \<open>w0\<close>) in a coordinate, all four coordinates below \<open>2^52\<close> in magnitude, and
  let \<open>w\<close> be a state in which the origin point is as it was. Then \<open>a\<close> is not done,
  \<^verbatim>\<open>_animate(0)\<close> leaves the pupil at the origin modulo 8, \<^verbatim>\<open>_animate(1)\<close> leaves it at the
  destination modulo 8, and \<^verbatim>\<open>_animate(pct)\<close> leaves it at
  \<open>origin + (dest - origin) * pct\<close> as floats compute it (the product is rounded to a
  double, and then the sum), truncated towards zero on each axis, modulo 8. For a progress
  within \<open>0..1\<close>, the float that is truncated differs from the number
  \<open>origin + (dest - origin) * pct\<close> by at most \<open>(|origin| + 3 * |dest - origin|) / 10^15\<close>.
\<close>

theorem Look_animate'_endpoints:
  assumes a: "a = Look_init e wh duration w0"
    and differ: "pt_x (heap w0 wh) \<noteq> pt_x (heap w0 (pupil (eyes w0 e))) \<or>
                 pt_y (heap w0 wh) \<noteq> pt_y (heap w0 (pupil (eyes w0 e)))"
    and kept: "heap w (origin a) = heap w0 (origin a)"
    and small: "\<bar>pt_x (heap w0 wh)\<bar> < 2 ^ 52" "\<bar>pt_y (heap w0 wh)\<bar> < 2 ^ 52"
      "\<bar>pt_x (heap w0 (pupil (eyes w0 e)))\<bar> < 2 ^ 52"
      "\<bar>pt_y (heap w0 (pupil (eyes w0 e)))\<bar> < 2 ^ 52"
  shows "\<not> is_done a \<and> origin a = pupil (eyes w0 e) \<and>
    pupil_point (Look_animate' a 0 w) e =
      \<lparr>pt_x = pt_x (heap w0 (origin a)) mod 8, pt_y = pt_y (heap w0 (origin a)) mod 8\<rparr> \<and>
    pupil_point (Look_animate' a 1 w) e =
      \<lparr>pt_x = pt_x (heap w0 wh) mod 8, pt_y = pt_y (heap w0 wh) mod 8\<rparr> \<and>
    pupil_point (Look_animate' a pct w) e =
      \<lparr>pt_x = int_trunc (fadd (float_of_int (pt_x (heap w0 (origin a))))
                 (fmul (float_of_int (pt_x (heap w0 wh) - pt_x (heap w0 (origin a)))) pct)) mod 8,
       pt_y = int_trunc (fadd (float_of_int (pt_y (heap w0 (origin a))))
                 (fmul (float_of_int (pt_y (heap w0 wh) - pt_y (heap w0 (origin a)))) pct)) mod 8\<rparr> \<and>
    (0 \<le> pct \<and> pct \<le> 1 \<longrightarrow>
       \<bar>fadd (float_of_int (pt_x (heap w0 (origin a))))
             (fmul (float_of_int (pt_x (heap w0 wh) - pt_x (heap w0 (origin a)))) pct)
          - (of_int (pt_x (heap w0 (origin a)))
             + of_int (pt_x (heap w0 wh) - pt_x (heap w0 (origin a))) * pct)\<bar>
         \<le> (\<bar>of_int (pt_x (heap w0 (origin a)))\<bar>
              + 3 * \<bar>of_int (pt_x (heap w0 wh) - pt_x (heap w0 (origin a)))\<bar>)
             / 1000000000000000 \<and>
       \<bar>fadd (float_of_int (pt_y (heap w0 (origin a))))
             (fmul (float_of_int (pt_y (heap w0 wh) - pt_y (heap w0 (origin a)))) pct)
          - (of_int (pt_y (heap w0 (origin a)))
             + of_int (pt_y (heap w0 wh) - pt_y (heap w0 (origin a))) * pct)\<bar>
         \<le> (\<bar>of_int (pt_y (heap w0 (origin a)))\<bar>
              + 3 * \<bar>of_int (pt_y (heap w0 wh) - pt_y (heap w0 (origin a)))\<bar>)
             / 1000000000000000)"
proof -
  have nd: "\<not> is_done a" and e: "eye a = e" and org: "origin a = pupil (eyes w0 e)"
    and dx: "dx a = pt_x (heap w0 wh) - pt_x (heap w0 (origin a))"
    and dy: "dy a = pt_y (heap w0 wh) - pt_y (heap w0 (origin a))"
    using differ by (auto simp: a Look_init_def Let_def)
  let ?ox = "pt_x (heap w0 (pupil (eyes w0 e)))" and ?oy = "pt_y (heap w0 (pupil (eyes w0 e)))"
  let ?dx = "pt_x (heap w0 wh) - ?ox" and ?dy = "pt_y (heap w0 wh) - ?oy"
  from small have s: "\<bar>?ox\<bar> < 2 ^ 53" "\<bar>?oy\<bar> < 2 ^ 53" "\<bar>?dx\<bar> < 2 ^ 53" "\<bar>?dy\<bar> < 2 ^ 53"
    "\<bar>?ox + ?dx\<bar> < 2 ^ 53" "\<bar>?oy + ?dy\<bar> < 2 ^ 53"
    by simp_all
  note p = Look_animate'_pupil [OF nd, of _ w, unfolded e kept dx dy, unfolded org]
  have p0: "pupil_point (Look_animate' a 0 w) e = \<lparr>pt_x = ?ox mod 8, pt_y = ?oy mod 8\<rparr>"
    unfolding p look_start [OF s(1)] look_start [OF s(2)] ..
  have p1: "pupil_point (Look_animate' a 1 w) e
      = \<lparr>pt_x = pt_x (heap w0 wh) mod 8, pt_y = pt_y (heap w0 wh) mod 8\<rparr>"
    unfolding p look_end [OF s(1,3,5)] look_end [OF s(2,4,6)] by simp
  have er: "\<bar>fadd (float_of_int ?ox) (fmul (float_of_int ?dx) pct)
        - (of_int ?ox + of_int ?dx * pct)\<bar>
      \<le> (\<bar>of_int ?ox\<bar> + 3 * \<bar>of_int ?dx\<bar>) / 1000000000000000 \<and>
    \<bar>fadd (float_of_int ?oy) (fmul (float_of_int ?dy) pct)
        - (of_int ?oy + of_int ?dy * pct)\<bar>
      \<le> (\<bar>of_int ?oy\<bar> + 3 * \<bar>of_int ?dy\<bar>) / 1000000000000000"
    if "0 \<le> pct \<and> pct \<le> 1"
    using that look_error [OF s(1,3), of pct] look_error [OF s(2,4), of pct] by blast
  from nd org p0 p1 p [of pct] er show ?thesis unfolding org by (simp del: of_int_diff)
qed

text \<open>
  Two instances: halfway from \<open>(4, 4)\<close> towards \<open>(-1, 4)\<close> the pupil is at column 1; and
  from \<open>(4, 4)\<close> towards \<open>(-6, 4)\<close> at the progress of a tick 11.2 ms into a \<^verbatim>\<open>Look\<close> of
  14 ms, the float just below 0.8, it is at column 5 (\<open>-3\<close> modulo 8).
\<close>

theorem Look_animate'_endpoints_witness:
  "pt_x (heap (snd (Point_init (- 1) 4 init_world)) 2)
     \<noteq> pt_x (heap (snd (Point_init (- 1) 4 init_world))
              (pupil (eyes (snd (Point_init (- 1) 4 init_world)) Left_eye))) \<and>
   Look_init Left_eye 2 (Some 25) (snd (Point_init (- 1) 4 init_world))
     = Look None False 25 Left_eye 0 2 (- 5) 0 \<and>
   pupil_point (Look_animate' (Look None False 25 Left_eye 0 2 (- 5) 0) 0
                  (snd (Point_init (- 1) 4 init_world))) Left_eye
     = \<lparr>pt_x = 4, pt_y = 4\<rparr> \<and>
   pupil_point (Look_animate' (Look None False 25 Left_eye 0 2 (- 5) 0) 1
                  (snd (Point_init (- 1) 4 init_world))) Left_eye
     = \<lparr>pt_x = 7, pt_y = 4\<rparr> \<and>
   pupil_point (Look_animate' (Look None False 25 Left_eye 0 2 (- 5) 0) (1 / 2)
                  (snd (Point_init (- 1) 4 init_world))) Left_eye
     = \<lparr>pt_x = 1, pt_y = 4\<rparr> \<and>
   Look_init Left_eye 2 (Some 14) (snd (Point_init (- 6) 4 init_world))
     = Look None False 14 Left_eye 0 2 (- 10) 0 \<and>
   pupil_point (Look_animate' (Look None False 14 Left_eye 0 2 (- 10) 0)
                  (fdiv (fmul (total_seconds 11200) 1000) (float_of_int 14))
                  (snd (Point_init (- 6) 4 init_world))) Left_eye
     = \<lparr>pt_x = 5, pt_y = 4\<rparr>"
proof -
  have c: "Look_init Left_eye 2 (Some 25) (snd (Point_init (- 1) 4 init_world))
      = Look None False 25 Left_eye 0 2 (- 5) 0"
    by (simp add: Look_init_def init_world_facts)
  have d: "Look_init Left_eye 2 (Some 14) (snd (Point_init (- 6) 4 init_world))
      = Look None False 14 Left_eye 0 2 (- 10) 0"
    by (simp add: Look_init_def init_world_facts)
  from Look_animate'_endpoints [of "Look None False 25 Left_eye 0 2 (- 5) 0" Left_eye 2
      "Some 25" "snd (Point_init (- 1) 4 init_world)" "snd (Point_init (- 1) 4 init_world)"
      "1 / 2"] c
  have i1: "pupil_point (Look_animate' (Look None False 25 Left_eye 0 2 (- 5) 0) 0
                  (snd (Point_init (- 1) 4 init_world))) Left_eye
     = \<lparr>pt_x = 4, pt_y = 4\<rparr> \<and>
   pupil_point (Look_animate' (Look None False 25 Left_eye 0 2 (- 5) 0) 1
                  (snd (Point_init (- 1) 4 init_world))) Left_eye
     = \<lparr>pt_x = 7, pt_y = 4\<rparr> \<and>
   pupil_point (Look_animate' (Look None False 25 Left_eye 0 2 (- 5) 0) (1 / 2)
                  (snd (Point_init (- 1) 4 init_world))) Left_eye
     = \<lparr>pt_x = 1, pt_y = 4\<rparr>"
    by (simp add: int_trunc_def init_world_facts look_4_m5_half look_4_0_half)
  from Look_animate'_endpoints [of "Look None False 14 Left_eye 0 2 (- 10) 0" Left_eye 2
      "Some 14" "snd (Point_init (- 6) 4 init_world)" "snd (Point_init (- 6) 4 init_world)"
      "fdiv (fmul (total_seconds 11200) 1000) (float_of_int 14)"] d
  have i2: "pupil_point (Look_animate' (Look None False 14 Left_eye 0 2 (- 10) 0)
                  (fdiv (fmul (total_seconds 11200) 1000) (float_of_int 14))
                  (snd (Point_init (- 6) 4 init_world))) Left_eye
     = \<lparr>pt_x = 5, pt_y = 4\<rparr>"
    by (simp add: int_trunc_def init_world_facts dt_11200 pct_11200_14 look_4_m10_11200
        look_4_0_11200)
  from c d i1 i2 show ?thesis by (simp add: init_world_facts)
qed

subsection \<open>The contrast levels of \<^verbatim>\<open>GlowEyes\<close>\<close>

lemma int_trunc_nonneg_bounds:
  "0 \<le> q \<Longrightarrow> of_int lo \<le> q \<Longrightarrow> q < of_int hi + 1 \<Longrightarrow> lo \<le> int_trunc q \<and> int_trunc q \<le> hi"
  unfolding int_trunc_def by (auto simp: le_floor_iff floor_le_iff)

lemma GlowEyes_animate'_passed:
  "\<not> is_done a \<Longrightarrow>
     passed w (GlowEyes_animate' a pct w) =
       (if pct < 1 / 2 then [int_trunc (fadd 30 (fmul 120 (fdiv pct (fl (49 / 100)))))]
        else if pct \<ge> 1
          then [int_trunc (fsub 150 (fmul 120 (fdiv (fsub pct (1 / 2)) (fl (49 / 100))))), 30]
        else [int_trunc (fsub 150 (fmul 120 (fdiv (fsub pct (1 / 2)) (fl (49 / 100)))))])"
  by (simp add: GlowEyes_animate'_def passed_def device_contrast_def Let_def)

text \<open>The value of \<^verbatim>\<open>120 * (s / 0.49)\<close> for a float \<open>s\<close> within \<open>0..0.5001\<close>.\<close>

lemma glow_ramp:
  assumes "0 \<le> s" and "s \<le> 5001 / 10000"
  shows "0 \<le> fmul 120 (fdiv s (fl (49 / 100)))"
    and "fmul 120 (fdiv s (fl (49 / 100))) \<le> 245 / 2"
proof -
  define c where "c = fl (49 / 100)"
  define q where "q = s / c"
  have c: "4899 / 10000 \<le> c"
    using fl_49_100_bounds by (simp add: c_def)
  have q0: "0 \<le> q" using assms(1) c by (simp add: q_def)
  have "s / c \<le> (5001 / 10000) / (4899 / 10000)"
    using assms c by (intro frac_le) simp_all
  then have q1: "q \<le> 5001 / 4899" by (simp add: q_def)
  have y1: "0 \<le> fl q" "fl q \<le> 102083 / 100000"
    using fl_interval(2) [OF q0 q1] q0 by simp_all
  have y2: "0 \<le> fl (120 * fl q)" "fl (120 * fl q) \<le> 245 / 2"
    using fl_interval(2) [of 0 "120 * fl q" "1224996 / 10000"] y1 by simp_all
  from y2 show "0 \<le> fmul 120 (fdiv s (fl (49 / 100)))"
    and "fmul 120 (fdiv s (fl (49 / 100))) \<le> 245 / 2"
    by (simp_all add: fmul_def fdiv_def c_def q_def)
qed

lemma glow_up:
  assumes "0 \<le> pct" and "pct < 1 / 2"
  shows "29 \<le> int_trunc (fadd 30 (fmul 120 (fdiv pct (fl (49 / 100))))) \<and>
    int_trunc (fadd 30 (fmul 120 (fdiv pct (fl (49 / 100))))) \<le> 152"
proof -
  define v where "v = fmul 120 (fdiv pct (fl (49 / 100)))"
  from assms have "pct \<le> 5001 / 10000" by simp
  from glow_ramp [OF assms(1) this] have v: "0 \<le> v" "v \<le> 245 / 2" by (simp_all add: v_def)
  have "29 \<le> fl (30 + v)" "fl (30 + v) < 153"
    using fl_interval [of 30 "30 + v" "305 / 2"] v by simp_all
  with v have "29 \<le> int_trunc (fadd 30 v) \<and> int_trunc (fadd 30 v) \<le> 152"
    unfolding fadd_def by (intro int_trunc_nonneg_bounds) simp_all
  then show ?thesis by (simp add: v_def)
qed

lemma glow_down:
  assumes "1 / 2 \<le> pct" and "pct \<le> 1"
  shows "27 \<le> int_trunc (fsub 150 (fmul 120 (fdiv (fsub pct (1 / 2)) (fl (49 / 100))))) \<and>
    int_trunc (fsub 150 (fmul 120 (fdiv (fsub pct (1 / 2)) (fl (49 / 100))))) \<le> 150"
proof -
  define s where "s = fsub pct (1 / 2)"
  define v where "v = fmul 120 (fdiv s (fl (49 / 100)))"
  have s: "0 \<le> s" "s \<le> 5001 / 10000"
    using fl_interval(2) [of 0 "pct - 1 / 2" "1 / 2"] assms by (simp_all add: s_def fsub_def)
  from glow_ramp [OF s] have v: "0 \<le> v" "v \<le> 245 / 2" by (simp_all add: v_def)
  have "27 \<le> fl (150 - v)" "fl (150 - v) < 151"
    using fl_interval [of "55 / 2" "150 - v" 150] v by simp_all
  with v have "27 \<le> int_trunc (fsub 150 v) \<and> int_trunc (fsub 150 v) \<le> 150"
    unfolding fsub_def by (intro int_trunc_nonneg_bounds) simp_all
  then show ?thesis by (simp add: v_def s_def)
qed

text \<open>
  The contrast levels that a \<^verbatim>\<open>GlowEyes\<close> passes. For a \<^verbatim>\<open>GlowEyes\<close> that is not done
  and a progress within \<open>0..1\<close>, every contrast level passed to the device lies within
  \<open>27..152\<close>. Below one half the one level passed is \<^verbatim>\<open>int(30 + 120 * (pct / 0.49))\<close>,
  which is 30 at 0; from one half on it is \<^verbatim>\<open>int(150 - 120 * ((pct - 0.5) / 0.49))\<close>,
  which is 27 at 1; at 1 the level 30 is passed after it, so that the contrast ends at 30.
\<close>

theorem GlowEyes_contrast_range:
  assumes "\<not> is_done a" and "0 \<le> pct" and "pct \<le> 1"
  shows "(\<forall>c \<in> set (passed w (GlowEyes_animate' a pct w)). 27 \<le> c \<and> c \<le> 152) \<and>
    (pct < 1 / 2 \<longrightarrow>
       passed w (GlowEyes_animate' a pct w)
         = [int_trunc (fadd 30 (fmul 120 (fdiv pct (fl (49 / 100)))))]) \<and>
    (1 / 2 \<le> pct \<and> pct < 1 \<longrightarrow>
       passed w (GlowEyes_animate' a pct w)
         = [int_trunc (fsub 150 (fmul 120 (fdiv (fsub pct (1 / 2)) (fl (49 / 100)))))]) \<and>
    (pct = 1 \<longrightarrow> passed w (GlowEyes_animate' a pct w) = [27, 30]) \<and>
    passed w (GlowEyes_animate' a 0 w) = [30]"
proof -
  note p = GlowEyes_animate'_passed [OF assms(1)]
  have r1: "\<forall>c \<in> set (passed w (GlowEyes_animate' a pct w)). 27 \<le> c \<and> c \<le> 152"
  proof (cases "pct < 1 / 2")
    case True
    with glow_up [OF assms(2)] show ?thesis by (simp add: p)
  next
    case False
    with glow_down [of pct] assms(3) show ?thesis by (cases "pct = 1") (simp_all add: p)
  qed
  have r3: "pct < 1 / 2 \<longrightarrow>
       passed w (GlowEyes_animate' a pct w)
         = [int_trunc (fadd 30 (fmul 120 (fdiv pct (fl (49 / 100)))))]"
    by (simp add: p)
  have r4: "1 / 2 \<le> pct \<and> pct < 1 \<longrightarrow>
       passed w (GlowEyes_animate' a pct w)
         = [int_trunc (fsub 150 (fmul 120 (fdiv (fsub pct (1 / 2)) (fl (49 / 100)))))]"
    by (simp add: p)
  have r5: "pct = 1 \<longrightarrow> passed w (GlowEyes_animate' a pct w) = [27, 30]"
    by (simp add: p glow_down_1 int_trunc_def)
  have r8: "passed w (GlowEyes_animate' a 0 w) = [30]"
    by (simp add: p glow_up_0 int_trunc_def)
  show ?thesis
    by (intro conjI r1 r3 r4 r5 r8)
qed

theorem GlowEyes_contrast_range_witness:
  "\<not> is_done (GlowEyes (Some 0) False 300) \<and> (0 :: real) \<le> 1 / 4 \<and> (1 / 4 :: real) \<le> 1 \<and>
   passed init_world (GlowEyes_animate' (GlowEyes (Some 0) False 300) (1 / 4) init_world) = [91] \<and>
   passed init_world (GlowEyes_animate' (GlowEyes (Some 0) False 300) 0 init_world) = [30]"
  using GlowEyes_contrast_range [of "GlowEyes (Some 0) False 300" "1 / 4" init_world]
  by (simp add: int_trunc_def glow_up_quarter)

text \<open>
  C8 on the code. The levels passed leave the range \<open>30..150\<close> that the claim and the
  comment of \<^verbatim>\<open>GlowEyes._animate\<close> (\<^verbatim>\<open>Increase contrast 30->150 in first half of animation,
  then bring down again\<close>) state: a \<^verbatim>\<open>GlowEyes\<close> of 300 ms begun at time 0 and ticked
  after 149 ms passes the level 151, and ticked after 301 ms (progress 1, its last step) it
  passes 27 and then 30.
\<close>

theorem GlowEyes_contrast_out_of_range:
  "tick (GlowEyes (Some 0) False 300) 149000 init_world
     = Inr (GlowEyes (Some 0) False 300, device_contrast 151 init_world) \<and>
   tick (GlowEyes (Some 0) False 300) 301000 init_world
     = Inr (GlowEyes (Some 0) True 300, device_contrast 30 (device_contrast 27 init_world)) \<and>
   passed init_world (GlowEyes_animate' (GlowEyes (Some 0) False 300) 1 init_world) = [27, 30]"
  by (simp add: LinearAnimation_tick_def GlowEyes_animate'_def int_trunc_def passed_def
      device_contrast_def dt_149000 dt_301000 pct_149_300 glow_up_149_300 glow_down_1)

subsection \<open>Which points an operation writes\<close>

lemma heap_kept_refl: "heap_kept w w"
  by (simp add: heap_kept_def)

lemma heap_kept_trans: "heap_kept u v \<Longrightarrow> heap_kept v x \<Longrightarrow> heap_kept u x"
  by (auto simp: heap_kept_def)

lemma heap_kept_same: "heap w1 = heap w \<Longrightarrow> next_ref w1 = next_ref w \<Longrightarrow> heap_kept w w1"
  by (simp add: heap_kept_def)

lemma heap_kept_Point_init: "heap_kept w (snd (Point_init x y w))"
  by (simp add: heap_kept_def)

lemma Eye_look'_heap:
  "heap (Eye_look' e pos w) =
     (heap w)(pos := \<lparr>pt_x = pt_x (heap w pos) mod 8, pt_y = pt_y (heap w pos) mod 8\<rparr>)"
  by (cases "heap w pos") (simp add: Eye_look'_def Let_def)

lemma Eye_look'_next_ref [simp]: "next_ref (Eye_look' e pos w) = next_ref w"
  by (simp add: Eye_look'_def Let_def)

lemma Eye_look'_pupil [simp]: "pupil (eyes (Eye_look' e pos w) e) = pos"
  by (simp add: Eye_look'_def Let_def)

lemma heap_kept_look_at: "heap_kept w (snd (look_at e x y ms w))"
  by (simp add: look_at_def case_prod_beta heap_kept_Point_init)

lemma heap_kept_look_both: "heap_kept w (snd (look_both l pl r pr ms w))"
  by (auto simp: look_both_def case_prod_beta intro: heap_kept_trans heap_kept_look_at)

lemma heap_kept_look_both_list: "heap_kept w (snd (look_both_list l r ps ms w))"
  by (induction ps arbitrary: w)
     (auto simp: case_prod_beta heap_kept_refl intro: heap_kept_trans [OF heap_kept_look_both])

lemma heap_kept_CrazySpin_loop: "heap_kept w (snd (CrazySpin_loop l r is ms a w))"
  by (induction "is" arbitrary: a w)
     (auto simp: case_prod_beta Let_def heap_kept_refl
        intro: heap_kept_trans [OF heap_kept_look_both])

lemma heap_kept_RoundSpin_loop: "heap_kept w (snd (RoundSpin_loop l r is ms a w))"
  by (induction "is" arbitrary: a w)
     (auto simp: case_prod_beta Let_def heap_kept_refl
        intro: heap_kept_trans [OF heap_kept_look_both_list])

lemma heap_kept_pick_effect: "heap_kept w (snd (pick_effect i l r w))"
  by (auto simp: pick_effect_def CrossEyes_init_def MethEyes_init_def LazyEye_init_def
      CrazySpin_init_def RoundSpin_init_def case_prod_beta Let_def heap_kept_refl
      intro: heap_kept_trans heap_kept_look_both heap_kept_look_at heap_kept_CrazySpin_loop
        heap_kept_RoundSpin_loop)

lemma heap_kept_refill: "heap_kept w (snd (refill rnd w))"
  by (auto simp: refill_def case_prod_beta Let_def 
      intro: heap_kept_trans heap_kept_Point_init heap_kept_pick_effect)

lemma heap_kept_animate': "heap_kept w (animate' a pct w)"
  by (cases a)
     (simp_all add: Look_animate'_def Blink_animate'_def GlowEyes_animate'_def Let_def
        case_prod_beta heap_kept_def Eye_look'_heap Eye_eyelids'_def device_contrast_def)

lemma heap_kept_tick: "tick a now w = Inr (a1, w1) \<Longrightarrow> heap_kept w w1"
  using tick_world_rel(1) [where R = heap_kept]
  by (blast intro: heap_kept_refl heap_kept_trans heap_kept_animate')

lemma heap_kept_render: "heap_kept w (render w)"
  by (simp add: heap_kept_def render_def Let_def)

lemma heap_kept_loop_body:
  assumes "loop_body rnd now (m, w) = Inr (m1, w1)"
  shows "heap_kept w w1"
proof -
  let ?s = "if is_done m then refill rnd w else (m, w)"
  have k1: "heap_kept w (snd ?s)" by (simp add: heap_kept_refill heap_kept_refl)
  from assms obtain w3 where t: "tick (fst ?s) now (snd ?s) = Inr (m1, w3)"
    and w1: "w1 = render w3"
    unfolding loop_body_unfold by (cases "tick (fst ?s) now (snd ?s)") auto
  from heap_kept_trans [OF k1 heap_kept_trans [OF heap_kept_tick [OF t] heap_kept_render]] w1
  show ?thesis by simp
qed

text \<open>
  C10 as stated fails: the point \<open>(-1, 4)\<close>, constructed at reference 2, has the
  coordinates \<open>(7, 4)\<close> after \<^verbatim>\<open>_look\<close> was given it.
\<close>

theorem Point_counterexample:
  "fst (Point_init (- 1) 4 init_world) = 2 \<and>
   heap (snd (Point_init (- 1) 4 init_world)) 2 = \<lparr>pt_x = - 1, pt_y = 4\<rparr> \<and>
   heap (Eye_look' Left_eye 2 (snd (Point_init (- 1) 4 init_world))) 2 = \<lparr>pt_x = 7, pt_y = 4\<rparr>"
  by (simp add: Eye_look'_heap init_world_facts)

text \<open>
  C10 as the code has it. \<^verbatim>\<open>Eye._look(pos)\<close> makes the object \<open>pos\<close> itself the pupil of
  the eye and overwrites its coordinates by their values modulo 8; it changes no other
  point, and it leaves \<open>pos\<close> as it was exactly when both coordinates were within \<open>0..7\<close>.
  The animations give \<^verbatim>\<open>_look\<close> only points they have just constructed: a step of a leaf
  animation, a tick of any animation, the refill of the main sequence and a pass of the
  animation loop change no point that existed before.
\<close>

theorem Eye_look'_writes_its_argument_only:
  "heap (Eye_look' e pos w) pos
     = \<lparr>pt_x = pt_x (heap w pos) mod 8, pt_y = pt_y (heap w pos) mod 8\<rparr> \<and>
   pupil (eyes (Eye_look' e pos w) e) = pos \<and>
   (\<forall>r. r \<noteq> pos \<longrightarrow> heap (Eye_look' e pos w) r = heap w r) \<and>
   (heap (Eye_look' e pos w) pos = heap w pos \<longleftrightarrow>
      0 \<le> pt_x (heap w pos) \<and> pt_x (heap w pos) < 8 \<and>
      0 \<le> pt_y (heap w pos) \<and> pt_y (heap w pos) < 8) \<and>
   heap_kept w (animate' a pct w) \<and>
   (tick a now w = Inr (a1, w1) \<longrightarrow> heap_kept w w1) \<and>
   heap_kept w (snd (refill rnd w)) \<and>
   (loop_body rnd now (m, w) = Inr (m1, w2) \<longrightarrow> heap_kept w w2)"
proof -
  have eq: "heap (Eye_look' e pos w) pos = heap w pos \<longleftrightarrow>
      0 \<le> pt_x (heap w pos) \<and> pt_x (heap w pos) < 8 \<and>
      0 \<le> pt_y (heap w pos) \<and> pt_y (heap w pos) < 8"
  proof -
    have "heap (Eye_look' e pos w) pos = heap w pos \<longleftrightarrow>
        pt_x (heap w pos) mod 8 = pt_x (heap w pos) \<and> pt_y (heap w pos) mod 8 = pt_y (heap w pos)"
      by (cases "heap w pos") (auto simp: Eye_look'_heap)
    then show ?thesis by (simp add: mod_pos_pos_trivial) presburger
  qed
  show ?thesis
    using heap_kept_tick heap_kept_loop_body
    by (intro conjI impI allI eq heap_kept_animate' heap_kept_refill)
       (simp_all add: Eye_look'_heap)
qed

theorem Eye_look'_writes_its_argument_only_witness:
  "heap (Eye_look' Left_eye 2 (snd (Point_init (- 1) 4 init_world))) 2 = \<lparr>pt_x = 7, pt_y = 4\<rparr> \<and>
   heap (Eye_look' Left_eye 2 (snd (Point_init (- 1) 4 init_world))) 0
     = heap (snd (Point_init (- 1) 4 init_world)) 0 \<and>
   tick (Look (Some 0) False 25 Left_eye 0 2 (- 5) 0) 100000 (snd (Point_init (- 1) 4 init_world))
     = Inr (Look (Some 0) True 25 Left_eye 0 2 (- 5) 0,
            Eye_look' Left_eye 3 (snd (Point_init (- 1) 4 (snd (Point_init (- 1) 4 init_world))))) \<and>
   heap_kept (snd (Point_init (- 1) 4 init_world))
     (Eye_look' Left_eye 3 (snd (Point_init (- 1) 4 (snd (Point_init (- 1) 4 init_world)))))"
proof -
  note h = init_world_facts
  have t: "tick (Look (Some 0) False 25 Left_eye 0 2 (- 5) 0) 100000
        (snd (Point_init (- 1) 4 init_world))
      = Inr (Look (Some 0) True 25 Left_eye 0 2 (- 5) 0,
             Eye_look' Left_eye 3 (snd (Point_init (- 1) 4 (snd (Point_init (- 1) 4 init_world)))))"
    by (simp add: LinearAnimation_tick_def Look_animate'_def h case_prod_beta int_trunc_def
        dt_100000 look_4_m5_1 look_4_0_1)
  from Eye_look'_writes_its_argument_only [of Left_eye 2 "snd (Point_init (- 1) 4 init_world)"
      "Look (Some 0) False 25 Left_eye 0 2 (- 5) 0" 1 100000
      "Look (Some 0) True 25 Left_eye 0 2 (- 5) 0"
      "Eye_look' Left_eye 3 (snd (Point_init (- 1) 4 (snd (Point_init (- 1) 4 init_world))))"] t h
  show ?thesis by simp
qed

subsection \<open>The image of an eye\<close>

lemma Eye_off'_length [simp]: "length (pixels (Eye_off' x y e)) = length (pixels e)"
  by (simp add: Eye_off'_def Let_def)

lemma Eye_off'_pupil [simp]: "pupil (Eye_off' x y e) = pupil e"
  by (simp add: Eye_off'_def Let_def)

lemma Eye_row_off'_length [simp]: "length (pixels (Eye_row_off' y e)) = length (pixels e)"
  by (simp add: Eye_row_off'_def Let_def)

lemma Eye_row_off'_pupil [simp]: "pupil (Eye_row_off' y e) = pupil e"
  by (simp add: Eye_row_off'_def Let_def)

lemma bit_clear_one:
  "n < 8 \<Longrightarrow> k < 8 \<Longrightarrow> bit ((v :: 8 word) AND NOT (2 ^ k)) n \<longleftrightarrow> bit v n \<and> n \<noteq> k"
  by (auto simp: bit_simps)

lemma pixel_Eye_off':
  assumes "length (pixels e) = 8" and "x' < 8" and "y' < 8"
  shows "pixel (pixels (Eye_off' x y e)) x' y' \<longleftrightarrow>
    pixel (pixels e) x' y' \<and> \<not> (int x' = x mod 8 \<and> int y' = y mod 8)"
proof -
  have y8: "nat (y mod 8) < 8" and x8: "nat (7 - x mod 8) < 8" by simp_all
  show ?thesis
  proof (cases "int y' = y mod 8")
    case True
    then have y': "nat (y mod 8) = y'" by simp
    define m where "m = x mod 8"
    have "0 \<le> m" "m < 8" by (simp_all add: m_def)
    with assms(2) have "7 - x' \<noteq> nat (7 - m) \<longleftrightarrow> int x' \<noteq> m" by arith
    then have "7 - x' \<noteq> nat (7 - x mod 8) \<longleftrightarrow> int x' \<noteq> x mod 8"
      by (simp add: m_def)
    then show ?thesis
      using assms True
      by (simp add: pixel_def Eye_off'_def Let_def y' bit_clear_one [OF _ x8])
  next
    case False
    then have "nat (y mod 8) \<noteq> y'" by auto
    with False show ?thesis by (simp add: pixel_def Eye_off'_def Let_def)
  qed
qed

lemma pixel_Eye_row_off':
  assumes "length (pixels e) = 8" and "y' < 8"
  shows "pixel (pixels (Eye_row_off' y e)) x' y' \<longleftrightarrow>
    pixel (pixels e) x' y' \<and> int y' \<noteq> y mod 8"
proof (cases "int y' = y mod 8")
  case True
  then have "nat (y mod 8) = y'" by simp
  with assms True show ?thesis by (simp add: pixel_def Eye_row_off'_def Let_def)
next
  case False
  then have "nat (y mod 8) \<noteq> y'" by auto
  with assms False show ?thesis by (simp add: pixel_def Eye_row_off'_def Let_def)
qed

lemma Eye_image_loop_length [simp]: "length (pixels (Eye_image_loop is e)) = length (pixels e)"
  unfolding Eye_image_loop_def by (induction "is" arbitrary: e) simp_all

lemma Eye_image_loop_pupil [simp]: "pupil (Eye_image_loop is e) = pupil e"
  unfolding Eye_image_loop_def by (induction "is" arbitrary: e) simp_all

lemma pixel_Eye_image_loop:
  "length (pixels e) = 8 \<Longrightarrow> y' < 8 \<Longrightarrow>
     pixel (pixels (Eye_image_loop is e)) x' y' \<longleftrightarrow>
       pixel (pixels e) x' y' \<and> \<not> (\<exists>i \<in> set is. int y' = i mod 8 \<or> int y' = (7 - i) mod 8)"
proof (induction "is" arbitrary: e)
  case Nil
  then show ?case by (simp add: Eye_image_loop_def)
next
  case (Cons i "is")
  have step: "Eye_image_loop (i # is) e = Eye_image_loop is (Eye_row_off' (7 - i) (Eye_row_off' i e))"
    by (simp add: Eye_image_loop_def)
  let ?e1 = "Eye_row_off' (7 - i) (Eye_row_off' i e)"
  from Cons.prems have len: "length (pixels ?e1) = 8" by simp
  have one: "pixel (pixels ?e1) x' y' \<longleftrightarrow>
      pixel (pixels e) x' y' \<and> int y' \<noteq> i mod 8 \<and> int y' \<noteq> (7 - i) mod 8"
    using Cons.prems by (simp add: pixel_Eye_row_off')
  show ?case
    unfolding step Cons.IH [OF len Cons.prems(2)] one by auto
qed

lemma rows_under_lid:
  assumes "y' < 8" and "0 \<le> n"
  shows "(\<exists>i \<in> set [0..n]. int y' = i mod 8 \<or> int y' = (7 - i) mod 8) \<longleftrightarrow>
    (int y' \<le> n \<or> 7 - n \<le> int y')"
proof
  assume "\<exists>i \<in> set [0..n]. int y' = i mod 8 \<or> int y' = (7 - i) mod 8"
  then obtain i where i: "0 \<le> i" "i \<le> n" "int y' = i mod 8 \<or> int y' = (7 - i) mod 8"
    by auto
  from i(3) show "int y' \<le> n \<or> 7 - n \<le> int y'"
  proof
    assume "int y' = i mod 8"
    also have "i mod 8 \<le> i" using i(1) by (rule zmod_le_nonneg_dividend)
    finally show ?thesis using i(2) by simp
  next
    assume y: "int y' = (7 - i) mod 8"
    show ?thesis
    proof (cases "i \<le> 7")
      case True
      with i(1) have "(7 - i) mod 8 = 7 - i" by simp
      with y i(2) show ?thesis by simp
    next
      case False
      with assms(1) i(2) show ?thesis by simp
    qed
  qed
next
  assume "int y' \<le> n \<or> 7 - n \<le> int y'"
  then show "\<exists>i \<in> set [0..n]. int y' = i mod 8 \<or> int y' = (7 - i) mod 8"
  proof
    assume "int y' \<le> n"
    with assms(1) have "int y' \<in> set [0..n]" "int y' = int y' mod 8" by simp_all
    then show ?thesis by blast
  next
    assume "7 - n \<le> int y'"
    with assms(1) have "7 - int y' \<in> set [0..n]" "int y' = (7 - (7 - int y')) mod 8"
      by simp_all
    then show ?thesis by blast
  qed
qed


lemma Eye_image_fields [simp]:
  "pupil (snd (Eye_image h e)) = pupil e" "length (fst (Eye_image h e)) = 8"
  "pixels (snd (Eye_image h e)) = fst (Eye_image h e)"
  by (simp_all add: Eye_image_def Let_def eye_ball_def)

lemma pixel_Eye_image:
  assumes "x < 8" and "y < 8"
  shows "pixel (fst (Eye_image h e)) x y \<longleftrightarrow>
    pixel eye_ball x y \<and> \<not> in_pupil (h (pupil e)) x y \<and> \<not> under_lid (eyelids e) y"
proof -
  let ?p = "h (pupil e)"
  let ?e0 = "e\<lparr>pixels := eye_ball\<rparr>"
  let ?e1 = "Eye_off' (pt_x ?p - 1) (pt_y ?p - 1) ?e0"
  let ?e2 = "Eye_off' (pt_x ?p) (pt_y ?p - 1) ?e1"
  let ?e3 = "Eye_off' (pt_x ?p - 1) (pt_y ?p) ?e2"
  let ?e4 = "Eye_off' (pt_x ?p) (pt_y ?p) ?e3"
  have len: "length (pixels ?e0) = 8" by (simp add: eye_ball_def)
  have p4: "pixel (pixels ?e4) x y \<longleftrightarrow> pixel eye_ball x y \<and> \<not> in_pupil ?p x y"
    using assms len by (simp add: pixel_Eye_off' in_pupil_def) blast
  have r: "fst (Eye_image h e)
      = pixels (if eyelids e \<ge> 0 then Eye_image_loop [0..eyelids e] ?e4 else ?e4)"
    by (simp add: Eye_image_def Let_def)
  show ?thesis
  proof (cases "eyelids e \<ge> 0")
    case True
    have len4: "length (pixels ?e4) = 8" using len by simp
    have lid: "(\<exists>i \<in> set [0..eyelids e]. int y = i mod 8 \<or> int y = (7 - i) mod 8)
        \<longleftrightarrow> under_lid (eyelids e) y"
      unfolding rows_under_lid [OF assms(2) True] using True by (simp add: under_lid_def)
    have "pixel (pixels (Eye_image_loop [0..eyelids e] ?e4)) x y \<longleftrightarrow>
        pixel (pixels ?e4) x y \<and>
        \<not> (\<exists>i \<in> set [0..eyelids e]. int y = i mod 8 \<or> int y = (7 - i) mod 8)"
      by (rule pixel_Eye_image_loop [OF len4 assms(2)])
    then have "pixel (pixels (Eye_image_loop [0..eyelids e] ?e4)) x y \<longleftrightarrow>
        (pixel eye_ball x y \<and> \<not> in_pupil ?p x y) \<and> \<not> under_lid (eyelids e) y"
      unfolding lid p4 .
    with True show ?thesis by (simp add: r)
  next
    case False
    with p4 show ?thesis by (simp add: r under_lid_def)
  qed
qed

lemma Eye_image_buffer: "Eye_image h (e\<lparr>pixels := buf\<rparr>) = Eye_image h e"
  by (simp add: Eye_image_def Let_def)

text \<open>
  C6. The image that \<^verbatim>\<open>Eye.image\<close> returns has eight rows, and its pixel in column \<open>x\<close> and
  row \<open>y\<close> is on exactly when the pixel of the silhouette \<open>eye_ball\<close> is on, \<open>(x, y)\<close> is
  not in the 2x2 block at the columns \<open>pupil.x - 1\<close>, \<open>pupil.x\<close> and the rows \<open>pupil.y - 1\<close>,
  \<open>pupil.y\<close> (each modulo 8), and, when \<open>eyelids \<ge> 0\<close>, \<open>y\<close> is neither within
  \<open>0..eyelids\<close> nor within \<open>7 - eyelids..7\<close>. The image does not depend on the pixel buffer
  of the eye before the call; the buffer holds the image afterwards, and the pupil and
  the eyelids are as before.
\<close>

theorem Eye_image_pixels:
  "length (fst (Eye_image h e)) = 8 \<and>
   (\<forall>x<8. \<forall>y<8. pixel (fst (Eye_image h e)) x y \<longleftrightarrow>
      pixel eye_ball x y \<and> \<not> in_pupil (h (pupil e)) x y \<and> \<not> under_lid (eyelids e) y) \<and>
   Eye_image h (e\<lparr>pixels := buf\<rparr>) = Eye_image h e \<and>
   pixels (snd (Eye_image h e)) = fst (Eye_image h e) \<and>
   pupil (snd (Eye_image h e)) = pupil e \<and> eyelids (snd (Eye_image h e)) = eyelids e"
  by (simp add: pixel_Eye_image Eye_image_buffer)

lemma Eye_image_open:
  "fst (Eye_image (heap init_world) (eyes init_world Left_eye))
     = [0x3C, 0x7E, 0xFF, 0xE7, 0xE7, 0xFF, 0x7E, 0x3C]"
  by (simp add: Eye_image_def Eye_off'_def Let_def eye_ball_def init_world_facts)

lemma Eye_image_closed:
  "fst (Eye_image (heap init_world) ((eyes init_world Left_eye)\<lparr>eyelids := 3\<rparr>))
     = [0, 0, 0, 0, 0, 0, 0, 0]"
  by (simp add: Eye_image_def Eye_off'_def Let_def eye_ball_def init_world_facts
      Eye_image_loop_def Eye_row_off'_def upto.simps)

theorem Eye_image_pixels_witness:
  "fst (Eye_image (heap init_world) (eyes init_world Left_eye))
     = [0x3C, 0x7E, 0xFF, 0xE7, 0xE7, 0xFF, 0x7E, 0x3C] \<and>
   (3 :: nat) < 8 \<and>
   \<not> pixel (fst (Eye_image (heap init_world) (eyes init_world Left_eye))) 3 3 \<and>
   pixel eye_ball 3 3 \<and> in_pupil (heap init_world (pupil (eyes init_world Left_eye))) 3 3 \<and>
   \<not> under_lid (eyelids (eyes init_world Left_eye)) 3 \<and>
   fst (Eye_image (heap init_world) ((eyes init_world Left_eye)\<lparr>pixels := []\<rparr>))
     = [0x3C, 0x7E, 0xFF, 0xE7, 0xE7, 0xFF, 0x7E, 0x3C]"
  using Eye_image_pixels [of "heap init_world" "eyes init_world Left_eye" "[]"] Eye_image_open
  by (simp add: pixel_def in_pupil_def under_lid_def eye_ball_def init_world_facts)

subsection \<open>Groups\<close>

lemma startable_anim_begin: "startable c \<Longrightarrow> ready (anim_begin now c)"
  by (induction c) (auto split: option.splits)

lemma LinearAnimation_tick_ready:
  "is_leaf a \<Longrightarrow> ready a \<Longrightarrow>
     \<exists>a1 w1. LinearAnimation_tick a now w = Inr (a1, w1) \<and> ready a1"
  by (cases a) (auto simp: LinearAnimation_tick_def Let_def)

lemma tick_ready:
  "ready a \<Longrightarrow> \<exists>a1 w1. tick a now w = Inr (a1, w1) \<and> ready a1"
  "\<forall>c \<in> set as. ready c \<Longrightarrow>
     \<exists>as1 w1 ad1. AnimationGroup_loop as now w ad = Inr (as1, w1, ad1) \<and> (\<forall>c \<in> set as1. ready c)"
proof (induction a now w and as now w ad rule: tick_AnimationGroup_loop.induct)
  case (1 st d as now w)
  then show ?case by auto
next
  case (2 st d q act now w)
  consider (empty) "act = None" | (fin) a where "act = Some a" "is_done a"
    | (run) a where "act = Some a" "\<not> is_done a"
    by (cases act) auto
  then show ?case
  proof cases
    case empty
    with "2.prems" show ?thesis by (cases q) (auto simp: startable_anim_begin)
  next
    case fin
    with "2.prems" show ?thesis by (cases q) (auto simp: startable_anim_begin)
  next
    case run
    with "2.prems" have "ready a" by simp
    moreover from run have "(case act of None \<Rightarrow> None
        | Some a \<Rightarrow> if is_done a then None else Some a) = Some a"
      by simp
    ultimately obtain a1 w1 where "tick a now w = Inr (a1, w1)" "ready a1"
      using "2.IH" by blast
    with run "2.prems" show ?thesis by simp
  qed
next
  case (3 st d dur e org dst ddx ddy now w)
  then show ?case
    using LinearAnimation_tick_ready [of "Look st d dur e org dst ddx ddy" now w] by simp
next
  case (4 st d dur e lid now w)
  then show ?case
    using LinearAnimation_tick_ready [of "Blink st d dur e lid" now w] by simp
next
  case (5 st d dur now w)
  then show ?case
    using LinearAnimation_tick_ready [of "GlowEyes st d dur" now w] by simp
next
  case (6 st d dur now w)
  then show ?case
    using LinearAnimation_tick_ready [of "Wait st d dur" now w] by simp
next
  case (7 now w all_done)
  then show ?case by simp
next
  case (8 a as now w all_done)
  from "8.prems" have "ready a" by simp
  from "8.IH"(1) [OF this] obtain a1 w1 where t: "tick a now w = Inr (a1, w1)" and r: "ready a1"
    by auto
  from "8.prems" have "\<forall>c \<in> set as. ready c" by simp
  from "8.IH"(2) [OF t refl this] obtain as1 w2 ad1 where
    "AnimationGroup_loop as now w1 (if \<not> is_done a1 then False else all_done) = Inr (as1, w2, ad1)"
    "\<forall>c \<in> set as1. ready c"
    by auto
  with t r show ?case by auto
qed


lemma AnimationGroup_loop_all_done:
  "AnimationGroup_loop as now w ad = Inr (as1, w1, ad1) \<Longrightarrow>
     ad1 = (ad \<and> (\<forall>c \<in> set as1. is_done c)) \<and> length as1 = length as"
proof (induction as arbitrary: w ad as1)
  case Nil
  then show ?case by auto
next
  case (Cons a as)
  from Cons.prems obtain a2 w3 as2 where
    t: "tick a now w = Inr (a2, w3)" and
    l: "AnimationGroup_loop as now w3 (if \<not> is_done a2 then False else ad) = Inr (as2, w1, ad1)"
    and as1: "as1 = a2 # as2"
    by (auto split: sum.splits)
  from Cons.IH [OF l] as1 show ?case by auto
qed

lemma LinearAnimation_tick_done:
  "is_leaf a \<Longrightarrow> is_done a \<Longrightarrow> LinearAnimation_tick a now w = Inr (a1, w1) \<Longrightarrow> a1 = a \<and> w1 = w"
  by (cases a)
     (auto simp: LinearAnimation_tick_def Let_def Look_animate'_def Blink_animate'_def
        GlowEyes_animate'_def split: option.splits if_splits)

lemma tick_done:
  "is_done a \<Longrightarrow> done_ok a \<Longrightarrow> tick a now w = Inr (a1, w1) \<Longrightarrow> a1 = a \<and> w1 = w"
  "\<forall>c \<in> set as. is_done c \<and> done_ok c \<Longrightarrow>
     AnimationGroup_loop as now w ad = Inr (as1, w2, ad1) \<Longrightarrow> as1 = as \<and> w2 = w \<and> ad1 = ad"
proof (induction a now w and as now w ad arbitrary: a1 w1 and as1 w2 ad1
       rule: tick_AnimationGroup_loop.induct)
  case (1 st d as now w)
  from "1.prems" have all: "\<forall>c \<in> set as. is_done c \<and> done_ok c" and d: d by auto
  from "1.prems"(3) obtain as1 ad1 where
    l: "AnimationGroup_loop as now w True = Inr (as1, w1, ad1)" and
    a1: "a1 = AnimationGroup st ad1 as1"
    by (auto split: sum.splits)
  from "1.IH" [OF all l] a1 d show ?case by simp
next
  case (2 st d q act now w)
  then show ?case by auto
next
  case (8 a as now w all_done)
  from "8.prems"(2) obtain a2 w3 as2 where
    t: "tick a now w = Inr (a2, w3)" and
    l: "AnimationGroup_loop as now w3 (if \<not> is_done a2 then False else all_done)
          = Inr (as2, w2, ad1)"
    and as1: "as1 = a2 # as2"
    by (auto split: sum.splits)
  from "8.prems"(1) have a: "is_done a" "done_ok a" and
    rest: "\<forall>c \<in> set as. is_done c \<and> done_ok c" by simp_all
  from "8.IH"(1) [OF a t] have e: "a2 = a" "w3 = w" by simp_all
  from "8.IH"(2) [OF t refl rest l] e a as1 show ?case by simp
qed (auto dest: LinearAnimation_tick_done [rotated 2])

lemma anim_begin_done_ok: "done_ok (anim_begin now c) = done_ok c"
  by (induction c) (auto simp: anim_begin_is_done)

lemma LinearAnimation_tick_done_ok:
  "is_leaf a \<Longrightarrow> LinearAnimation_tick a now w = Inr (a1, w1) \<Longrightarrow> done_ok a1"
  by (cases a) (auto simp: LinearAnimation_tick_def Let_def split: option.splits if_splits)

lemma tick_done_ok:
  "done_ok a \<Longrightarrow> tick a now w = Inr (a1, w1) \<Longrightarrow> done_ok a1"
  "\<forall>c \<in> set as. done_ok c \<Longrightarrow>
     AnimationGroup_loop as now w ad = Inr (as1, w2, ad1) \<Longrightarrow> \<forall>c \<in> set as1. done_ok c"
proof (induction a now w and as now w ad arbitrary: a1 w1 and as1 w2 ad1
       rule: tick_AnimationGroup_loop.induct)
  case (1 st d as now w)
  from "1.prems"(2) obtain as1 ad1 where
    l: "AnimationGroup_loop as now w True = Inr (as1, w1, ad1)" and
    a1: "a1 = AnimationGroup st ad1 as1"
    by (auto split: sum.splits)
  from "1.prems"(1) have "\<forall>c \<in> set as. done_ok c" by simp
  from "1.IH" [OF this l] AnimationGroup_loop_all_done [OF l] a1 show ?case by simp
next
  case (2 st d q act now w)
  consider (empty) "act = None" | (fin) a where "act = Some a" "is_done a"
    | (run) a where "act = Some a" "\<not> is_done a"
    by (cases act) auto
  then show ?case
  proof cases
    case empty
    with "2.prems" show ?thesis by (cases q) (auto simp: anim_begin_done_ok)
  next
    case fin
    with "2.prems" show ?thesis by (cases q) (auto simp: anim_begin_done_ok)
  next
    case run
    from run "2.prems"(2) obtain a2 where t: "tick a now w = Inr (a2, w1)"
      and a1: "a1 = AnimationSequence st d q (Some a2)"
      by (auto split: sum.splits)
    from run have "(case act of None \<Rightarrow> None
        | Some a \<Rightarrow> if is_done a then None else Some a) = Some a"
      by simp
    moreover from run "2.prems"(1) have "done_ok a" by simp
    ultimately have "done_ok a2" using "2.IH" t by blast
    with run "2.prems"(1) a1 show ?thesis by auto
  qed
next
  case (8 a as now w all_done)
  from "8.prems"(2) obtain a2 w3 as2 where
    t: "tick a now w = Inr (a2, w3)" and
    l: "AnimationGroup_loop as now w3 (if \<not> is_done a2 then False else all_done)
          = Inr (as2, w2, ad1)"
    and as1: "as1 = a2 # as2"
    by (auto split: sum.splits)
  from "8.prems"(1) have a: "done_ok a" and rest: "\<forall>c \<in> set as. done_ok c" by simp_all
  from "8.IH"(1) [OF a t] "8.IH"(2) [OF t refl rest l] as1 show ?case by simp
qed (auto dest: LinearAnimation_tick_done_ok [rotated])


text \<open>
  C2. A tick of a group whose leaves have been begun raises nothing, and after a tick of a
  group its done flag is set exactly when the done flag of every child is set. \<^verbatim>\<open>begin\<close>
  begins every child at the same time \<open>now\<close>. Ticking an animation that is done returns it
  as it is and leaves the eyes, the device and the points as they are (for a combinator,
  given \<open>done_ok\<close>, which the constructors establish and \<^verbatim>\<open>begin\<close> and \<^verbatim>\<open>tick\<close> keep).
\<close>

theorem AnimationGroup_done_iff:
  "(ready (AnimationGroup st d as) \<longrightarrow>
      (\<exists>as1 w1. tick (AnimationGroup st d as) now w
           = Inr (AnimationGroup st (\<forall>c \<in> set as1. is_done c) as1, w1) \<and>
         length as1 = length as)) \<and>
   (tick (AnimationGroup st d as) now w = Inr (g1, w1) \<longrightarrow>
      (is_done g1 \<longleftrightarrow> (\<forall>c \<in> set (animations g1). is_done c))) \<and>
   anim_begin now (AnimationGroup st d as)
     = AnimationGroup (Some now) d (map (anim_begin now) as) \<and>
   (\<forall>c \<in> set as. start (anim_begin now c) = Some now) \<and>
   (is_done c \<and> done_ok c \<and> ready c \<longrightarrow> tick c now w = Inr (c, w)) \<and>
   (is_done c \<and> done_ok c \<and> tick c now w = Inr (c1, w2) \<longrightarrow> c1 = c \<and> w2 = w) \<and>
   (done_ok c \<and> tick c now w = Inr (c1, w2) \<longrightarrow> done_ok c1) \<and>
   done_ok (anim_begin now c) = done_ok c \<and>
   done_ok (AnimationGroup_init as) = (\<forall>c \<in> set as. done_ok c) \<and>
   done_ok (AnimationSequence_init as) = (\<forall>c \<in> set as. done_ok c) \<and>
   (is_leaf c \<longrightarrow> done_ok c)"
proof -
  have p1: "\<exists>as1 w1. tick (AnimationGroup st d as) now w
           = Inr (AnimationGroup st (\<forall>c \<in> set as1. is_done c) as1, w1) \<and>
         length as1 = length as" if "ready (AnimationGroup st d as)"
  proof -
    from that have "\<forall>c \<in> set as. ready c" by simp
    from tick_ready(2) [OF this] obtain as1 w1 ad1 where
      l: "AnimationGroup_loop as now w True = Inr (as1, w1, ad1)" by blast
    from AnimationGroup_loop_all_done [OF l] l show ?thesis by simp
  qed
  have p2: "is_done g1 \<longleftrightarrow> (\<forall>c \<in> set (animations g1). is_done c)"
    if "tick (AnimationGroup st d as) now w = Inr (g1, w1)"
  proof -
    from that obtain as1 ad1 where
      l: "AnimationGroup_loop as now w True = Inr (as1, w1, ad1)" and
      g1: "g1 = AnimationGroup st ad1 as1"
      by (auto split: sum.splits)
    from AnimationGroup_loop_all_done [OF l] g1 show ?thesis by simp
  qed
  have p5: "tick c now w = Inr (c, w)" if "is_done c \<and> done_ok c \<and> ready c"
  proof -
    from that tick_ready(1) [of c now w] obtain c1 w1 where t: "tick c now w = Inr (c1, w1)"
      by blast
    with tick_done(1) [OF _ _ t] that show ?thesis by simp
  qed
  have p6: "c1 = c \<and> w2 = w" if "is_done c \<and> done_ok c \<and> tick c now w = Inr (c1, w2)"
    using that tick_done(1) by blast
  have p7: "done_ok c1" if "done_ok c \<and> tick c now w = Inr (c1, w2)"
    using that tick_done_ok(1) by blast
  have p11: "done_ok c" if "is_leaf c"
    using that by (cases c) simp_all
  show ?thesis
    using p1 p2 p5 p6 p7 p11
    by (simp add: anim_begin_start anim_begin_done_ok AnimationGroup_init_def
        AnimationSequence_init_def)
qed


theorem AnimationGroup_done_iff_witness:
  "anim_begin 0 (AnimationGroup_init [Wait None False 100, Wait None False 200])
     = AnimationGroup (Some 0) False [Wait (Some 0) False 100, Wait (Some 0) False 200] \<and>
   ready (AnimationGroup (Some 0) False [Wait (Some 0) False 100, Wait (Some 0) False 200]) \<and>
   tick (AnimationGroup (Some 0) False [Wait (Some 0) False 100, Wait (Some 0) False 200])
       150000 init_world
     = Inr (AnimationGroup (Some 0) False [Wait (Some 0) True 100, Wait (Some 0) False 200],
            init_world) \<and>
   tick (AnimationGroup (Some 0) False [Wait (Some 0) True 100, Wait (Some 0) False 200])
       250000 init_world
     = Inr (AnimationGroup (Some 0) True [Wait (Some 0) True 100, Wait (Some 0) True 200],
            init_world) \<and>
   is_done (Look (Some 0) True 25 Left_eye 0 2 (- 5) 0) \<and>
   done_ok (Look (Some 0) True 25 Left_eye 0 2 (- 5) 0) \<and>
   ready (Look (Some 0) True 25 Left_eye 0 2 (- 5) 0) \<and>
   tick (Look (Some 0) True 25 Left_eye 0 2 (- 5) 0) 250000 init_world
     = Inr (Look (Some 0) True 25 Left_eye 0 2 (- 5) 0, init_world)"
proof -
  have t: "tick (AnimationGroup (Some 0) False [Wait (Some 0) False 100, Wait (Some 0) False 200])
       150000 init_world
     = Inr (AnimationGroup (Some 0) False [Wait (Some 0) True 100, Wait (Some 0) False 200],
            init_world)"
    by (simp add: LinearAnimation_tick_def dt_150000)
  have t2: "tick (AnimationGroup (Some 0) False [Wait (Some 0) True 100, Wait (Some 0) False 200])
       250000 init_world
     = Inr (AnimationGroup (Some 0) True [Wait (Some 0) True 100, Wait (Some 0) True 200],
            init_world)"
    by (simp add: LinearAnimation_tick_def dt_250000)
  from t t2
    AnimationGroup_done_iff [of "Some 0" False "[Wait (Some 0) False 100, Wait (Some 0) False 200]"
      150000 init_world
      "AnimationGroup (Some 0) False [Wait (Some 0) True 100, Wait (Some 0) False 200]"
      init_world "Look (Some 0) True 25 Left_eye 0 2 (- 5) 0"
      "Look (Some 0) True 25 Left_eye 0 2 (- 5) 0" init_world]
    AnimationGroup_done_iff [of "Some 0" False "[]" 250000 init_world
      "AnimationGroup (Some 0) False []" init_world "Look (Some 0) True 25 Left_eye 0 2 (- 5) 0"
      "Look (Some 0) True 25 Left_eye 0 2 (- 5) 0" init_world]
  show ?thesis by (simp add: AnimationGroup_init_def)
qed

subsection \<open>Ticks without elapsed time\<close>

lemma AnimationGroup_loop_idle:
  "\<forall>c \<in> set as. tick c now w = Inr (f c, w) \<Longrightarrow>
     AnimationGroup_loop as now w ad = Inr (map f as, w, ad \<and> (\<forall>c \<in> set as. is_done (f c)))"
  by (induction as arbitrary: ad) auto

lemma LinearAnimation_tick_idle:
  "start a = Some t \<Longrightarrow> now \<le> t \<Longrightarrow> LinearAnimation_tick a now w = Inr (a, w)"
  by (simp add: LinearAnimation_tick_def)

lemma tick_idle: "begun_not_before now a \<Longrightarrow> tick a now w = Inr (groups_redone a, w)"
proof (induction a)
  case (AnimationGroup st d as)
  then have "\<forall>c \<in> set as. tick c now w = Inr (groups_redone c, w)" by simp
  from AnimationGroup_loop_idle [OF this, of True] show ?case by simp
qed (auto simp: LinearAnimation_tick_idle)

lemma begun_not_before_anim_begin:
  "sequence_free a \<Longrightarrow> now \<le> t \<Longrightarrow> begun_not_before now (anim_begin t a)"
  by (induction a) auto

lemma groups_redone_leaf: "is_leaf a \<Longrightarrow> groups_redone a = a"
  by (cases a) simp_all

text \<open>
  C3 as stated fails for both combinators: a sequence begun at time 0 and ticked at time 0,
  or 5 ms earlier, takes its first child from the queue and begins it; a group begun at
  time 0 whose only child was done from its construction sets its own done flag when
  ticked at time 0.
\<close>

theorem tick_without_elapsed_time_counterexample:
  "anim_begin 0 (AnimationSequence_init [Wait None False 100])
     = AnimationSequence (Some 0) False [Wait None False 100] None \<and>
   tick (AnimationSequence (Some 0) False [Wait None False 100] None) 0 init_world
     = Inr (AnimationSequence (Some 0) False [] (Some (Wait (Some 0) False 100)), init_world) \<and>
   tick (AnimationSequence (Some 0) False [Wait None False 100] None) (- 5000) init_world
     = Inr (AnimationSequence (Some 0) False [] (Some (Wait (Some (- 5000)) False 100)),
            init_world) \<and>
   anim_begin 0 (AnimationGroup_init [Look None True 300 Left_eye 0 2 0 0])
     = AnimationGroup (Some 0) False [Look (Some 0) True 300 Left_eye 0 2 0 0] \<and>
   tick (AnimationGroup (Some 0) False [Look (Some 0) True 300 Left_eye 0 2 0 0]) 0 init_world
     = Inr (AnimationGroup (Some 0) True [Look (Some 0) True 300 Left_eye 0 2 0 0], init_world)"
  by (simp add: AnimationSequence_init_def AnimationGroup_init_def LinearAnimation_tick_def)

text \<open>
  C3 as the code has it. An animation made of linear animations and groups only, each of
  its linear animations begun at \<open>now\<close> or later (as after \<^verbatim>\<open>begin(t)\<close> with \<open>now \<le> t\<close>), is
  ticked at \<open>now\<close> without an error; the eyes, the device, the points and every linear
  animation stay as they are, and only the done flag of each group is set again, to
  whether all of its children are done. For a linear animation begun at \<open>t\<close>, a tick at
  \<open>now \<le> t\<close> changes nothing at all.
\<close>

theorem tick_without_elapsed_time:
  "(begun_not_before now a \<longrightarrow> tick a now w = Inr (groups_redone a, w)) \<and>
   (is_leaf a \<longrightarrow> groups_redone a = a) \<and>
   (sequence_free a \<and> now \<le> t \<longrightarrow> begun_not_before now (anim_begin t a)) \<and>
   (is_leaf a \<and> now \<le> t \<longrightarrow> tick (anim_begin t a) now w = Inr (anim_begin t a, w))"
proof -
  have "tick (anim_begin t a) now w = Inr (anim_begin t a, w)" if "is_leaf a" "now \<le> t"
  proof -
    from that have "begun_not_before now (anim_begin t a)" "is_leaf (anim_begin t a)"
      by (cases a; simp)+
    with tick_idle groups_redone_leaf show ?thesis by metis
  qed
  then show ?thesis
    by (simp add: tick_idle groups_redone_leaf begun_not_before_anim_begin)
qed

theorem tick_without_elapsed_time_witness:
  "begun_not_before 0
     (AnimationGroup (Some 0) False [Blink (Some 0) False 500 Left_eye 0, Wait (Some 7) True 5]) \<and>
   tick (AnimationGroup (Some 0) False [Blink (Some 0) False 500 Left_eye 0, Wait (Some 7) True 5])
       0 init_world
     = Inr (AnimationGroup (Some 0) False
              [Blink (Some 0) False 500 Left_eye 0, Wait (Some 7) True 5], init_world) \<and>
   is_leaf (Blink None False 500 Left_eye 0) \<and> (- 3 :: int) \<le> 0 \<and>
   tick (anim_begin 0 (Blink None False 500 Left_eye 0)) (- 3) init_world
     = Inr (Blink (Some 0) False 500 Left_eye 0, init_world)"
  using tick_without_elapsed_time [of 0
      "AnimationGroup (Some 0) False [Blink (Some 0) False 500 Left_eye 0, Wait (Some 7) True 5]"
      init_world 0]
    tick_without_elapsed_time [of "- 3" "Blink None False 500 Left_eye 0" init_world 0]
  by simp

subsection \<open>\<^verbatim>\<open>CrazySpin\<close>\<close>

lemma look_both_spin:
  assumes "pupils_exist w0" and "heap_kept w0 w" and "eyes w = eyes w0"
    and "next_ref w = next_ref w0 + 2 * k"
  shows "fst (look_both l (4 - int k, 4) r (4 - int k, 4) ms w) = spin_step ms l r w0 k"
    and "heap_kept w0 (snd (look_both l (4 - int k, 4) r (4 - int k, 4) ms w))"
    and "eyes (snd (look_both l (4 - int k, 4) r (4 - int k, 4) ms w)) = eyes w0"
    and "next_ref (snd (look_both l (4 - int k, 4) r (4 - int k, 4) ms w))
           = next_ref w0 + 2 * Suc k"
proof -
  have h: "heap w (pupil (eyes w0 e)) = heap w0 (pupil (eyes w0 e))" for e
    using assms(1,2) by (simp add: pupils_exist_def heap_kept_def)
  have ne: "pupil (eyes w0 e) \<noteq> next_ref w0 + 2 * k"
    "pupil (eyes w0 e) \<noteq> Suc (next_ref w0 + 2 * k)" for e
    using assms(1) [unfolded pupils_exist_def, rule_format, of e] by simp_all
  show "fst (look_both l (4 - int k, 4) r (4 - int k, 4) ms w) = spin_step ms l r w0 k"
    by (simp add: look_both_def look_at_def Eye_look_def Look_init_def AnimationGroup_init_def
        spin_step_def pupil_point_def case_prod_beta Let_def assms(3,4) h ne)
  show "heap_kept w0 (snd (look_both l (4 - int k, 4) r (4 - int k, 4) ms w))"
    using assms(2) heap_kept_look_both by (rule heap_kept_trans)
  show "eyes (snd (look_both l (4 - int k, 4) r (4 - int k, 4) ms w)) = eyes w0"
    by (simp add: assms(3))
  show "next_ref (snd (look_both l (4 - int k, 4) r (4 - int k, 4) ms w))
           = next_ref w0 + 2 * Suc k"
    by (simp add: look_both_def look_at_def case_prod_beta assms(4))
qed

lemma CrazySpin_loop_spin:
  assumes "pupils_exist w0"
  shows "heap_kept w0 w \<Longrightarrow> eyes w = eyes w0 \<Longrightarrow> next_ref w = next_ref w0 + 2 * k \<Longrightarrow>
    fst (CrazySpin_loop l r (map int [k..<k + n]) ms a w)
      = a @ map (spin_step ms l r w0) [k..<k + n] \<and>
    heap_kept w0 (snd (CrazySpin_loop l r (map int [k..<k + n]) ms a w)) \<and>
    next_ref (snd (CrazySpin_loop l r (map int [k..<k + n]) ms a w)) = next_ref w0 + 2 * (k + n)"
proof (induction n arbitrary: k a w)
  case 0
  then show ?case by simp
next
  case (Suc n)
  have up: "[k..<k + Suc n] = k # [Suc k..<Suc k + n]"
    by (simp add: upt_conv_Cons)
  note lb = look_both_spin [OF assms Suc.prems, of l r ms]
  from Suc.IH [OF lb(2) lb(3) lb(4), of "a @ [spin_step ms l r w0 k]"]
  show ?case
    unfolding up by (simp add: lb(1) case_prod_beta Let_def)
qed

lemma CrazySpin_init_spin:
  assumes "pupils_exist w"
  shows "fst (CrazySpin_init l r duration w)
      = AnimationSequence None False
          (map (spin_step ((case duration of None \<Rightarrow> 400 | Some d \<Rightarrow> d) div 16) l r w) [0..<16])
          None"
    and "heap_kept w (snd (CrazySpin_init l r duration w))"
    and "eyes (snd (CrazySpin_init l r duration w)) = eyes w"
proof -
  have idx: "[0..15] = map int [0..<16]"
    by (simp add: upto.simps upt_conv_Cons)
  note loop = CrazySpin_loop_spin [OF assms heap_kept_refl refl, of 0 l r 16 _ "[]", simplified]
  show "fst (CrazySpin_init l r duration w)
      = AnimationSequence None False
          (map (spin_step ((case duration of None \<Rightarrow> 400 | Some d \<Rightarrow> d) div 16) l r w) [0..<16])
          None"
    using loop [of "(case duration of None \<Rightarrow> 400 | Some d \<Rightarrow> d) div 16"]
    by (simp add: CrazySpin_init_def Let_def case_prod_beta AnimationSequence_init_def idx
        del: upt.simps upt_Suc)
  show "heap_kept w (snd (CrazySpin_init l r duration w))"
    using loop [of "(case duration of None \<Rightarrow> 400 | Some d \<Rightarrow> d) div 16"]
    by (simp add: CrazySpin_init_def Let_def case_prod_beta idx del: upt.simps upt_Suc)
  show "eyes (snd (CrazySpin_init l r duration w)) = eyes w"
    by (simp add: CrazySpin_init_def Let_def case_prod_beta)
qed


lemma tick_Look_complete:
  assumes "0 \<le> ms" and "ms \<le> 10 ^ 9" and "ms * 1000 < now - t"
    and "\<bar>pt_x (heap w org)\<bar> < 2 ^ 52" and "\<bar>ddx\<bar> < 2 ^ 52"
    and "\<bar>pt_y (heap w org)\<bar> < 2 ^ 52" and "\<bar>ddy\<bar> < 2 ^ 52"
  shows "tick (Look (Some t) False ms e org dst ddx ddy) now w =
    Inr (Look (Some t) True ms e org dst ddx ddy,
         Eye_look' e (next_ref w)
           (snd (Point_init (pt_x (heap w org) + ddx) (pt_y (heap w org) + ddy) w)))"
proof -
  from assms(4,5) have x: "\<bar>pt_x (heap w org)\<bar> < 2 ^ 53" "\<bar>ddx\<bar> < 2 ^ 53"
    "\<bar>pt_x (heap w org) + ddx\<bar> < 2 ^ 53"
    by simp_all
  from assms(6,7) have y: "\<bar>pt_y (heap w org)\<bar> < 2 ^ 53" "\<bar>ddy\<bar> < 2 ^ 53"
    "\<bar>pt_y (heap w org) + ddy\<bar> < 2 ^ 53"
    by simp_all
  from dt_gap [OF assms(1-3)] have late: "\<not> fmul (total_seconds (now - t)) 1000 \<le> of_int ms"
    by simp
  from assms(1,3) have "\<not> now - t \<le> 0" by simp
  with late show ?thesis
    by (simp add: LinearAnimation_tick_def Look_animate'_def Let_def case_prod_beta
        look_end [OF x] look_end [OF y])
qed

lemma moved_facts:
  "next_ref (moved e x y w) = Suc (next_ref w)"
  "q < next_ref w \<Longrightarrow> heap (moved e x y w) q = heap w q"
  "pupil_point (moved e x y w) e = \<lparr>pt_x = x mod 8, pt_y = y mod 8\<rparr>"
  "e' \<noteq> e \<Longrightarrow> eyes (moved e x y w) e' = eyes w e'"
  "pupil (eyes (moved e x y w) e) = next_ref w"
  by (simp_all add: moved_def Eye_look'_def Let_def pupil_point_def)


lemma spaced_tl: "spaced ms (t # ts) \<Longrightarrow> spaced ms ts"
  by (cases ts) simp_all

lemma spin_step_centred:
  assumes "pupil_point w0 l = \<lparr>pt_x = 4, pt_y = 4\<rparr>" and "pupil_point w0 r = \<lparr>pt_x = 4, pt_y = 4\<rparr>"
  shows "spin_step ms l r w0 k =
    AnimationGroup None False
      [Look None (k = 0) ms l (pupil (eyes w0 l)) (next_ref w0 + 2 * k) (- int k) 0,
       Look None (k = 0) ms r (pupil (eyes w0 r)) (next_ref w0 + 2 * k + 1) (- int k) 0]"
  by (simp add: spin_step_def assms)

lemma spin_step_tick:
  assumes lr: "l \<noteq> r" and ms: "0 \<le> ms" "ms \<le> 10 ^ 9" and gap: "ms * 1000 < now - t"
    and k: "k < 16"
    and c: "pupil_point w0 l = \<lparr>pt_x = 4, pt_y = 4\<rparr>" "pupil_point w0 r = \<lparr>pt_x = 4, pt_y = 4\<rparr>"
    and kept: "origins_kept l r w0 w"
  shows "\<exists>A w1. tick (anim_begin t (spin_step ms l r w0 k)) now w = Inr (A, w1) \<and> is_done A \<and>
    origins_kept l r w0 w1 \<and>
    (k = 0 \<longrightarrow> w1 = w) \<and>
    (0 < k \<longrightarrow> pupil_point w1 l = \<lparr>pt_x = (4 - int k) mod 8, pt_y = 4\<rparr> \<and>
                pupil_point w1 r = \<lparr>pt_x = (4 - int k) mod 8, pt_y = 4\<rparr>)"
proof (cases "k = 0")
  case True
  with kept show ?thesis
    by (simp add: spin_step_centred [OF c] LinearAnimation_tick_def Look_animate'_def Let_def)
next
  case False
  let ?w1 = "moved l (4 - int k) 4 w"
  let ?w2 = "moved r (4 - int k) 4 ?w1"
  from kept have o: "pupil (eyes w0 l) < next_ref w" "pupil (eyes w0 r) < next_ref w"
    "heap w (pupil (eyes w0 l)) = \<lparr>pt_x = 4, pt_y = 4\<rparr>"
    "heap w (pupil (eyes w0 r)) = \<lparr>pt_x = 4, pt_y = 4\<rparr>"
    by (simp_all add: origins_kept_def)
  from k have small: "\<bar>- int k\<bar> < 2 ^ 52" by simp
  have t1: "tick (Look (Some t) False ms l (pupil (eyes w0 l)) (next_ref w0 + 2 * k) (- int k) 0)
      now w = Inr (Look (Some t) True ms l (pupil (eyes w0 l)) (next_ref w0 + 2 * k) (- int k) 0,
                   ?w1)"
    using tick_Look_complete [OF ms gap _ small, of w "pupil (eyes w0 l)" 0 l]
    by (simp add: o moved_def)
  have h1: "heap ?w1 (pupil (eyes w0 r)) = \<lparr>pt_x = 4, pt_y = 4\<rparr>"
    using o by (simp add: moved_facts)
  have t2: "tick (Look (Some t) False ms r (pupil (eyes w0 r)) (next_ref w0 + 2 * k + 1)
        (- int k) 0) now ?w1
      = Inr (Look (Some t) True ms r (pupil (eyes w0 r)) (next_ref w0 + 2 * k + 1) (- int k) 0,
             ?w2)"
    using tick_Look_complete [OF ms gap _ small, of ?w1 "pupil (eyes w0 r)" 0 r]
    unfolding h1 by (simp add: moved_def [of r] moved_facts)
  have tk: "tick (anim_begin t (spin_step ms l r w0 k)) now w =
      Inr (AnimationGroup (Some t) True
             [Look (Some t) True ms l (pupil (eyes w0 l)) (next_ref w0 + 2 * k) (- int k) 0,
              Look (Some t) True ms r (pupil (eyes w0 r)) (next_ref w0 + 2 * k + 1) (- int k) 0],
           ?w2)"
    using False t1 t2 by (simp add: spin_step_centred [OF c])
  have k2: "origins_kept l r w0 ?w2"
    using o by (simp add: origins_kept_def moved_facts)
  have pr: "pupil_point ?w2 r = \<lparr>pt_x = (4 - int k) mod 8, pt_y = 4\<rparr>"
    by (simp add: moved_facts)
  have "pupil_point ?w2 l = heap ?w2 (pupil (eyes ?w1 l))"
    using lr by (simp add: pupil_point_def moved_facts)
  also have "\<dots> = heap ?w1 (pupil (eyes ?w1 l))"
    by (simp add: moved_facts)
  also have "\<dots> = \<lparr>pt_x = (4 - int k) mod 8, pt_y = 4\<rparr>"
    using moved_facts(3) [of l "4 - int k" 4 w] by (simp add: pupil_point_def)
  finally have pl: "pupil_point ?w2 l = \<lparr>pt_x = (4 - int k) mod 8, pt_y = 4\<rparr>" .
  from tk k2 pr pl False show ?thesis by simp
qed


lemma spin_play:
  assumes lr: "l \<noteq> r" and ms: "0 \<le> ms" "ms \<le> 10 ^ 9" and n: "n \<le> 16"
    and c: "pupil_point w0 l = \<lparr>pt_x = 4, pt_y = 4\<rparr>" "pupil_point w0 r = \<lparr>pt_x = 4, pt_y = 4\<rparr>"
  shows "i + Suc m \<le> n \<Longrightarrow> length ts = 2 * Suc m \<Longrightarrow> spaced ms ts \<Longrightarrow>
    act = None \<or> (\<exists>a. act = Some a \<and> is_done a) \<Longrightarrow> origins_kept l r w0 w \<Longrightarrow>
    (i = 0 \<longrightarrow> pupil_point w l = \<lparr>pt_x = 4, pt_y = 4\<rparr> \<and>
               pupil_point w r = \<lparr>pt_x = 4, pt_y = 4\<rparr>) \<Longrightarrow>
    \<exists>A w1. ticks (AnimationSequence st d (map (spin_step ms l r w0) [i..<n]) act) ts w
        = Inr (AnimationSequence st d (map (spin_step ms l r w0) [i + Suc m..<n]) (Some A), w1) \<and>
      is_done A \<and> origins_kept l r w0 w1 \<and>
      pupil_point w1 l = \<lparr>pt_x = (4 - int (i + m)) mod 8, pt_y = 4\<rparr> \<and>
      pupil_point w1 r = \<lparr>pt_x = (4 - int (i + m)) mod 8, pt_y = 4\<rparr>"
proof (induction m arbitrary: i ts act w)
  case 0
  from "0.prems"(2) obtain t1 t2 where ts: "ts = [t1, t2]"
    by (cases ts; cases "tl ts") auto
  from "0.prems"(3) ts have gap: "ms * 1000 < t2 - t1" by simp
  from "0.prems"(1) have up: "[i..<n] = i # [Suc i..<n]" by (simp add: upt_conv_Cons)
  from "0.prems"(1) n have i: "i < 16" by simp
  have nd: "\<not> is_done (anim_begin t1 (spin_step ms l r w0 i))"
    by (simp add: spin_step_def)
  from spin_step_tick [OF lr ms gap i c "0.prems"(5)] obtain A w1 where
    t: "tick (anim_begin t1 (spin_step ms l r w0 i)) t2 w = Inr (A, w1)" and
    A: "is_done A" "origins_kept l r w0 w1" "i = 0 \<longrightarrow> w1 = w"
      "0 < i \<longrightarrow> pupil_point w1 l = \<lparr>pt_x = (4 - int i) mod 8, pt_y = 4\<rparr> \<and>
                 pupil_point w1 r = \<lparr>pt_x = (4 - int i) mod 8, pt_y = 4\<rparr>"
    by blast
  have run: "ticks (AnimationSequence st d (map (spin_step ms l r w0) [i..<n]) act) ts w
      = Inr (AnimationSequence st d (map (spin_step ms l r w0) [Suc i..<n]) (Some A), w1)"
    unfolding ts up using "0.prems"(4) nd t by (auto simp del: anim_begin.simps)
  have pos: "pupil_point w1 l = \<lparr>pt_x = (4 - int i) mod 8, pt_y = 4\<rparr> \<and>
      pupil_point w1 r = \<lparr>pt_x = (4 - int i) mod 8, pt_y = 4\<rparr>"
    using A(3,4) "0.prems"(6) by (cases "i = 0") simp_all
  from run A(1,2) pos show ?case by simp
next
  case (Suc m)
  from Suc.prems(2) obtain t1 t2 ts' where ts: "ts = t1 # t2 # ts'" and
    len: "length ts' = 2 * Suc m"
    by (cases ts; cases "tl ts") auto
  from Suc.prems(3) ts have gap: "ms * 1000 < t2 - t1" and sp: "spaced ms ts'"
    by (auto dest: spaced_tl)
  from Suc.prems(1) have up: "[i..<n] = i # [Suc i..<n]" by (simp add: upt_conv_Cons)
  from Suc.prems(1) n have i: "i < 16" by simp
  have nd: "\<not> is_done (anim_begin t1 (spin_step ms l r w0 i))"
    by (simp add: spin_step_def)
  from spin_step_tick [OF lr ms gap i c Suc.prems(5)] obtain A w1 where
    t: "tick (anim_begin t1 (spin_step ms l r w0 i)) t2 w = Inr (A, w1)" and
    A: "is_done A" "origins_kept l r w0 w1"
    by blast
  have run: "ticks (AnimationSequence st d (map (spin_step ms l r w0) [i..<n]) act) ts w
      = ticks (AnimationSequence st d (map (spin_step ms l r w0) [Suc i..<n]) (Some A)) ts' w1"
    unfolding ts up using Suc.prems(4) nd t by (auto simp del: anim_begin.simps)
  from Suc.prems(1) have b: "Suc i + Suc m \<le> n" by simp
  from Suc.IH [OF b len sp _ A(2), of "Some A"] A(1)
  show ?case unfolding run by simp
qed


lemma pupils_exist_init_world: "pupils_exist init_world"
  unfolding pupils_exist_def
proof
  fix e show "pupil (eyes init_world e) < next_ref init_world"
    by (cases e) (simp_all add: init_world_facts)
qed

text \<open>
  C5 as stated fails at the first step: played from the default position, the first group
  is done after two ticks 100 ms apart, and the eyes, the device and the points are as
  they were: the pupil is still in column 4.
\<close>

theorem CrazySpin_steps_counterexample:
  "ticks (fst (CrazySpin_init Left_eye Right_eye None init_world)) [0, 100000]
       (snd (CrazySpin_init Left_eye Right_eye None init_world))
     = Inr (AnimationSequence None False
              (tl (animations (fst (CrazySpin_init Left_eye Right_eye None init_world))))
              (Some (AnimationGroup (Some 0) True
                       [Look (Some 0) True 25 Left_eye 0 2 0 0,
                        Look (Some 0) True 25 Right_eye 1 3 0 0])),
            snd (CrazySpin_init Left_eye Right_eye None init_world)) \<and>
   pupil_point init_world Left_eye = \<lparr>pt_x = 4, pt_y = 4\<rparr> \<and>
   pupil_point (snd (CrazySpin_init Left_eye Right_eye None init_world)) Left_eye
     = \<lparr>pt_x = 4, pt_y = 4\<rparr>"
proof -
  let ?C = "CrazySpin_init Left_eye Right_eye None init_world"
  note s = CrazySpin_init_spin [OF pupils_exist_init_world, of Left_eye Right_eye None]
  have up: "[0..<16] = 0 # [1..<16]" by (simp add: upt_conv_Cons)
  have g0: "spin_step 25 Left_eye Right_eye init_world 0
      = AnimationGroup None False
          [Look None True 25 Left_eye 0 2 0 0, Look None True 25 Right_eye 1 3 0 0]"
    by (simp add: spin_step_def pupil_point_def init_world_facts)
  have C: "fst ?C = AnimationSequence None False
      (spin_step 25 Left_eye Right_eye init_world 0
         # map (spin_step 25 Left_eye Right_eye init_world) [1..<16]) None"
    using s(1) unfolding up by simp
  have run: "ticks (fst ?C) [0, 100000] (snd ?C)
     = Inr (AnimationSequence None False (tl (animations (fst ?C)))
              (Some (AnimationGroup (Some 0) True
                       [Look (Some 0) True 25 Left_eye 0 2 0 0,
                        Look (Some 0) True 25 Right_eye 1 3 0 0])),
            snd ?C)"
    unfolding C g0 by (simp add: LinearAnimation_tick_def Look_animate'_def dt_100000)
  have p0: "pupil_point init_world Left_eye = \<lparr>pt_x = 4, pt_y = 4\<rparr>"
    by (simp add: pupil_point_def init_world_facts)
  from s(2) have "heap (snd ?C) 0 = heap init_world 0"
    by (simp add: heap_kept_def init_world_facts)
  then have p1: "pupil_point (snd ?C) Left_eye = \<lparr>pt_x = 4, pt_y = 4\<rparr>"
    by (simp add: pupil_point_def s(3) init_world_facts)
  from run p0 p1 show ?thesis by simp
qed

text \<open>
  C5 as the code has it. \<^verbatim>\<open>CrazySpin\<close> with the default duration, constructed for two
  different eyes whose pupils are at \<open>(4, 4)\<close>, queues 16 groups; group \<open>k\<close> holds one
  \<^verbatim>\<open>Look\<close> of 25 ms per eye towards column \<open>4 - k\<close> of row 4, and the two of group 0 are
  done from their construction (they aim at the column the pupil is in). Ticked at times
  that are each more than 25 ms after the one before, the sequence completes step \<open>m\<close>
  (counted from 0) with its tick number \<open>2 * (m + 1)\<close>, and both pupils are then at
  column \<open>(4 - m) mod 8\<close> of row 4: step 0 moves nothing, and each of the steps 1 to 15
  leaves the pupils one column to the left, modulo 8, of where the step before left them.
\<close>

theorem CrazySpin_steps:
  assumes lr: "l \<noteq> r" and ex: "pupils_exist w"
    and c: "pupil_point w l = \<lparr>pt_x = 4, pt_y = 4\<rparr>" "pupil_point w r = \<lparr>pt_x = 4, pt_y = 4\<rparr>"
  shows "length (animations (fst (CrazySpin_init l r None w))) = 16 \<and>
    (\<forall>k<16. animations (fst (CrazySpin_init l r None w)) ! k =
       AnimationGroup None False
         [Look None (k = 0) 25 l (pupil (eyes w l)) (next_ref w + 2 * k) (- int k) 0,
          Look None (k = 0) 25 r (pupil (eyes w r)) (next_ref w + 2 * k + 1) (- int k) 0]) \<and>
    (\<forall>ts m. m < 16 \<and> length ts = 2 * Suc m \<and> spaced 25 ts \<longrightarrow>
       (\<exists>A w1. ticks (fst (CrazySpin_init l r None w)) ts (snd (CrazySpin_init l r None w))
            = Inr (AnimationSequence None False
                     (drop (Suc m) (animations (fst (CrazySpin_init l r None w)))) (Some A), w1) \<and>
          is_done A \<and>
          pupil_point w1 l = \<lparr>pt_x = (4 - int m) mod 8, pt_y = 4\<rparr> \<and>
          pupil_point w1 r = \<lparr>pt_x = (4 - int m) mod 8, pt_y = 4\<rparr>)) \<and>
    (\<forall>m. (4 - int (Suc m)) mod 8 = ((4 - int m) mod 8 - 1) mod 8)"
proof -
  let ?C = "CrazySpin_init l r None w"
  let ?gs = "map (spin_step 25 l r w) [0..<16]"
  have C: "fst ?C = AnimationSequence None False ?gs None"
    using CrazySpin_init_spin(1) [OF ex, of l r None] by simp
  have an: "animations (fst ?C) = ?gs" unfolding C by simp
  have p1: "length (animations (fst ?C)) = 16" unfolding an by simp
  have p2: "\<forall>k<16. animations (fst ?C) ! k =
       AnimationGroup None False
         [Look None (k = 0) 25 l (pupil (eyes w l)) (next_ref w + 2 * k) (- int k) 0,
          Look None (k = 0) 25 r (pupil (eyes w r)) (next_ref w + 2 * k + 1) (- int k) 0]"
    unfolding an by (simp add: spin_step_centred [OF c] del: upt.simps upt_Suc)
  have hk: "heap_kept w (snd ?C)" and ey: "eyes (snd ?C) = eyes w"
    using CrazySpin_init_spin(2,3) [OF ex] by simp_all
  from ex have lt: "pupil (eyes w l) < next_ref w" "pupil (eyes w r) < next_ref w"
    by (simp_all add: pupils_exist_def)
  with hk have hp: "heap (snd ?C) (pupil (eyes w l)) = heap w (pupil (eyes w l))"
    "heap (snd ?C) (pupil (eyes w r)) = heap w (pupil (eyes w r))"
    "next_ref w \<le> next_ref (snd ?C)"
    by (simp_all add: heap_kept_def)
  with lt c have ok: "origins_kept l r w (snd ?C)"
    by (simp add: origins_kept_def pupil_point_def)
  from hp c have start: "pupil_point (snd ?C) l = \<lparr>pt_x = 4, pt_y = 4\<rparr>"
    "pupil_point (snd ?C) r = \<lparr>pt_x = 4, pt_y = 4\<rparr>"
    by (simp_all add: pupil_point_def ey)
  have p3: "\<exists>A w1. ticks (fst ?C) ts (snd ?C)
            = Inr (AnimationSequence None False (drop (Suc m) (animations (fst ?C))) (Some A), w1) \<and>
          is_done A \<and>
          pupil_point w1 l = \<lparr>pt_x = (4 - int m) mod 8, pt_y = 4\<rparr> \<and>
          pupil_point w1 r = \<lparr>pt_x = (4 - int m) mod 8, pt_y = 4\<rparr>"
    if "m < 16 \<and> length ts = 2 * Suc m \<and> spaced 25 ts" for ts m
  proof -
    from that have b: "0 + Suc m \<le> 16" and len: "length ts = 2 * Suc m" and sp: "spaced 25 ts"
      by simp_all
    have dr: "drop (Suc m) ?gs = map (spin_step 25 l r w) [Suc m..<16]"
      by (simp add: drop_map del: upt.simps upt_Suc)
    from spin_play [OF lr _ _ _ c b len sp _ ok, of None None False] start
    obtain A w1 where "ticks (AnimationSequence None False ?gs None) ts (snd ?C)
        = Inr (AnimationSequence None False (map (spin_step 25 l r w) [Suc m..<16]) (Some A), w1)"
      "is_done A" "pupil_point w1 l = \<lparr>pt_x = (4 - int m) mod 8, pt_y = 4\<rparr>"
      "pupil_point w1 r = \<lparr>pt_x = (4 - int m) mod 8, pt_y = 4\<rparr>"
      by auto
    then show ?thesis unfolding an dr unfolding C by blast
  qed
  have p4: "\<forall>m. (4 - int (Suc m)) mod 8 = ((4 - int m) mod 8 - 1) mod 8"
    by (simp add: mod_diff_left_eq algebra_simps)
  from p1 p2 p3 p4 show ?thesis by blast
qed


theorem CrazySpin_steps_witness:
  "Left_eye \<noteq> Right_eye \<and> pupils_exist init_world \<and>
   pupil_point init_world Left_eye = \<lparr>pt_x = 4, pt_y = 4\<rparr> \<and>
   pupil_point init_world Right_eye = \<lparr>pt_x = 4, pt_y = 4\<rparr> \<and>
   length (animations (fst (CrazySpin_init Left_eye Right_eye None init_world))) = 16 \<and>
   animations (fst (CrazySpin_init Left_eye Right_eye None init_world)) ! 5
     = AnimationGroup None False
         [Look None False 25 Left_eye 0 12 (- 5) 0, Look None False 25 Right_eye 1 13 (- 5) 0] \<and>
   spaced 25 [0, 100000, 200000, 300000] \<and>
   (\<exists>A w1. ticks (fst (CrazySpin_init Left_eye Right_eye None init_world))
        [0, 100000, 200000, 300000] (snd (CrazySpin_init Left_eye Right_eye None init_world))
      = Inr (AnimationSequence None False
               (drop 2 (animations (fst (CrazySpin_init Left_eye Right_eye None init_world))))
               (Some A), w1) \<and>
      is_done A \<and> pupil_point w1 Left_eye = \<lparr>pt_x = 3, pt_y = 4\<rparr> \<and>
      pupil_point w1 Right_eye = \<lparr>pt_x = 3, pt_y = 4\<rparr>)"
proof -
  have p: "pupil_point init_world Left_eye = \<lparr>pt_x = 4, pt_y = 4\<rparr>"
    "pupil_point init_world Right_eye = \<lparr>pt_x = 4, pt_y = 4\<rparr>"
    by (simp_all add: pupil_point_def init_world_facts)
  have ne: "Left_eye \<noteq> Right_eye" by simp
  note T = CrazySpin_steps [OF ne pupils_exist_init_world p]
  from T have len: "length (animations (fst (CrazySpin_init Left_eye Right_eye None init_world)))
      = 16"
    by blast
  from T have "\<forall>k<16. animations (fst (CrazySpin_init Left_eye Right_eye None init_world)) ! k =
       AnimationGroup None False
         [Look None (k = 0) 25 Left_eye (pupil (eyes init_world Left_eye))
            (next_ref init_world + 2 * k) (- int k) 0,
          Look None (k = 0) 25 Right_eye (pupil (eyes init_world Right_eye))
            (next_ref init_world + 2 * k + 1) (- int k) 0]"
    by blast
  from this [rule_format, of 5] have g5:
    "animations (fst (CrazySpin_init Left_eye Right_eye None init_world)) ! 5
     = AnimationGroup None False
         [Look None False 25 Left_eye 0 12 (- 5) 0, Look None False 25 Right_eye 1 13 (- 5) 0]"
    by (simp add: init_world_facts)
  from T have "\<forall>ts m. m < 16 \<and> length ts = 2 * Suc m \<and> spaced 25 ts \<longrightarrow>
       (\<exists>A w1. ticks (fst (CrazySpin_init Left_eye Right_eye None init_world)) ts
              (snd (CrazySpin_init Left_eye Right_eye None init_world))
            = Inr (AnimationSequence None False
                     (drop (Suc m)
                        (animations (fst (CrazySpin_init Left_eye Right_eye None init_world))))
                     (Some A), w1) \<and>
          is_done A \<and>
          pupil_point w1 Left_eye = \<lparr>pt_x = (4 - int m) mod 8, pt_y = 4\<rparr> \<and>
          pupil_point w1 Right_eye = \<lparr>pt_x = (4 - int m) mod 8, pt_y = 4\<rparr>)"
    by blast
  from this [rule_format, of 1 "[0, 100000, 200000, 300000]"]
  have run: "\<exists>A w1. ticks (fst (CrazySpin_init Left_eye Right_eye None init_world))
        [0, 100000, 200000, 300000] (snd (CrazySpin_init Left_eye Right_eye None init_world))
      = Inr (AnimationSequence None False
               (drop 2 (animations (fst (CrazySpin_init Left_eye Right_eye None init_world))))
               (Some A), w1) \<and>
      is_done A \<and> pupil_point w1 Left_eye = \<lparr>pt_x = 3, pt_y = 4\<rparr> \<and>
      pupil_point w1 Right_eye = \<lparr>pt_x = 3, pt_y = 4\<rparr>"
    by (simp add: numeral_2_eq_2)
  from ne pupils_exist_init_world p len g5 run show ?thesis by simp
qed

subsection \<open>The wait of the refill\<close>

text \<open>
  C4 on the code. The second animation of every refill is \<^verbatim>\<open>Wait(random.randint(5,7) * 500)\<close>,
  and its duration is 300 ms whatever was drawn: the one positional argument is bound to
  the parameter \<open>eye\<close> of \<^verbatim>\<open>Wait.__init__\<close>, and \<open>duration_ms\<close> keeps its default.
\<close>

theorem refill_Wait_duration:
  "animations (fst (refill rnd w)) ! 1 = Wait_init (r_wait rnd * 500) None \<and>
   Wait_init (r_wait rnd * 500) None = Wait None False 300 \<and>
   duration_ms (animations (fst (refill rnd w)) ! 1) = 300 \<and>
   Wait_init (5 * 500) None = Wait None False 300"
  by (simp add: refill_def Let_def case_prod_beta AnimationSequence_init_def Wait_init_def)

end
